(* ===== verification/Prelude.thy ===== *)
theory Prelude
  imports Complex_Main "HOL-Library.Word"
begin

text \<open>
  Shared vocabulary of the development: the types that name the program's data (colour
  frames, uniform tables, analyser bytes), the JavaScript errors the model raises, the GLSL
  \<open>mix\<close> built-in that the blend shader uses, and the generic lemmas on lists, frames and
  bytes that the component theories use.  JavaScript numbers are modelled as exact reals
  (the program only adds, multiplies and divides small values, and the claims are about
  the arithmetic the code means, not about IEEE rounding); the analyser's byte buckets are
  \<open>8 word\<close>, as the \<open>Uint8Array\<close> of the Web Audio API holds them.
\<close>

named_theorems frame_simps "facts about colour frames used by the compositor proofs"

section \<open>Types of the model\<close>

type_synonym byte = "8 word"

text \<open>A colour frame: the channel values of a render target, row-major RGBA, in [0,1].\<close>
type_synonym frame = "real list"

text \<open>\<open>material.uniforms\<close>: uniform name to the \<open>value\<close> of its \<open>{value: ...}\<close> box.\<close>
type_synonym uniforms = "string \<rightharpoonup> real"

text \<open>Decoded PCM samples of an \<open>AudioBuffer\<close>.\<close>
type_synonym pcm = "real list"

text \<open>Exceptions the modelled JavaScript can raise.\<close>
datatype js_error =
    TypeError string   \<comment> \<open>property write through \<open>undefined\<close>\<close>
  | IndexSizeError     \<comment> \<open>\<open>AnalyserNode.fftSize\<close> out of range (DOMException)\<close>

section \<open>GLSL built-ins\<close>

text \<open>GLSL \<open>mix(x, y, a) = x * (1 - a) + y * a\<close>, applied per channel.\<close>
definition mix :: "real \<Rightarrow> real \<Rightarrow> real \<Rightarrow> real" where
  "mix x y a = x * (1 - a) + y * a"

section \<open>Generic lemmas\<close>

lemma mix_same [simp]: "mix x x a = x"
  by (simp add: mix_def algebra_simps)

lemma mix_towards: "mix c h a - c = a * (h - c)"
  by (simp add: mix_def algebra_simps)

lemma mix_bounds:
  assumes "0 \<le> a" "a \<le> 1" "lo \<le> x" "x \<le> hi" "lo \<le> y" "y \<le> hi"
  shows "lo \<le> mix x y a \<and> mix x y a \<le> hi"
proof -
  have e: "mix x y a = x * (1 - a) + y * a" by (simp add: mix_def)
  have "lo * (1 - a) \<le> x * (1 - a)" "lo * a \<le> y * a"
    using assms by (simp_all add: mult_right_mono)
  moreover have "x * (1 - a) \<le> hi * (1 - a)" "y * a \<le> hi * a"
    using assms by (simp_all add: mult_right_mono)
  ultimately show ?thesis
    unfolding e by (simp add: right_diff_distrib)
qed

lemma length_map2 [frame_simps, simp]: "length (map2 f xs ys) = min (length xs) (length ys)"
  by simp

lemma nth_map2 [frame_simps]:
  "i < length xs \<Longrightarrow> i < length ys \<Longrightarrow> map2 f xs ys ! i = f (xs ! i) (ys ! i)"
  by simp

lemma map2_same_length_eqI:
  assumes "length xs = length ys" "length zs = length xs"
    and "\<And>i. i < length xs \<Longrightarrow> zs ! i = f (xs ! i) (ys ! i)"
  shows "map2 f xs ys = zs"
  using assms by (intro nth_equalityI) auto

lemma unat_byte_le [simp]: "unat (b :: byte) \<le> 255"
proof -
  have "unat b < 2 ^ LENGTH(8)" by (rule unsigned_less)
  then show ?thesis by simp
qed

lemma in_concat_mapI: "y \<in> set xs \<Longrightarrow> x \<in> set (f y) \<Longrightarrow> x \<in> set (concat (map f xs))"
  by auto

end
