(* ===== verification/Scene.thy ===== *)
theory Scene
  imports Prelude
begin

text \<open>
  The scene objects \<open>startApp\<close> builds before the mesh (src/src/app.js lines 68--69 and
  86): the two lights, and the mesh's geometry \<open>new THREE.IcosahedronGeometry(2, 200)\<close>.
  The geometry is three.js library code outside src/, modelled from its source
  (\<open>PolyhedronGeometry\<close>): each of the icosahedron's 20 faces is subdivided by
  \<open>subdivideFace\<close>, which fills a triangular grid \<open>v[i][j]\<close> of points by linear
  interpolation and then pushes three grid points per small triangle into a
  non-indexed vertex buffer; \<open>applyRadius\<close> finally scales every vertex onto the sphere
  of the given radius.  Points are triples of reals; the grid point of row \<open>i\<close> and
  column \<open>j\<close> is \<open>subdivide_grid\<close>, the loop's reads of the grid are the index pairs
  \<open>subdivide_indices\<close>, and \<open>subdivide_face\<close> is the vertices the face pushes.
  The lights are records of what their constructors store.
\<close>

section \<open>Points\<close>

type_synonym vec3 = "real \<times> real \<times> real"

text \<open>\<open>Vector3.lerp(v, alpha)\<close>: \<open>this.x += (v.x - this.x) * alpha\<close>, per coordinate.\<close>

fun lerp3 :: "vec3 \<Rightarrow> vec3 \<Rightarrow> real \<Rightarrow> vec3" where
  "lerp3 (x1, y1, z1) (x2, y2, z2) t = (x1 + (x2 - x1) * t, y1 + (y2 - y1) * t, z1 + (z2 - z1) * t)"

fun scale3 :: "real \<Rightarrow> vec3 \<Rightarrow> vec3" where
  "scale3 s (x, y, z) = (s * x, s * y, s * z)"

fun dot3 :: "vec3 \<Rightarrow> vec3 \<Rightarrow> real" where
  "dot3 (x1, y1, z1) (x2, y2, z2) = x1 * x2 + y1 * y2 + z1 * z2"

text \<open>\<open>w1 a + w2 b + w3 c\<close>.\<close>

fun comb3 :: "real \<Rightarrow> vec3 \<Rightarrow> real \<Rightarrow> vec3 \<Rightarrow> real \<Rightarrow> vec3 \<Rightarrow> vec3" where
  "comb3 w1 (x1, y1, z1) w2 (x2, y2, z2) w3 (x3, y3, z3) =
     (w1 * x1 + w2 * x2 + w3 * x3, w1 * y1 + w2 * y2 + w3 * y3, w1 * z1 + w2 * z2 + w3 * z3)"

section \<open>PolyhedronGeometry.subdivideFace\<close>

text \<open>
  The grid: \<open>aj = a.lerp(c, i / cols)\<close>, \<open>bj = b.lerp(c, i / cols)\<close>,
  \<open>rows = cols - i\<close>, and \<open>v[i][j] = aj\<close> at the apex (\<open>j = 0\<close>, \<open>i = cols\<close>,
  where \<open>j / rows\<close> would be \<open>0 / 0\<close>), \<open>aj.lerp(bj, j / rows)\<close> elsewhere.
  In JavaScript \<open>0 / 0\<close> is NaN and the guard keeps the apex finite; HOL's \<open>0 / 0 = 0\<close>
  gives \<open>aj\<close> either way, so in the model the guard has no effect.
\<close>

definition subdivide_grid :: "vec3 \<Rightarrow> vec3 \<Rightarrow> vec3 \<Rightarrow> nat \<Rightarrow> nat \<Rightarrow> nat \<Rightarrow> vec3" where
  "subdivide_grid a b c cols i j =
     (let aj = lerp3 a c (real i / real cols);
          bj = lerp3 b c (real i / real cols);
          rows = cols - i
      in if j = 0 \<and> i = cols then aj else lerp3 aj bj (real j / real rows))"

text \<open>
  The reads of the second loop: for \<open>i < cols\<close> and \<open>j < 2 (cols - i) - 1\<close>, with
  \<open>k = floor(j / 2)\<close>, the even \<open>j\<close> push \<open>v[i][k+1], v[i+1][k], v[i][k]\<close> and the
  odd \<open>j\<close> push \<open>v[i][k+1], v[i+1][k+1], v[i+1][k]\<close>.
\<close>

definition subdivide_indices :: "nat \<Rightarrow> (nat \<times> nat) list" where
  "subdivide_indices cols =
     concat (map (\<lambda>i. concat (map (\<lambda>j. let k = j div 2 in
         if j mod 2 = 0 then [(i, k + 1), (i + 1, k), (i, k)]
         else [(i, k + 1), (i + 1, k + 1), (i + 1, k)])
       [0..<2 * (cols - i) - 1])) [0..<cols])"

definition subdivide_face :: "vec3 \<Rightarrow> vec3 \<Rightarrow> vec3 \<Rightarrow> nat \<Rightarrow> vec3 list" where
  "subdivide_face a b c detail =
     map (\<lambda>(i, j). subdivide_grid a b c (detail + 1) i j) (subdivide_indices (detail + 1))"

section \<open>IcosahedronGeometry\<close>

definition ico_t :: real where
  "ico_t = (1 + sqrt 5) / 2"

text \<open>The faces, three indices at a time (\<open>for (i = 0; i < indices.length; i += 3)\<close>).\<close>

definition polyhedron_faces :: "vec3 list \<Rightarrow> nat list \<Rightarrow> (vec3 \<times> vec3 \<times> vec3) list" where
  "polyhedron_faces vs is =
     map (\<lambda>f. (vs ! (is ! (3 * f)), vs ! (is ! (3 * f + 1)), vs ! (is ! (3 * f + 2))))
       [0..<length is div 3]"

text \<open>\<open>vertex.normalize().multiplyScalar(radius)\<close>; \<open>normalize\<close> divides by the length,
  or by 1 when the length is 0.\<close>

definition apply_radius :: "real \<Rightarrow> vec3 \<Rightarrow> vec3" where
  "apply_radius r p =
     (let l = sqrt (dot3 p p) in scale3 r (scale3 (1 / (if l = 0 then 1 else l)) p))"

record geometry =
  geometry_position :: "vec3 list"   \<comment> \<open>the non-indexed position attribute\<close>

definition polyhedron_geometry :: "vec3 list \<Rightarrow> nat list \<Rightarrow> real \<Rightarrow> nat \<Rightarrow> geometry" where
  "polyhedron_geometry vs is radius detail =
     \<lparr>geometry_position = map (apply_radius radius)
        (concat (map (\<lambda>(a, b, c). subdivide_face a b c detail) (polyhedron_faces vs is)))\<rparr>"

text \<open>
  \<open>IcosahedronGeometry(radius, detail)\<close>: the 12 vertices \<open>(\<plusminus>1, \<plusminus>t, 0)\<close>,
  \<open>(0, \<plusminus>1, \<plusminus>t)\<close>, \<open>(\<plusminus>t, 0, \<plusminus>1)\<close> with \<open>t\<close> the golden ratio, and the 20 faces
  as 60 indices, in three.js's order.
\<close>

definition icosahedron_geometry :: "real \<Rightarrow> nat \<Rightarrow> geometry" where
  "icosahedron_geometry radius detail =
     polyhedron_geometry
       [(-1, ico_t, 0), (1, ico_t, 0), (-1, -ico_t, 0), (1, -ico_t, 0),
        (0, -1, ico_t), (0, 1, ico_t), (0, -1, -ico_t), (0, 1, -ico_t),
        (ico_t, 0, -1), (ico_t, 0, 1), (-ico_t, 0, -1), (-ico_t, 0, 1)]
       [0, 11, 5, 0, 5, 1, 0, 1, 7, 0, 7, 10, 0, 10, 11,
        1, 5, 9, 5, 11, 4, 11, 10, 2, 10, 7, 6, 7, 1, 8,
        3, 9, 4, 3, 4, 2, 3, 2, 6, 3, 6, 8, 3, 8, 9,
        4, 9, 5, 2, 4, 11, 6, 2, 10, 8, 6, 7, 9, 8, 1]
       radius detail"

text \<open>Line 86: \<open>new THREE.IcosahedronGeometry(2, 200)\<close>.\<close>

definition ico_geometry :: geometry where
  "ico_geometry = icosahedron_geometry 2 200"

section \<open>Lights\<close>

datatype light_kind = DirectionalLight | AmbientLight

record light =
  light_kind :: light_kind
  light_color :: string
  light_intensity :: real

text \<open>Line 68, \<open>new THREE.DirectionalLight('#ffffff', 1)\<close>.\<close>

definition dirLight :: light where
  "dirLight = \<lparr>light_kind = DirectionalLight, light_color = ''#ffffff'', light_intensity = 1\<rparr>"

text \<open>Line 69, \<open>new THREE.AmbientLight('#ffffff', 0.5)\<close>.\<close>

definition ambientLight :: light where
  "ambientLight = \<lparr>light_kind = AmbientLight, light_color = ''#ffffff'', light_intensity = 0.5\<rparr>"

section \<open>Lemmas\<close>

lemma sum_list_odd_rev: "sum_list (map (\<lambda>i. 2 * (n - i) - 1) [0..<n]) = n * n"
proof (induction n)
  case 0
  then show ?case by simp
next
  case (Suc n)
  have "map (\<lambda>i. 2 * (Suc n - i) - 1) [0..<Suc n] = (2 * Suc n - 1) # map (\<lambda>i. 2 * (n - i) - 1) [0..<n]"
    by (simp add: map_upt_Suc del: upt_Suc)
  with Suc show ?case by simp
qed

lemma length_subdivide_indices: "length (subdivide_indices cols) = 3 * (cols * cols)"
proof -
  have "length (subdivide_indices cols) = sum_list (map (\<lambda>i. 3 * (2 * (cols - i) - 1)) [0..<cols])"
    by (simp add: subdivide_indices_def length_concat comp_def Let_def if_distrib [of length]
        sum_list_triv cong: if_cong) (intro arg_cong [where f = sum_list] map_cong, simp_all)
  also have "\<dots> = 3 * sum_list (map (\<lambda>i. 2 * (cols - i) - 1) [0..<cols])"
    by (simp add: sum_list_const_mult)
  finally show ?thesis using sum_list_odd_rev [of cols] by simp
qed

lemma set_subdivide_indices:
  "(i, j) \<in> set (subdivide_indices cols) \<Longrightarrow> i \<le> cols \<and> j \<le> cols - i"
  by (auto simp: subdivide_indices_def Let_def split: if_splits; presburger)

lemma subdivide_indices_memI:
  assumes "i < cols" "j' < 2 * (cols - i) - 1"
    and "x \<in> set (if j' mod 2 = 0 then [(i, j' div 2 + 1), (i + 1, j' div 2), (i, j' div 2)]
                     else [(i, j' div 2 + 1), (i + 1, j' div 2 + 1), (i + 1, j' div 2)])"
  shows "x \<in> set (subdivide_indices cols)"
  unfolding subdivide_indices_def
  apply (rule in_concat_mapI [of i], simp add: assms(1))
  apply (rule in_concat_mapI [of j'], use assms(2) in simp)
  using assms(3) by (simp add: Let_def)

lemma lerp3_comb_ac: "lerp3 a c t = comb3 (1 - t) a 0 b t c"
  by (cases a; cases b; cases c) (simp add: algebra_simps)

lemma lerp3_comb_bc: "lerp3 b c t = comb3 0 a (1 - t) b t c"
  by (cases a; cases b; cases c) (simp add: algebra_simps)

lemma lerp3_face:
  "lerp3 (comb3 (1 - s) a 0 b s c) (comb3 0 a (1 - s) b s c) u =
     comb3 ((1 - s) * (1 - u)) a ((1 - s) * u) b s c"
  by (cases a; cases b; cases c) (simp add: algebra_simps)

text \<open>A grid point in its barycentric coordinates with respect to the face.\<close>

lemma subdivide_grid_comb:
  assumes "0 < cols" "i \<le> cols" "j \<le> cols - i"
  shows "\<exists>s u. 0 \<le> s \<and> s \<le> 1 \<and> 0 \<le> u \<and> u \<le> 1 \<and>
           subdivide_grid a b c cols i j = comb3 ((1 - s) * (1 - u)) a ((1 - s) * u) b s c"
proof -
  let ?s = "real i / real cols"
  have s: "0 \<le> ?s" "?s \<le> 1" using assms(1,2) by simp_all
  note aj = lerp3_comb_ac [of a c ?s b] and bj = lerp3_comb_bc [of b c ?s a]
  show ?thesis
  proof (cases "j = 0 \<and> i = cols")
    case True
    then have "subdivide_grid a b c cols i j = comb3 ((1 - ?s) * (1 - 0)) a ((1 - ?s) * 0) b ?s c"
      using aj by (simp add: subdivide_grid_def Let_def)
    with s show ?thesis by (rule_tac exI [of _ ?s], rule_tac exI [of _ 0]) simp
  next
    case False
    let ?u = "real j / real (cols - i)"
    have "0 < cols - i" using False assms(2,3) by auto
    then have u: "0 \<le> ?u" "?u \<le> 1" using assms(3) by simp_all
    have "subdivide_grid a b c cols i j = lerp3 (lerp3 a c ?s) (lerp3 b c ?s) ?u"
      unfolding subdivide_grid_def Let_def if_not_P [OF False] ..
    also have "\<dots> = lerp3 (comb3 (1 - ?s) a 0 b ?s c) (comb3 0 a (1 - ?s) b ?s c) ?u"
      by (simp only: aj bj)
    also have "\<dots> = comb3 ((1 - ?s) * (1 - ?u)) a ((1 - ?s) * ?u) b ?s c"
      by (rule lerp3_face)
    finally show ?thesis using s u by blast
  qed
qed

lemma length_polyhedron_faces: "length (polyhedron_faces vs is) = length is div 3"
  by (simp add: polyhedron_faces_def)

lemma length_subdivide_face: "length (subdivide_face a b c detail) = 3 * (detail + 1) ^ 2"
  by (simp add: subdivide_face_def length_subdivide_indices power2_eq_square)

lemma length_polyhedron_geometry:
  "length (geometry_position (polyhedron_geometry vs is radius detail)) =
     length is div 3 * (3 * (detail + 1) ^ 2)"
  by (simp add: polyhedron_geometry_def length_concat comp_def case_prod_beta
      length_subdivide_face sum_list_triv length_polyhedron_faces)

lemma length_ico_geometry: "length (geometry_position ico_geometry) = 2424060"
  by (simp add: ico_geometry_def icosahedron_geometry_def length_polyhedron_geometry)

lemma subdivide_face_convex:
  assumes "p \<in> set (subdivide_face a b c detail)"
  shows "\<exists>wa wb wc. 0 \<le> wa \<and> 0 \<le> wb \<and> 0 \<le> wc \<and> wa + wb + wc = 1 \<and> p = comb3 wa a wb b wc c"
proof -
  from assms obtain i j where ij: "(i, j) \<in> set (subdivide_indices (detail + 1))"
    and p: "p = subdivide_grid a b c (detail + 1) i j"
    by (auto simp: subdivide_face_def)
  from set_subdivide_indices [OF ij] obtain s u where
    "0 \<le> s" "s \<le> 1" "0 \<le> u" "u \<le> 1"
    "p = comb3 ((1 - s) * (1 - u)) a ((1 - s) * u) b s c"
    using subdivide_grid_comb [of "detail + 1" i j a b c] p by auto
  moreover have "0 \<le> (1 - s) * (1 - u)" "0 \<le> (1 - s) * u"
    using \<open>s \<le> 1\<close> \<open>0 \<le> u\<close> \<open>u \<le> 1\<close> by simp_all
  moreover have "(1 - s) * (1 - u) + (1 - s) * u + s = 1" by (simp add: algebra_simps)
  ultimately show ?thesis by blast
qed

lemma ico_t_pos: "0 < ico_t"
  by (simp add: ico_t_def add_pos_nonneg)

lemma ico_t_sq: "ico_t * ico_t = ico_t + 1"
  by (simp add: ico_t_def field_simps power2_eq_square [symmetric]) (simp add: power2_sum)

lemma dot3_comb3: "dot3 n (comb3 wa a wb b wc c) = wa * dot3 n a + wb * dot3 n b + wc * dot3 n c"
  by (cases n; cases a; cases b; cases c) (simp add: algebra_simps)

text \<open>A point strictly on the positive side of a plane through the origin for all three
  corners stays there under convex combination.\<close>

lemma comb3_dot_pos:
  assumes "0 \<le> wa" "0 \<le> wb" "0 \<le> wc" "wa + wb + wc = 1"
    and "0 < dot3 n a" "0 < dot3 n b" "0 < dot3 n c"
  shows "0 < dot3 n (comb3 wa a wb b wc c)"
proof -
  let ?m = "min (dot3 n a) (min (dot3 n b) (dot3 n c))"
  have "wa * ?m \<le> wa * dot3 n a" "wb * ?m \<le> wb * dot3 n b" "wc * ?m \<le> wc * dot3 n c"
    using assms(1-3) by (simp_all add: mult_left_mono)
  moreover have "(wa + wb + wc) * ?m = ?m" using assms(4) by simp
  moreover have "0 < ?m" using assms(5-7) by simp
  ultimately show ?thesis unfolding dot3_comb3 by (simp add: algebra_simps) linarith
qed

lemma dot3_scale3: "dot3 (scale3 s q) (scale3 s q) = s * s * dot3 q q"
  by (cases q) (simp add: algebra_simps)

lemma dot3_self_pos: "q \<noteq> (0, 0, 0) \<Longrightarrow> 0 < dot3 q q"
proof (cases q)
  case (fields x y z)
  assume "q \<noteq> (0, 0, 0)"
  then have "x \<noteq> 0 \<or> y \<noteq> 0 \<or> z \<noteq> 0" using fields by auto
  then have "0 < x * x \<or> 0 < y * y \<or> 0 < z * z" by (metis not_real_square_gt_zero)
  moreover have "0 \<le> x * x" "0 \<le> y * y" "0 \<le> z * z" by simp_all
  ultimately have "0 < x * x + y * y + z * z" by linarith
  then show ?thesis using fields by simp
qed

lemma apply_radius_sphere:
  assumes "p \<noteq> (0, 0, 0)"
  shows "dot3 (apply_radius r p) (apply_radius r p) = r\<^sup>2"
proof -
  define q where "q = dot3 p p"
  have q: "0 < q" using dot3_self_pos [OF assms] by (simp add: q_def)
  then have "apply_radius r p = scale3 r (scale3 (1 / sqrt q) p)"
    by (simp add: apply_radius_def Let_def q_def)
  then have "dot3 (apply_radius r p) (apply_radius r p) = r * r * (1 / sqrt q * (1 / sqrt q) * q)"
    by (simp add: dot3_scale3 q_def)
  also have "1 / sqrt q * (1 / sqrt q) * q = 1" using q by (simp add: field_simps)
  finally show ?thesis by (simp add: power2_eq_square)
qed

text \<open>The faces of \<open>IcosahedronGeometry\<close> do not pass through the centre: each lies
  strictly on the positive side of the plane normal to the sum of its corners.\<close>

lemma icosahedron_faces_off_centre:
  "list_all (\<lambda>(a, b, c). 0 < dot3 (comb3 1 a 1 b 1 c) a \<and> 0 < dot3 (comb3 1 a 1 b 1 c) b \<and>
       0 < dot3 (comb3 1 a 1 b 1 c) c)
    (polyhedron_faces
       [(-1, ico_t, 0), (1, ico_t, 0), (-1, -ico_t, 0), (1, -ico_t, 0),
        (0, -1, ico_t), (0, 1, ico_t), (0, -1, -ico_t), (0, 1, -ico_t),
        (ico_t, 0, -1), (ico_t, 0, 1), (-ico_t, 0, -1), (-ico_t, 0, 1)]
       [0, 11, 5, 0, 5, 1, 0, 1, 7, 0, 7, 10, 0, 10, 11,
        1, 5, 9, 5, 11, 4, 11, 10, 2, 10, 7, 6, 7, 1, 8,
        3, 9, 4, 3, 4, 2, 3, 2, 6, 3, 6, 8, 3, 8, 9,
        4, 9, 5, 2, 4, 11, 6, 2, 10, 8, 6, 7, 9, 8, 1])"
  using ico_t_pos
  by (simp add: polyhedron_faces_def upt_conv_Cons algebra_simps ico_t_sq) (simp add: add_pos_pos)

lemma polyhedron_geometry_on_sphere:
  assumes faces: "list_all (\<lambda>(a, b, c). 0 < dot3 (comb3 1 a 1 b 1 c) a \<and>
      0 < dot3 (comb3 1 a 1 b 1 c) b \<and> 0 < dot3 (comb3 1 a 1 b 1 c) c) (polyhedron_faces vs is)"
    and p: "p \<in> set (geometry_position (polyhedron_geometry vs is radius detail))"
  shows "dot3 p p = radius\<^sup>2"
proof -
  from p obtain a b c q where abc: "(a, b, c) \<in> set (polyhedron_faces vs is)"
    and q: "q \<in> set (subdivide_face a b c detail)" and pq: "p = apply_radius radius q"
    by (auto simp: polyhedron_geometry_def)
  let ?n = "comb3 1 a 1 b 1 c"
  from faces abc have pos: "0 < dot3 ?n a" "0 < dot3 ?n b" "0 < dot3 ?n c"
    by (auto simp: list_all_iff)
  from subdivide_face_convex [OF q] obtain wa wb wc where
    w: "0 \<le> wa" "0 \<le> wb" "0 \<le> wc" "wa + wb + wc = 1" and qw: "q = comb3 wa a wb b wc c"
    by blast
  have "0 < dot3 ?n q" unfolding qw by (rule comb3_dot_pos [OF w pos])
  then have "q \<noteq> (0, 0, 0)" by (cases ?n) auto
  then show ?thesis unfolding pq by (rule apply_radius_sphere)
qed

lemma icosahedron_geometry_on_sphere:
  "p \<in> set (geometry_position (icosahedron_geometry radius detail)) \<Longrightarrow> dot3 p p = radius\<^sup>2"
  unfolding icosahedron_geometry_def by (rule polyhedron_geometry_on_sphere [OF icosahedron_faces_off_centre])

text \<open>The corner \<open>b\<close> is among the vertices a face pushes: \<open>v[0][cols]\<close>, read at
  \<open>i = 0\<close>, \<open>j = 2 detail\<close>.\<close>

lemma subdivide_face_corner_b: "b \<in> set (subdivide_face a b c detail)"
proof -
  have "(0, detail + 1) \<in> set (subdivide_indices (detail + 1))"
    unfolding subdivide_indices_def
    by (simp add: Let_def del: upt_Suc) (rule bexI [of _ 0], rule disjI1, rule bexI [of _ "2 * detail"], simp_all)
  moreover have "subdivide_grid a b c (detail + 1) 0 (detail + 1) = b"
    by (cases a; cases b; cases c) (simp add: subdivide_grid_def)
  ultimately show ?thesis unfolding subdivide_face_def by force
qed

text \<open>So the app's geometry has the vertex \<open>(-t, 0, 1)\<close> scaled to radius 2, the corner
  \<open>b\<close> of its first face, without evaluating the 2.4 million vertices.\<close>

lemma ico_geometry_has_vertex:
  "apply_radius 2 (- ico_t, 0, 1) \<in> set (geometry_position ico_geometry)"
proof -
  have "((-1, ico_t, 0), (- ico_t, 0, 1), (0, 1, ico_t)) \<in> set (polyhedron_faces
       [(-1, ico_t, 0), (1, ico_t, 0), (-1, -ico_t, 0), (1, -ico_t, 0),
        (0, -1, ico_t), (0, 1, ico_t), (0, -1, -ico_t), (0, 1, -ico_t),
        (ico_t, 0, -1), (ico_t, 0, 1), (-ico_t, 0, -1), (-ico_t, 0, 1)]
       [0, 11, 5, 0, 5, 1, 0, 1, 7, 0, 7, 10, 0, 10, 11,
        1, 5, 9, 5, 11, 4, 11, 10, 2, 10, 7, 6, 7, 1, 8,
        3, 9, 4, 3, 4, 2, 3, 2, 6, 3, 6, 8, 3, 8, 9,
        4, 9, 5, 2, 4, 11, 6, 2, 10, 8, 6, 7, 9, 8, 1])"
    by (simp add: polyhedron_faces_def upt_conv_Cons)
  then show ?thesis
    unfolding ico_geometry_def icosahedron_geometry_def polyhedron_geometry_def
    using subdivide_face_corner_b by force
qed

section \<open>Properties of the subdivision\<close>

text \<open>
  C24. The vertex buffer of \<open>IcosahedronGeometry(radius, detail)\<close> holds
  \<open>60 (detail + 1)^2\<close> points: 20 faces, each pushing three vertices for each of the
  \<open>(detail + 1)^2\<close> small triangles its nested loops visit.  The loop count equals its
  closed form.
\<close>

theorem icosahedron_vertex_count:
  "length (geometry_position (icosahedron_geometry radius detail)) = 60 * (detail + 1) ^ 2"
  by (simp add: icosahedron_geometry_def length_polyhedron_geometry)

text \<open>
  C25. \<open>subdivideFace\<close> reads only grid cells its first loop has filled: every read
  \<open>v[i][j]\<close> has \<open>i \<le> cols\<close> and \<open>j \<le> cols - i\<close>; the apex \<open>v[cols][0]\<close>
  is among them, which is why the first loop fills it without the division \<open>0 / 0\<close>.
\<close>

theorem subdivide_reads_filled:
  assumes "(i, j) \<in> set (subdivide_indices (detail + 1))"
  shows "i \<le> detail + 1 \<and> j \<le> detail + 1 - i \<and> (detail + 1, 0) \<in> set (subdivide_indices (detail + 1))"
proof -
  have "(detail + 1, 0) \<in> set (subdivide_indices (detail + 1))"
    unfolding subdivide_indices_def
    by (simp add: Let_def del: upt_Suc) (intro bexI [of _ detail] bexI [of _ 0], simp_all)
  then show ?thesis using set_subdivide_indices [OF assms] by blast
qed

lemma subdivide_indices_1: "subdivide_indices (Suc 0) = [(0, 1), (1, 0), (0, 0)]"
  by (simp add: subdivide_indices_def)

theorem subdivide_reads_filled_witness:
  "(1, 0) \<in> set (subdivide_indices (0 + 1)) \<and> (1 :: nat) \<le> 0 + 1 \<and> (0 :: nat) \<le> 0 + 1 - 1"
  using subdivide_reads_filled [of 1 0 0] by (simp add: subdivide_indices_1)

text \<open>
  C26. Every vertex \<open>subdivideFace\<close> pushes is a convex combination of the face's three
  corners: before \<open>applyRadius\<close>, the subdivided mesh lies on the icosahedron's faces.
\<close>

theorem subdivide_face_on_face:
  assumes "p \<in> set (subdivide_face a b c detail)"
  shows "\<exists>wa wb wc. 0 \<le> wa \<and> 0 \<le> wb \<and> 0 \<le> wc \<and> wa + wb + wc = 1 \<and> p = comb3 wa a wb b wc c"
  using subdivide_face_convex [OF assms] .

text \<open>The unsubdivided face (\<open>detail = 0\<close>) pushes its corners \<open>b, c, a\<close>.\<close>

lemma subdivide_face_0: "subdivide_face a b c 0 = [b, c, a]"
  by (cases a; cases b; cases c) (simp add: subdivide_face_def subdivide_indices_1 subdivide_grid_def)

theorem subdivide_face_on_face_witness:
  "(0, 1, 0) \<in> set (subdivide_face (1, 0, 0) (0, 1, 0) (0, 0, 1) 0) \<and>
   (\<exists>wa wb wc. 0 \<le> wa \<and> 0 \<le> wb \<and> 0 \<le> wc \<and> wa + wb + wc = 1 \<and>
      ((0, 1, 0) :: vec3) = comb3 wa (1, 0, 0) wb (0, 1, 0) wc (0, 0, 1))"
  using subdivide_face_on_face [of "(0, 1, 0)" "(1, 0, 0)" "(0, 1, 0)" "(0, 0, 1)" 0]
  by (simp add: subdivide_face_0)

text \<open>
  C30. Conversely, for \<open>cols > 0\<close> the second loop of \<open>subdivideFace\<close> reads every
  cell of the triangular grid: its reads are exactly \<open>{(i, j). i \<le> cols \<and> j \<le> cols - i}\<close>,
  so every grid point is a vertex of the mesh and the subdivided face has no hole.
\<close>

theorem subdivide_reads_all_cells:
  assumes "0 < cols"
  shows "set (subdivide_indices cols) = {(i, j). i \<le> cols \<and> j \<le> cols - i}"
proof
  show "set (subdivide_indices cols) \<subseteq> {(i, j). i \<le> cols \<and> j \<le> cols - i}"
    using set_subdivide_indices by auto
next
  show "{(i, j). i \<le> cols \<and> j \<le> cols - i} \<subseteq> set (subdivide_indices cols)"
  proof clarify
    fix i j assume ij: "i \<le> cols" "j \<le> cols - i"
    show "(i, j) \<in> set (subdivide_indices cols)"
    proof (cases "i = cols")
      case True
      then have "j = 0" using ij by simp
      then show ?thesis using True assms subdivide_indices_memI [of "cols - 1" cols 0 "(i, j)"] by simp
    next
      case False
      then have i: "i < cols" using ij by simp
      show ?thesis
      proof (cases "j < cols - i")
        case True
        then show ?thesis using i subdivide_indices_memI [of i cols "2 * j" "(i, j)"] by simp
      next
        case False
        then have "j = Suc (cols - Suc i)" using ij i by simp
        then show ?thesis using i subdivide_indices_memI [of i cols "2 * (j - 1)" "(i, j)"] by simp
      qed
    qed
  qed
qed

theorem subdivide_reads_all_cells_witness:
  "0 < (2 :: nat) \<and> set (subdivide_indices 2) = {(i, j). i \<le> 2 \<and> j \<le> 2 - i}"
  using subdivide_reads_all_cells [of 2] by simp

end
