(* ===== verification/Uniforms.thy ===== *)
theory Uniforms
  imports Scene
begin

text \<open>
  The uniform table of the icosahedron's \<open>ShaderMaterial\<close> (\<open>material.uniforms\<close>):
  a JavaScript object from uniform names to \<open>{value: v}\<close> boxes, modelled as a map from
  the name to the boxed value.  The program writes it in two ways:
  \<^item> binding, \<open>uniforms[name] = {value: 0}\<close> (src/src/app.js lines 26 and 92), which
    stores a fresh box whether or not the name was bound before;
  \<^item> setting, \<open>uniforms[name].value = v\<close> (lines 52 and 166), which reads the box
    first and so raises a \<open>TypeError\<close> when the name is unbound.
  The shader program pair reads \<open>uTime\<close> and \<open>uAudioFrequency\<close> (spec section 6).
\<close>

section \<open>Operations\<close>

definition new_material_uniforms :: uniforms where
  "new_material_uniforms = Map.empty"

definition uniform_bind :: "uniforms \<Rightarrow> string \<Rightarrow> real \<Rightarrow> uniforms" where
  "uniform_bind u name v = u(name \<mapsto> v)"

definition uniform_set :: "uniforms \<Rightarrow> string \<Rightarrow> real \<Rightarrow> js_error + uniforms" where
  "uniform_set u name v =
     (case u name of
        None \<Rightarrow> Inl (TypeError ''Cannot set properties of undefined (setting 'value')'')
      | Some _ \<Rightarrow> Inr (u(name \<mapsto> v)))"

definition shader_uniform_names :: "string list" where
  "shader_uniform_names = [''uTime'', ''uAudioFrequency'']"

definition uniforms_ready :: "uniforms \<Rightarrow> bool" where
  "uniforms_ready u \<longleftrightarrow> list_all (\<lambda>n. u n \<noteq> None) shader_uniform_names"

section \<open>The shader material\<close>

text \<open>
  \<open>THREE.ShaderMaterial(parameters)\<close> as far as the program uses it: the two shader
  modules, the uniform table (empty when the parameters give none), and the flag
  \<open>lights\<close>, false unless the parameters set it, that tells \<open>WebGLRenderer\<close> whether
  to upload the scene's lights into the material's uniforms.
\<close>

record shader_material =
  vertex_shader :: string
  fragment_shader :: string
  material_uniforms :: uniforms
  material_lights :: bool

definition shader_material_new :: "string \<Rightarrow> string \<Rightarrow> shader_material" where
  "shader_material_new vs fs =
     \<lparr>vertex_shader = vs, fragment_shader = fs, material_uniforms = new_material_uniforms,
      material_lights = False\<rparr>"

text \<open>Lines 87--90: the material of the icosahedron, from the two imported shader modules.\<close>

definition ico_material :: shader_material where
  "ico_material = shader_material_new ''./shaders/vertex.js'' ''./shaders/fragment.js''"

section \<open>The mesh that owns the material\<close>

text \<open>
  \<open>THREE.Mesh(geometry, material)\<close> as far as the program uses it: the Euler angles of
  \<open>mesh.rotation\<close>, the children added with \<open>mesh.add\<close>, the geometry, and the two
  fields of its material that change or are read after line 94 (\<open>mesh.material.uniforms\<close>
  and \<open>mesh.material.lights\<close>).  Scene graph nodes are the lights, the audio listener and
  the mesh itself.
\<close>

datatype node = LightNode light | AudioListenerNode | IcoMeshNode

record mesh =
  rot_x :: real
  rot_y :: real
  rot_z :: real
  mesh_children :: "node list"
  mesh_geometry :: geometry
  mesh_uniforms :: uniforms
  mesh_lights :: bool

definition mesh_new :: "geometry \<Rightarrow> shader_material \<Rightarrow> mesh" where
  "mesh_new g mat =
     \<lparr>rot_x = 0, rot_y = 0, rot_z = 0, mesh_children = [], mesh_geometry = g,
      mesh_uniforms = material_uniforms mat, mesh_lights = material_lights mat\<rparr>"

definition mesh_add :: "mesh \<Rightarrow> node \<Rightarrow> mesh" where
  "mesh_add m n = m\<lparr>mesh_children := mesh_children m @ [n]\<rparr>"

text \<open>\<open>scene.add(...)\<close> (lines 70 and 100): the nodes join the scene's children in order.\<close>

definition scene_add :: "node list \<Rightarrow> node list \<Rightarrow> node list" where
  "scene_add sc ns = sc @ ns"

section \<open>Lemmas\<close>

lemma uniform_set_bound:
  "name \<in> dom u \<Longrightarrow> uniform_set u name v = Inr (u(name \<mapsto> v))"
  by (auto simp: uniform_set_def)

lemma uniforms_ready_iff:
  "uniforms_ready u \<longleftrightarrow> ''uTime'' \<in> dom u \<and> ''uAudioFrequency'' \<in> dom u"
  by (auto simp: uniforms_ready_def shader_uniform_names_def)

end
