(* ===== verification/Audio.thy ===== *)
theory Audio
  imports Uniforms
begin

text \<open>
  The audio source: the \<open>Visualizer\<close> class of src/src/app.js (lines 22--55) and the
  parts of three.js it calls.  \<open>THREE.Audio\<close> (\<open>setBuffer\<close>, \<open>setLoop\<close>,
  \<open>setVolume\<close>, \<open>play\<close>), \<open>THREE.AudioAnalyser\<close> (\<open>getFrequencyData\<close>,
  \<open>getAverageFrequency\<close>) and \<open>THREE.AudioLoader\<close> are library code outside src/;
  they are modelled from the library's documented behaviour, which the spec (section 4.1)
  summarises.  The Web Audio engine is the environment: it supplies, at each sampling,
  the byte magnitude of every frequency bucket of the sound that reaches the analyser.
\<close>

section \<open>THREE.Audio\<close>

datatype source_type = EmptySource | BufferSource

record audio =
  audio_buffer :: "pcm option"
  source_type :: source_type
  autoplay :: bool
  audio_loop :: bool
  gain_target :: real
  is_playing :: bool
  has_playback_control :: bool
  source :: "(pcm option \<times> bool) option"  \<comment> \<open>the AudioBufferSourceNode: buffer, loop\<close>

definition audio_new :: audio where
  "audio_new =
     \<lparr>audio_buffer = None, source_type = EmptySource, autoplay = False, audio_loop = False,
      gain_target = 1, is_playing = False, has_playback_control = True, source = None\<rparr>"

definition audio_play :: "audio \<Rightarrow> audio" where
  "audio_play a =
     (if is_playing a then a
      else if \<not> has_playback_control a then a
      else a\<lparr>is_playing := True, source := Some (audio_buffer a, audio_loop a)\<rparr>)"

definition audio_set_buffer :: "audio \<Rightarrow> pcm \<Rightarrow> audio" where
  "audio_set_buffer a b =
     (let a' = a\<lparr>audio_buffer := Some b, source_type := BufferSource\<rparr>
      in if autoplay a' then audio_play a' else a')"

definition audio_set_loop :: "audio \<Rightarrow> bool \<Rightarrow> audio" where
  "audio_set_loop a v =
     (if \<not> has_playback_control a then a
      else a\<lparr>audio_loop := v,
             source := (if is_playing a then map_option (\<lambda>(b, _). (b, v)) (source a)
                        else source a)\<rparr>)"

definition audio_set_volume :: "audio \<Rightarrow> real \<Rightarrow> audio" where
  "audio_set_volume a v = a\<lparr>gain_target := v\<rparr>"

section \<open>THREE.AudioAnalyser\<close>

record analyser =
  fft_size :: nat
  freq_data :: "byte list"   \<comment> \<open>the \<open>Uint8Array\<close> of \<open>frequencyBinCount\<close> buckets\<close>

definition fft_size_valid :: "nat \<Rightarrow> bool" where
  "fft_size_valid n \<longleftrightarrow> n \<in> set (map (\<lambda>k. 2 ^ k) [5..<16])"

definition analyser_new :: "nat \<Rightarrow> js_error + analyser" where
  "analyser_new n =
     (if fft_size_valid n then Inr \<lparr>fft_size = n, freq_data = replicate (n div 2) 0\<rparr>
      else Inl IndexSizeError)"

text \<open>What reaches the analyser: the sound's output while it plays, silence otherwise.\<close>

definition heard_spectrum :: "audio \<Rightarrow> (nat \<Rightarrow> byte) \<Rightarrow> nat \<Rightarrow> byte" where
  "heard_spectrum a spectrum = (if is_playing a then spectrum else (\<lambda>_. 0))"

definition get_frequency_data :: "analyser \<Rightarrow> (nat \<Rightarrow> byte) \<Rightarrow> analyser" where
  "get_frequency_data an spectrum =
     an\<lparr>freq_data := map spectrum [0..<length (freq_data an)]\<rparr>"

text \<open>The summing loop of \<open>getAverageFrequency\<close>, \<open>for (i = 0; i < data.length; i++) value += data[i]\<close>, with its accumulator \<open>value\<close> named \<open>acc\<close> here.\<close>

function sum_frequency :: "byte list \<Rightarrow> nat \<Rightarrow> nat \<Rightarrow> nat" where
  "sum_frequency data i acc =
     (if i < length data then sum_frequency data (Suc i) (acc + unat (data ! i)) else acc)"
  by pat_completeness auto
termination
  by (relation "measure (\<lambda>(data, i, acc). length data - i)") auto

declare sum_frequency.simps [simp del]

definition get_average_frequency :: "analyser \<Rightarrow> (nat \<Rightarrow> byte) \<Rightarrow> analyser \<times> real" where
  "get_average_frequency an spectrum =
     (let an' = get_frequency_data an spectrum;
          acc = sum_frequency (freq_data an') 0 0
      in (an', real acc / real (length (freq_data an'))))"

section \<open>The Visualizer class\<close>

record visualizer =
  frequency_uniform_name :: string
  sound :: audio
  analyzer :: analyser
  pending_loads :: "string list"  \<comment> \<open>requests of \<open>this.loader\<close> still in flight\<close>

definition visualizer_new :: "mesh \<Rightarrow> string \<Rightarrow> js_error + visualizer \<times> mesh" where
  "visualizer_new m name =
     (let m1 = m\<lparr>mesh_uniforms := uniform_bind (mesh_uniforms m) name 0\<rparr>;
          m2 = mesh_add m1 AudioListenerNode
      in case analyser_new 32 of
           Inl e \<Rightarrow> Inl e
         | Inr an \<Rightarrow> Inr (\<lparr>frequency_uniform_name = name, sound = audio_new, analyzer = an,
                            pending_loads = []\<rparr>, m2))"

definition visualizer_load :: "visualizer \<Rightarrow> string \<Rightarrow> visualizer" where
  "visualizer_load v path = v\<lparr>pending_loads := pending_loads v @ [path]\<rparr>"

text \<open>The arrow function passed to \<open>this.loader.load\<close> (lines 38--43).\<close>

definition on_buffer_loaded :: "visualizer \<Rightarrow> pcm \<Rightarrow> visualizer" where
  "on_buffer_loaded v b =
     v\<lparr>sound := audio_play (audio_set_volume (audio_set_loop (audio_set_buffer (sound v) b) True) 0.5)\<rparr>"

text \<open>
  The loader completes its oldest request: with the decoded buffer, it calls the callback;
  on a fetch or decode failure it only logs (no \<open>onError\<close> was passed), so nothing changes
  but the request being gone.
\<close>

definition load_complete :: "visualizer \<Rightarrow> pcm option \<Rightarrow> visualizer" where
  "load_complete v r =
     (case pending_loads v of
        [] \<Rightarrow> v
      | _ # rest \<Rightarrow>
          (case r of
             None \<Rightarrow> v\<lparr>pending_loads := rest\<rparr>
           | Some b \<Rightarrow> on_buffer_loaded (v\<lparr>pending_loads := rest\<rparr>) b))"

definition get_frequency :: "visualizer \<Rightarrow> (nat \<Rightarrow> byte) \<Rightarrow> visualizer \<times> real" where
  "get_frequency v spectrum =
     (let (an', f) = get_average_frequency (analyzer v) (heard_spectrum (sound v) spectrum)
      in (v\<lparr>analyzer := an'\<rparr>, f))"

text \<open>The browser console as an output stream: the values \<open>console.log\<close> has printed,
  oldest first.\<close>

type_synonym console = "real list"

text \<open>\<open>update()\<close> (lines 50--54): write \<open>freq\<close> to the uniform, then log it; a write
  that throws skips the log.\<close>

definition visualizer_update ::
  "visualizer \<Rightarrow> mesh \<Rightarrow> console \<Rightarrow> (nat \<Rightarrow> byte) \<Rightarrow> js_error + visualizer \<times> mesh \<times> console" where
  "visualizer_update v m out spectrum =
     (let (v', raw) = get_frequency v spectrum;
          freq = raw / 50.0
      in case uniform_set (mesh_uniforms m) (frequency_uniform_name v') freq of
           Inl e \<Rightarrow> Inl e
         | Inr u \<Rightarrow> Inr (v', m\<lparr>mesh_uniforms := u\<rparr>, out @ [freq]))"

section \<open>Lemmas\<close>

lemma sum_frequency_eq:
  "sum_frequency data i acc = acc + sum_list (map unat (drop i data))"
proof (induction data i acc rule: sum_frequency.induct)
  case (1 data i acc)
  show ?case
  proof (cases "i < length data")
    case True
    then have "drop i data = data ! i # drop (Suc i) data"
      by (simp add: Cons_nth_drop_Suc)
    with True "1.IH" show ?thesis
      by (simp add: sum_frequency.simps [of data i acc])
  next
    case False
    then show ?thesis by (simp add: sum_frequency.simps [of data i acc])
  qed
qed

lemma length_get_frequency_data [simp]:
  "length (freq_data (get_frequency_data an s)) = length (freq_data an)"
  by (simp add: get_frequency_data_def)

lemma get_average_frequency_value:
  "snd (get_average_frequency an s) =
     real (sum_list (map (\<lambda>i. unat (s i)) [0..<length (freq_data an)])) / real (length (freq_data an))"
  by (simp add: get_average_frequency_def get_frequency_data_def sum_frequency_eq comp_def)

lemma get_average_frequency_state:
  "fst (get_average_frequency an s) = get_frequency_data an s"
  by (simp add: get_average_frequency_def Let_def)

lemma sum_unat_spectrum_le:
  "sum_list (map (\<lambda>i. unat (s i :: byte)) xs) \<le> 255 * length xs"
  by (induction xs) (auto simp: add_mono)

lemma analyser_new_Inr:
  "analyser_new n = Inr an \<Longrightarrow> length (freq_data an) = n div 2 \<and> fft_size an = n \<and> fft_size_valid n"
  by (auto simp: analyser_new_def split: if_splits)

lemma analyser_new_32: "analyser_new 32 = Inr \<lparr>fft_size = 32, freq_data = replicate 16 0\<rparr>"
  by (simp add: analyser_new_def fft_size_valid_def)

lemma get_frequency_value:
  "snd (get_frequency v sp) =
     real (sum_list (map (\<lambda>i. unat (heard_spectrum (sound v) sp i)) [0..<length (freq_data (analyzer v))]))
       / real (length (freq_data (analyzer v)))"
  by (simp add: get_frequency_def split_beta get_average_frequency_value)

lemma get_frequency_silent:
  "\<not> is_playing (sound v) \<Longrightarrow> snd (get_frequency v sp) = 0"
  by (simp add: get_frequency_value heard_spectrum_def)

section \<open>Properties of the audio source\<close>

text \<open>
  C13. The summing loop of \<open>getAverageFrequency\<close> terminates (the definition's
  termination proof) and computes the sum of the bucket values.
\<close>

theorem sum_frequency_computes_sum:
  "sum_frequency data 0 0 = sum_list (map unat data)"
  by (simp add: sum_frequency_eq)

text \<open>
  C14. \<open>getAverageFrequency\<close> of an analyser with at least one bucket returns a
  non-negative value of at most 255, whatever the spectrum (spec 4.1).
\<close>

theorem average_frequency_bounds:
  assumes "freq_data an \<noteq> []"
  shows "0 \<le> snd (get_average_frequency an s) \<and> snd (get_average_frequency an s) \<le> 255"
proof -
  let ?n = "length (freq_data an)"
  let ?t = "sum_list (map (\<lambda>i. unat (s i)) [0..<?n])"
  have "?t \<le> 255 * length [0..<?n]" by (rule sum_unat_spectrum_le)
  then have "real ?t \<le> 255 * real ?n" by simp
  moreover from assms have "0 < real ?n" by simp
  ultimately have "real ?t / real ?n \<le> 255" by (simp add: divide_le_eq)
  then show ?thesis by (simp add: get_average_frequency_value)
qed

theorem average_frequency_bounds_witness:
  "freq_data \<lparr>fft_size = 32, freq_data = replicate 16 0\<rparr> \<noteq> [] \<and>
   snd (get_average_frequency \<lparr>fft_size = 32, freq_data = replicate 16 0\<rparr> (\<lambda>_. 255)) \<le> 255"
  using average_frequency_bounds [of "\<lparr>fft_size = 32, freq_data = replicate 16 0\<rparr>" "\<lambda>_. 255"] by simp

text \<open>
  C15. The Visualizer constructor never throws: it binds its uniform to 0, adds the
  listener to the mesh, and builds an analyser with fftSize 32, i.e. 16 frequency
  buckets (spec 3 and 4.1 speak of 32 bins), over a stopped sound.
\<close>

theorem visualizer_new_result:
  "\<exists>v m'. visualizer_new m name = Inr (v, m') \<and>
     mesh_uniforms m' = (mesh_uniforms m)(name \<mapsto> 0) \<and>
     mesh_children m' = mesh_children m @ [AudioListenerNode] \<and>
     rot_z m' = rot_z m \<and>
     length (freq_data (analyzer v)) = 16 \<and> fft_size (analyzer v) = 32 \<and>
     sound v = audio_new \<and> frequency_uniform_name v = name \<and> pending_loads v = []"
  by (simp add: visualizer_new_def analyser_new_32 uniform_bind_def mesh_add_def)

end
