(* ===== verification/Texture.thy ===== *)
theory Texture
  imports Prelude
begin

text \<open>
  Texture storage.  A render target stores each channel in its texture's type: the
  \<open>WebGLRenderTarget\<close> that line 132 of src/src/app.js creates has no \<open>type\<close> in its
  parameters (lines 125--129) and so gets three.js's default \<open>UnsignedByteType\<close>; the
  canvas drawing buffer is 8-bit RGBA too; the composer's own ping-pong targets are
  \<open>HalfFloatType\<close>.  Writing a float to an 8-bit normalised (UNORM8) channel clamps it
  to [0,1] and converts \<open>f * 255\<close> to the nearest integer (OpenGL ES 3.0, section 2.1.6.1,
  the recommended rounding); reading it back gives \<open>b / 255\<close>.  Half-float storage is
  taken as exact, as the rest of the model takes floats.  The theory proves the round trip
  byte to float to byte, the conversion error bound, and the monotonicity that the
  compositor proofs use.
\<close>

section \<open>Texture types and the UNORM8 conversion\<close>

datatype texture_type = UnsignedByteType | HalfFloatType

definition clamp01 :: "real \<Rightarrow> real" where
  "clamp01 x = max 0 (min 1 x)"

text \<open>Float to UNORM8: clamp, scale by \<open>2^8 - 1\<close>, round to nearest.\<close>

definition unorm8 :: "real \<Rightarrow> byte" where
  "unorm8 x = word_of_int \<lfloor>clamp01 x * 255 + 1 / 2\<rfloor>"

text \<open>UNORM8 to float, as a texture fetch returns it.\<close>

definition unorm8_value :: "byte \<Rightarrow> real" where
  "unorm8_value b = real (unat b) / 255"

text \<open>The value a channel holds after a write of \<open>x\<close> to a texture of the given type.\<close>

fun texel_store :: "texture_type \<Rightarrow> real \<Rightarrow> real" where
  "texel_store UnsignedByteType x = unorm8_value (unorm8 x)"
| "texel_store HalfFloatType x = x"

definition store_frame :: "texture_type \<Rightarrow> frame \<Rightarrow> frame" where
  "store_frame ty f = map (texel_store ty) f"

text \<open>A frame an 8-bit texture can hold: every channel is some \<open>b / 255\<close>.\<close>

definition byte_valued :: "frame \<Rightarrow> bool" where
  "byte_valued f \<longleftrightarrow> list_all (\<lambda>x. unorm8_value (unorm8 x) = x) f"

text \<open>Channel values in the displayable range [0,1].\<close>

definition colour_range :: "frame \<Rightarrow> bool" where
  "colour_range f \<longleftrightarrow> list_all (\<lambda>x. 0 \<le> x \<and> x \<le> 1) f"

section \<open>Lemmas\<close>

lemma clamp01_id [simp]: "0 \<le> x \<Longrightarrow> x \<le> 1 \<Longrightarrow> clamp01 x = x"
  by (simp add: clamp01_def)

lemma clamp01_mono: "x \<le> y \<Longrightarrow> clamp01 x \<le> clamp01 y"
  by (simp add: clamp01_def)

lemma clamp01_bounds: "0 \<le> clamp01 x" "clamp01 x \<le> 1"
  by (simp_all add: clamp01_def)

lemma unorm8_floor_range:
  "0 \<le> \<lfloor>clamp01 x * 255 + 1 / 2\<rfloor>" "\<lfloor>clamp01 x * 255 + 1 / 2\<rfloor> \<le> 255"
proof -
  have "0 \<le> clamp01 x * 255 + 1 / 2" "clamp01 x * 255 + 1 / 2 < 256"
    using clamp01_bounds [of x] by linarith+
  then show "0 \<le> \<lfloor>clamp01 x * 255 + 1 / 2\<rfloor>" "\<lfloor>clamp01 x * 255 + 1 / 2\<rfloor> \<le> 255"
    by (simp_all add: floor_less_iff)
qed

lemma uint_unorm8: "uint (unorm8 x) = \<lfloor>clamp01 x * 255 + 1 / 2\<rfloor>"
  using unorm8_floor_range [of x] by (simp add: unorm8_def uint_word_of_int_eq take_bit_int_eq_self)

lemma unorm8_value_uint: "unorm8_value b = real_of_int (uint b) / 255"
  by (simp add: unorm8_value_def)

lemma unorm8_value_bounds [simp]: "0 \<le> unorm8_value b" "unorm8_value b \<le> 1"
proof -
  have "real (unat b) \<le> 255" using unat_byte_le [of b] by (metis of_nat_le_iff of_nat_numeral)
  then show "0 \<le> unorm8_value b" "unorm8_value b \<le> 1"
    by (simp_all add: unorm8_value_def del: of_nat_unat)
qed

lemma unorm8_value_inject [simp]: "unorm8_value a = unorm8_value b \<longleftrightarrow> a = b"
  by (simp add: unorm8_value_def word_unat_eq_iff del: of_nat_unat)

lemma unorm8_value_unorm8: "unorm8_value (unorm8 x) = real_of_int \<lfloor>clamp01 x * 255 + 1 / 2\<rfloor> / 255"
  by (simp add: unorm8_value_uint uint_unorm8)

text \<open>Converting a fetched byte back gives the same byte.\<close>

lemma unorm8_of_value [simp]: "unorm8 (unorm8_value b) = b"
proof -
  have "clamp01 (unorm8_value b) = unorm8_value b" by simp
  then have "clamp01 (unorm8_value b) * 255 + 1 / 2 = real_of_int (uint b) + 1 / 2"
    by (simp add: unorm8_value_uint del: of_int_uint)
  then have "\<lfloor>clamp01 (unorm8_value b) * 255 + 1 / 2\<rfloor> = uint b"
    by (simp add: floor_eq_iff)
  then show ?thesis by (simp add: unorm8_def)
qed

lemma unorm8_mono: "x \<le> y \<Longrightarrow> uint (unorm8 x) \<le> uint (unorm8 y)"
  unfolding uint_unorm8 by (intro floor_mono add_right_mono mult_right_mono clamp01_mono) simp_all

text \<open>A value between \<open>x\<close> and its stored value is stored as the same byte.\<close>

lemma unorm8_between:
  assumes "min x (unorm8_value (unorm8 x)) \<le> y" "y \<le> max x (unorm8_value (unorm8 x))"
  shows "unorm8 y = unorm8 x"
proof -
  have "uint (unorm8 (min x (unorm8_value (unorm8 x)))) = uint (unorm8 x)"
    "uint (unorm8 (max x (unorm8_value (unorm8 x)))) = uint (unorm8 x)"
    by (simp_all add: min_def max_def)
  with unorm8_mono [OF assms(1)] unorm8_mono [OF assms(2)]
  have "uint (unorm8 y) = uint (unorm8 x)" by linarith
  then show ?thesis by (simp add: word_uint_eq_iff)
qed

lemma unorm8_error:
  assumes "0 \<le> x" "x \<le> 1"
  shows "\<bar>unorm8_value (unorm8 x) - x\<bar> \<le> 1 / 510"
proof -
  let ?k = "\<lfloor>x * 255 + 1 / 2\<rfloor>"
  have "real_of_int ?k \<le> x * 255 + 1 / 2" "x * 255 + 1 / 2 < real_of_int ?k + 1"
    by linarith+
  then have "\<bar>real_of_int ?k / 255 - x\<bar> \<le> 1 / 510"
    unfolding abs_le_iff by (intro conjI; linarith)
  then show ?thesis using assms by (simp add: unorm8_value_unorm8)
qed

lemma unorm8_eqI:
  assumes "0 \<le> x" "x \<le> 1" "real_of_int k \<le> x * 255 + 1 / 2" "x * 255 + 1 / 2 < real_of_int k + 1"
  shows "unorm8 x = word_of_int k"
proof -
  have "\<lfloor>x * 255 + 1 / 2\<rfloor> = k" using assms(3,4) by (simp add: floor_eq_iff)
  then show ?thesis using assms(1,2) by (simp add: unorm8_def)
qed

lemma unorm8_0 [simp]: "unorm8 0 = 0"
  using unorm8_eqI [of 0 0] by simp

lemma unorm8_1 [simp]: "unorm8 1 = 255"
  using unorm8_eqI [of 1 255] by simp

lemma unorm8_value_0 [simp]: "unorm8_value 0 = 0"
  by (simp add: unorm8_value_def)

lemma unorm8_value_255 [simp]: "unorm8_value 255 = 1"
  by (simp add: unorm8_value_def)

lemma unorm8_value_dist:
  "\<bar>unorm8_value a - unorm8_value b\<bar> = \<bar>real_of_int (uint a - uint b)\<bar> / 255"
  by (simp add: unorm8_value_uint diff_divide_distrib [symmetric] del: of_int_uint)

lemma byte_valued_iff: "byte_valued f \<longleftrightarrow> (\<forall>x \<in> set f. unorm8_value (unorm8 x) = x)"
  by (simp add: byte_valued_def list_all_iff)

lemma length_store_frame [simp, frame_simps]: "length (store_frame ty f) = length f"
  by (simp add: store_frame_def)

lemma nth_store_frame [frame_simps]: "i < length f \<Longrightarrow> store_frame ty f ! i = texel_store ty (f ! i)"
  by (simp add: store_frame_def)

lemma store_frame_half [simp]: "store_frame HalfFloatType f = f"
  by (simp add: store_frame_def map_idI)

lemma byte_valued_store_frame [simp]: "byte_valued (store_frame UnsignedByteType f)"
  by (simp add: byte_valued_def store_frame_def list_all_iff)

lemma byte_valued_replicate_0 [simp]: "byte_valued (replicate n 0)"
  by (simp add: byte_valued_def list_all_iff unorm8_value_def)

lemma byte_valued_colour_range: "byte_valued f \<Longrightarrow> colour_range f"
  unfolding byte_valued_iff colour_range_def list_all_iff
  by (metis unorm8_value_bounds)

end
