(* ===== verification/Compositor.thy ===== *)
theory Compositor
  imports Texture
begin

text \<open>
  The postprocessing chain.  \<open>EffectComposer\<close>, \<open>RenderPass\<close>, \<open>ShaderPass\<close>,
  \<open>SavePass\<close>, \<open>BlendShader\<close> and \<open>CopyShader\<close> are three.js code outside src/
  that src/src/app.js instantiates (lines 125--153); they are modelled from their
  documented behaviour and the spec (sections 4.3 and 6).  The render targets and the
  screen are an explicit store from target to frame, because the blend pass does not copy
  the saved frame: its \<open>tDiffuse2\<close> uniform holds the save target's texture itself
  (line 136), so it reads whatever the save pass last wrote there.  Each target has a
  texture type (theory \<open>Texture\<close>), and a pass's write goes through it: the save
  target and the canvas keep 8 bits per channel, the composer's two targets half floats.
  The second half states the abstract contract of the motion-blur chain, an exponential
  moving average of the rendered frames (\<open>blend_step\<close>, \<open>ema\<close>), which the root theory
  proves the composed passes implement.
\<close>

section \<open>Render targets and the composer\<close>

datatype target = RenderTarget1 | RenderTarget2 | SaveTarget | Screen

record composer =
  read_buffer :: target
  write_buffer :: target
  composer_to_screen :: bool
  target_type :: "target \<Rightarrow> texture_type"
  store :: "target \<Rightarrow> frame"

text \<open>
  \<open>new EffectComposer(renderer)\<close>: its two targets are \<open>HalfFloatType\<close> (three.js
  r151 and later), the canvas drawing buffer is 8-bit RGBA.  WebGL zero-initialises
  textures and the canvas starts transparent black.  \<open>SaveTarget\<close> is not the
  composer's: it is a placeholder until the application attaches its render target.
\<close>

definition composer_new :: "nat \<Rightarrow> composer" where
  "composer_new n =
     \<lparr>read_buffer = RenderTarget1, write_buffer = RenderTarget2, composer_to_screen = True,
      target_type = (\<lambda>t. if t = Screen then UnsignedByteType else HalfFloatType),
      store = (\<lambda>_. replicate n 0)\<rparr>"

text \<open>The options object of \<open>new WebGLRenderTarget(width, height, options)\<close>; an absent
  \<open>type\<close> key is \<open>None\<close>.\<close>

datatype texture_filter = NearestFilter | LinearFilter

record render_target_parameters =
  min_filter :: texture_filter
  mag_filter :: texture_filter
  stencil_buffer :: bool
  texture_kind :: "texture_type option"

text \<open>The texture type the constructor gives: \<open>options.type\<close>, by default \<open>UnsignedByteType\<close>.\<close>

definition webgl_render_target_type :: "render_target_parameters \<Rightarrow> texture_type" where
  "webgl_render_target_type p = (case texture_kind p of None \<Rightarrow> UnsignedByteType | Some ty \<Rightarrow> ty)"

text \<open>A \<open>WebGLRenderTarget\<close> of the given texture type, zero-filled, bound to \<open>t\<close>.\<close>

definition attach_target :: "target \<Rightarrow> texture_type \<Rightarrow> nat \<Rightarrow> composer \<Rightarrow> composer" where
  "attach_target t ty n c =
     c\<lparr>target_type := (target_type c)(t := ty), store := (store c)(t := replicate n 0)\<rparr>"

text \<open>Drawing a frame into a target stores it in the target's texture type.\<close>

definition write_target :: "target \<Rightarrow> frame \<Rightarrow> composer \<Rightarrow> composer" where
  "write_target t f c = c\<lparr>store := (store c)(t := store_frame (target_type c t) f)\<rparr>"

definition swap_buffers :: "composer \<Rightarrow> composer" where
  "swap_buffers c = c\<lparr>read_buffer := write_buffer c, write_buffer := read_buffer c\<rparr>"

section \<open>Passes\<close>

datatype pass =
    RenderPass                  \<comment> \<open>draws the scene\<close>
  | BlendPass real real target  \<comment> \<open>\<open>ShaderPass(BlendShader, 'tDiffuse1')\<close>: mixRatio, opacity, tDiffuse2\<close>
  | SavePass target             \<comment> \<open>copies the read buffer into its render target\<close>
  | CopyPass real               \<comment> \<open>\<open>ShaderPass(CopyShader)\<close>: opacity\<close>

record pass_slot =
  pass_kind :: pass
  enabled :: bool
  render_to_screen :: bool

definition new_pass :: "pass \<Rightarrow> pass_slot" where
  "new_pass p = \<lparr>pass_kind = p, enabled = True, render_to_screen = False\<rparr>"

fun needs_swap :: "pass \<Rightarrow> bool" where
  "needs_swap RenderPass = False"
| "needs_swap (BlendPass _ _ _) = True"
| "needs_swap (SavePass _) = False"
| "needs_swap (CopyPass _) = True"

text \<open>\<open>gl_FragColor = opacity * mix(texel1, texel2, mixRatio)\<close>, per channel.\<close>
definition blend_frame :: "real \<Rightarrow> real \<Rightarrow> frame \<Rightarrow> frame \<Rightarrow> frame" where
  "blend_frame ratio opacity t1 t2 = map2 (\<lambda>x y. opacity * mix x y ratio) t1 t2"

text \<open>\<open>gl_FragColor = opacity * texel\<close>.\<close>
definition copy_frame :: "real \<Rightarrow> frame \<Rightarrow> frame" where
  "copy_frame opacity t = map (\<lambda>x. opacity * x) t"

text \<open>One pass's \<open>render(renderer, writeBuffer, readBuffer)\<close>; \<open>scene\<close> is what the
  renderer draws for the scene and camera this frame.\<close>

fun pass_render :: "frame \<Rightarrow> bool \<Rightarrow> pass \<Rightarrow> composer \<Rightarrow> composer" where
  "pass_render scene to_screen RenderPass c =
     write_target (if to_screen then Screen else read_buffer c) scene c"
| "pass_render scene to_screen (BlendPass ratio opacity t2) c =
     write_target (if to_screen then Screen else write_buffer c)
       (blend_frame ratio opacity (store c (read_buffer c)) (store c t2)) c"
| "pass_render scene to_screen (SavePass t) c =
     write_target t (copy_frame 1 (store c (read_buffer c))) c"
| "pass_render scene to_screen (CopyPass opacity) c =
     write_target (if to_screen then Screen else write_buffer c)
       (copy_frame opacity (store c (read_buffer c))) c"

definition composer_pass :: "frame \<Rightarrow> bool \<Rightarrow> pass \<Rightarrow> composer \<Rightarrow> composer" where
  "composer_pass scene to_screen p c =
     (let c' = pass_render scene to_screen p c in if needs_swap p then swap_buffers c' else c')"

text \<open>
  \<open>EffectComposer.render\<close>: every enabled pass in order; the composer overwrites each
  pass's \<open>renderToScreen\<close> with \<open>this.renderToScreen && isLastEnabledPass(i)\<close>.
\<close>

fun composer_render :: "frame \<Rightarrow> pass_slot list \<Rightarrow> composer \<Rightarrow> composer" where
  "composer_render scene [] c = c"
| "composer_render scene (p # ps) c =
     composer_render scene ps
       (if enabled p
        then composer_pass scene (composer_to_screen c \<and> \<not> list_ex enabled ps) (pass_kind p) c
        else c)"

section \<open>The abstract contract: an exponential moving average\<close>

text \<open>Output \<open>O = mix(C, A, ratio) = C * (1 - ratio) + A * ratio\<close> (spec section 4.3).\<close>

definition blend_step :: "real \<Rightarrow> frame \<Rightarrow> frame \<Rightarrow> frame" where
  "blend_step ratio history current = map2 (\<lambda>c a. mix c a ratio) current history"

fun ema :: "real \<Rightarrow> frame \<Rightarrow> frame list \<Rightarrow> frame" where
  "ema ratio history [] = history"
| "ema ratio history (c # cs) = ema ratio (blend_step ratio history c) cs"

text \<open>The same average on one channel, and its closed form.\<close>

fun ema1 :: "real \<Rightarrow> real \<Rightarrow> real list \<Rightarrow> real" where
  "ema1 ratio h [] = h"
| "ema1 ratio h (c # cs) = ema1 ratio (mix c h ratio) cs"

text \<open>The compositor the spec describes (4.3, edge case): the history is seeded with the first
  rendered frame, so the first output is that frame.\<close>

definition spec_composite :: "real \<Rightarrow> frame list \<Rightarrow> frame" where
  "spec_composite ratio cs = ema ratio (hd cs) cs"

section \<open>Lemmas\<close>

lemma swap_buffers_store [simp]: "store (swap_buffers c) = store c"
  by (simp add: swap_buffers_def)

lemma swap_buffers_read [simp]: "read_buffer (swap_buffers c) = write_buffer c"
  by (simp add: swap_buffers_def)

lemma swap_buffers_write [simp]: "write_buffer (swap_buffers c) = read_buffer c"
  by (simp add: swap_buffers_def)

lemma swap_buffers_to_screen [simp]: "composer_to_screen (swap_buffers c) = composer_to_screen c"
  by (simp add: swap_buffers_def)

lemma swap_buffers_types [simp]: "target_type (swap_buffers c) = target_type c"
  by (simp add: swap_buffers_def)

lemma write_target_fields [simp]:
  "read_buffer (write_target t f c) = read_buffer c"
  "write_buffer (write_target t f c) = write_buffer c"
  "composer_to_screen (write_target t f c) = composer_to_screen c"
  "target_type (write_target t f c) = target_type c"
  "store (write_target t f c) = (store c)(t := store_frame (target_type c t) f)"
  by (simp_all add: write_target_def)

lemma pass_render_fields [simp]:
  "read_buffer (pass_render s b p c) = read_buffer c"
  "write_buffer (pass_render s b p c) = write_buffer c"
  "composer_to_screen (pass_render s b p c) = composer_to_screen c"
  "target_type (pass_render s b p c) = target_type c"
  by (cases p; simp)+

lemma copy_frame_one [simp, frame_simps]: "copy_frame 1 t = t"
  by (simp add: copy_frame_def)

lemma blend_frame_one [frame_simps]: "blend_frame ratio 1 t1 t2 = blend_step ratio t2 t1"
  by (simp add: blend_frame_def blend_step_def)

lemma blend_step_self [simp]: "blend_step ratio c c = c"
  by (simp add: blend_step_def map2_same_length_eqI)

lemma length_blend_step [simp, frame_simps]:
  "length (blend_step ratio h c) = min (length c) (length h)"
  by (simp add: blend_step_def)

lemma nth_blend_step [frame_simps]:
  "i < length c \<Longrightarrow> i < length h \<Longrightarrow> blend_step ratio h c ! i = mix (c ! i) (h ! i) ratio"
  by (simp add: blend_step_def)

lemma nth_ema:
  assumes "\<forall>c \<in> set cs. length c = length h" "i < length h"
  shows "ema ratio h cs ! i = ema1 ratio (h ! i) (map (\<lambda>c. c ! i) cs)"
  using assms
proof (induction cs arbitrary: h)
  case Nil
  then show ?case by simp
next
  case (Cons c cs)
  then have "\<forall>c' \<in> set cs. length c' = length (blend_step ratio h c)" "i < length (blend_step ratio h c)"
    by auto
  with Cons.IH have "ema ratio (blend_step ratio h c) cs ! i
      = ema1 ratio (blend_step ratio h c ! i) (map (\<lambda>c. c ! i) cs)" by blast
  with Cons.prems show ?case by (simp add: frame_simps)
qed

lemma ema1_closed_form:
  "ema1 ratio h cs =
     ratio ^ length cs * h + (\<Sum>k < length cs. (1 - ratio) * ratio ^ (length cs - 1 - k) * cs ! k)"
proof (induction cs arbitrary: h rule: rev_induct)
  case Nil
  then show ?case by simp
next
  case (snoc c cs)
  have step: "ema1 ratio h (cs @ [c]) = mix c (ema1 ratio h cs) ratio"
    by (induction cs arbitrary: h) auto
  have sum: "(\<Sum>k < Suc (length cs). (1 - ratio) * ratio ^ (length cs - k) * (cs @ [c]) ! k)
      = ratio * (\<Sum>k < length cs. (1 - ratio) * ratio ^ (length cs - 1 - k) * cs ! k)
        + (1 - ratio) * c"
  proof -
    have "(\<Sum>k < length cs. (1 - ratio) * ratio ^ (length cs - k) * (cs @ [c]) ! k)
        = (\<Sum>k < length cs. ratio * ((1 - ratio) * ratio ^ (length cs - 1 - k) * cs ! k))"
    proof (rule sum.cong)
      fix k assume "k \<in> {..<length cs}"
      then have "length cs - k = Suc (length cs - 1 - k)" "(cs @ [c]) ! k = cs ! k"
        by (auto simp: nth_append)
      then show "(1 - ratio) * ratio ^ (length cs - k) * (cs @ [c]) ! k
          = ratio * ((1 - ratio) * ratio ^ (length cs - 1 - k) * cs ! k)" by simp
    qed simp
    then show ?thesis by (simp add: sum_distrib_left)
  qed
  show ?case
    using sum by (simp add: step snoc.IH mix_def algebra_simps)
qed

text \<open>Two averages of the same frames differ by the decayed difference of their starts.\<close>

lemma ema_shift:
  assumes "\<forall>c \<in> set cs. length c = length H" "length H' = length H" "i < length H"
  shows "ema ratio H cs ! i - ema ratio H' cs ! i = ratio ^ length cs * (H ! i - H' ! i)"
proof -
  have "\<forall>c \<in> set cs. length c = length H'" using assms(1,2) by simp
  then have "ema ratio H' cs ! i = ema1 ratio (H' ! i) (map (\<lambda>c. c ! i) cs)"
    using assms(2,3) by (intro nth_ema) simp_all
  moreover have "ema ratio H cs ! i = ema1 ratio (H ! i) (map (\<lambda>c. c ! i) cs)"
    using assms(1,3) by (rule nth_ema)
  ultimately show ?thesis by (simp add: ema1_closed_form algebra_simps)
qed

lemma map2_snd_same_length: "length c = length h \<Longrightarrow> map2 (\<lambda>x y. y) c h = h"
  by (induction c h rule: list_induct2) auto

lemma decay_start:
  assumes "length c = length h"
  shows "map2 (\<lambda>x y. x + ratio ^ 0 * (y - x)) c h = (h :: frame)"
proof -
  have "(\<lambda>x y :: real. x + ratio ^ 0 * (y - x)) = (\<lambda>x y. y)"
    by (intro ext) simp
  then show ?thesis
    using assms by (simp only: map2_snd_same_length)
qed

lemma decay_step:
  assumes "length c = length h"
  shows "map2 (\<lambda>x y. x + ratio ^ k * (y - x)) c (blend_step ratio h c)
       = map2 (\<lambda>x y. x + ratio ^ Suc k * (y - x)) c h"
proof (rule nth_equalityI)
  fix i assume "i < length (map2 (\<lambda>x y. x + ratio ^ k * (y - x)) c (blend_step ratio h c))"
  with assms have i: "i < length c" "i < length h" by auto
  have "mix (c ! i) (h ! i) ratio - c ! i = ratio * (h ! i - c ! i)"
    by (rule mix_towards)
  with i show "map2 (\<lambda>x y. x + ratio ^ k * (y - x)) c (blend_step ratio h c) ! i
      = map2 (\<lambda>x y. x + ratio ^ Suc k * (y - x)) c h ! i"
    by (simp add: frame_simps)
qed (use assms in simp)

text \<open>The moving average of a static scene, in closed form.\<close>

lemma ema_replicate:
  "length C = length H \<Longrightarrow> ema ratio H (replicate k C) = map2 (\<lambda>c h. c + ratio ^ k * (h - c)) C H"
proof (induction k arbitrary: H)
  case 0
  then show ?case using decay_start [of C H ratio] by simp
next
  case (Suc k)
  then have "length C = length (blend_step ratio H C)" by simp
  with Suc.IH have "ema ratio (blend_step ratio H C) (replicate k C) =
      map2 (\<lambda>c h. c + ratio ^ k * (h - c)) C (blend_step ratio H C)" by blast
  with Suc.prems show ?case by (simp add: decay_step)
qed

lemma blend_step_zero_history:
  "blend_step ratio (replicate (length c) 0) c = map (\<lambda>x. (1 - ratio) * x) c"
  by (induction c) (auto simp: blend_step_def mix_def)

text \<open>One blend of a channel, stored in 8 bits, stays within \<open>\<epsilon>\<close> of the exact blend
  of a reference value that the stored history was within \<open>\<epsilon>\<close> of, when the rounding
  error \<open>1/510\<close> plus the decayed error \<open>ratio * \<epsilon>\<close> fits in \<open>\<epsilon>\<close>.\<close>

lemma quantised_blend_error:
  assumes "0 \<le> ratio" "ratio \<le> 1" "0 \<le> c" "c \<le> 1" "0 \<le> s" "s \<le> 1"
    and "\<bar>s - e\<bar> \<le> \<epsilon>" "1 / 510 + ratio * \<epsilon> \<le> \<epsilon>"
  shows "\<bar>texel_store UnsignedByteType (mix c s ratio) - mix c e ratio\<bar> \<le> \<epsilon>"
proof -
  have "0 \<le> mix c s ratio" "mix c s ratio \<le> 1" using mix_bounds [OF assms(1-6)] by simp_all
  then have q: "\<bar>texel_store UnsignedByteType (mix c s ratio) - mix c s ratio\<bar> \<le> 1 / 510"
    unfolding texel_store.simps by (rule unorm8_error)
  have "mix c s ratio - mix c e ratio = ratio * (s - e)" by (simp add: mix_def algebra_simps)
  then have "\<bar>mix c s ratio - mix c e ratio\<bar> \<le> ratio * \<epsilon>"
    using assms(1,7) by (simp add: abs_mult mult_left_mono)
  with q assms(8) show ?thesis by linarith
qed

end
