(* ===== verification/RenderLoop.thy ===== *)
theory RenderLoop
  imports Audio Compositor
begin

text \<open>
  The application: \<open>startApp\<close> of src/src/app.js (lines 59--168), which builds the mesh,
  the \<open>Visualizer\<close>, the three postprocessing passes and registers the tick callback
  (lines 155--167).  The host of src/render/init.js is not under src/; from the spec
  (sections 4.4 and 6) it owns an \<open>EffectComposer\<close> whose first pass renders the scene,
  and on every display refresh it runs the registered tick callbacks and then the composer.
  The scene's rasterisation (the shader pair of src/shaders/, not under src/ either) is a
  parameter \<open>render_scene :: light list \<Rightarrow> mesh \<Rightarrow> frame\<close>: it sees the lights the
  renderer hands it and the mesh's rotation and uniforms.  The host draws the scene
  through \<open>scene_render\<close>, the renderer's rule that hands over the scene's lights only
  to a material with \<open>lights\<close> set.  The app state also holds the console output,
  \<open>console_out\<close>.
  A session is a step relation over \<open>Idle\<close> (before \<open>startApp\<close>) and \<open>Running\<close>,
  whose steps are the start, an animation frame, and the completion of the audio decode.
\<close>

section \<open>Constants of startApp\<close>

definition ROTATION_SPEED :: real where
  "ROTATION_SPEED = 0.02"

definition MOTION_BLUR_AMOUNT :: real where
  "MOTION_BLUR_AMOUNT = 0.725"

definition TRACK :: string where
  "TRACK = ''./sounds/song.mp3''"

section \<open>The host (src/render/init.js)\<close>

definition host_passes :: "pass_slot list" where
  "host_passes = [new_pass RenderPass]"

definition add_pass :: "pass_slot list \<Rightarrow> pass_slot \<Rightarrow> pass_slot list" where
  "add_pass ps p = ps @ [p]"

section \<open>The passes built by startApp\<close>

text \<open>\<open>renderTargetParameters\<close> (lines 125--129): no \<open>type\<close> key.\<close>

definition renderTargetParameters :: render_target_parameters where
  "renderTargetParameters =
     \<lparr>min_filter = LinearFilter, mag_filter = LinearFilter, stencil_buffer = False,
      texture_kind = None\<rparr>"

definition make_save_pass :: pass_slot where
  "make_save_pass = new_pass (SavePass SaveTarget)"

definition make_blend_pass :: pass_slot where
  "make_blend_pass = new_pass (BlendPass MOTION_BLUR_AMOUNT 1 SaveTarget)"

definition make_output_pass :: pass_slot where
  "make_output_pass = (new_pass (CopyPass 1))\<lparr>render_to_screen := True\<rparr>"

section \<open>Application state\<close>

record app =
  scene_children :: "node list"
  ico :: mesh
  vis :: visualizer
  comp :: composer
  passes :: "pass_slot list"
  console_out :: console

text \<open>Line 148: \<open>ico.rotation.z += 1.0\<close>.\<close>

definition tilt_setup :: "mesh \<Rightarrow> mesh" where
  "tilt_setup m = m\<lparr>rot_z := rot_z m + 1.0\<rparr>"

text \<open>Lines 151--153: \<open>addPass(blendPass)\<close>, \<open>addPass(savePass)\<close>, \<open>addPass(outputPass)\<close>.\<close>

definition register_passes :: "pass_slot list \<Rightarrow> pass_slot \<Rightarrow> pass_slot \<Rightarrow> pass_slot \<Rightarrow> pass_slot list" where
  "register_passes ps blend save output = add_pass (add_pass (add_pass ps blend) save) output"

definition start_app :: "nat \<Rightarrow> nat \<Rightarrow> js_error + app" where
  "start_app width height =
     (let scene0 = scene_add [] [LightNode dirLight, LightNode ambientLight];
          mat = ico_material\<lparr>material_uniforms := uniform_bind (material_uniforms ico_material) ''uTime'' 0\<rparr>;
          m = mesh_new ico_geometry mat
      in case visualizer_new m ''uAudioFrequency'' of
           Inl e \<Rightarrow> Inl e
         | Inr (v, m1) \<Rightarrow>
             (let v1 = visualizer_load v TRACK;
                  sc = scene_add scene0 [IcoMeshNode];
                  save = make_save_pass;
                  blend = make_blend_pass;
                  output = make_output_pass;
                  m2 = tilt_setup m1;
                  ps = register_passes host_passes blend save output;
                  c = attach_target SaveTarget (webgl_render_target_type renderTargetParameters)
                        (width * height * 4) (composer_new (width * height * 4))
              in Inr \<lparr>scene_children = sc, ico = m2, vis = v1, comp = c, passes = ps, console_out = []\<rparr>))"

text \<open>Line 165: \<open>const time = timestamp / 1000\<close>.\<close>

definition tick_time :: "real \<Rightarrow> real" where
  "tick_time timestamp = timestamp / 1000"

text \<open>The tick callback (lines 155--167); \<open>timeDiff\<close> is received and not used.\<close>

definition rotate_tick :: "mesh \<Rightarrow> mesh" where
  "rotate_tick m =
     (let m1 = m\<lparr>rot_z := rot_z m + 0.05\<rparr>;
          m2 = m1\<lparr>rot_x := rot_x m1 + 0.05\<rparr>
      in m2\<lparr>rot_y := rot_y m2 + 0.05\<rparr>)"

definition tick_callback :: "app \<Rightarrow> real \<Rightarrow> real \<Rightarrow> (nat \<Rightarrow> byte) \<Rightarrow> js_error + app" where
  "tick_callback a timestamp time_diff spectrum =
     (case visualizer_update (vis a) (ico a) (console_out a) spectrum of
        Inl e \<Rightarrow> Inl e
      | Inr (v', m', out') \<Rightarrow>
          (let m3 = rotate_tick m';
               time = tick_time timestamp
           in case uniform_set (mesh_uniforms m3) ''uTime'' time of
                Inl e \<Rightarrow> Inl e
              | Inr u \<Rightarrow> Inr (a\<lparr>vis := v', ico := m3\<lparr>mesh_uniforms := u\<rparr>, console_out := out'\<rparr>)))"

section \<open>The renderer's use of the lights\<close>

text \<open>The lights of a scene graph, in the order they were added.\<close>

fun scene_lights :: "node list \<Rightarrow> light list" where
  "scene_lights [] = []"
| "scene_lights (LightNode l # ns) = l # scene_lights ns"
| "scene_lights (AudioListenerNode # ns) = scene_lights ns"
| "scene_lights (IcoMeshNode # ns) = scene_lights ns"

text \<open>
  \<open>WebGLRenderer\<close> drawing a mesh of a scene: the scene's lights reach the material's
  program only when the material has \<open>lights\<close> set (\<open>materialProperties.lights\<close>
  decides whether the light uniforms are refreshed); otherwise the program is drawn as
  in a scene without lights.  \<open>draw\<close> is the shader pair's rasterisation of the mesh
  under the lights it receives.
\<close>

definition scene_render :: "(light list \<Rightarrow> mesh \<Rightarrow> frame) \<Rightarrow> node list \<Rightarrow> mesh \<Rightarrow> frame" where
  "scene_render draw sc m = draw (if mesh_lights m then scene_lights sc else []) m"

section \<open>The host's refresh\<close>

text \<open>One display refresh of the host: the tick callbacks, then \<open>composer.render()\<close>.\<close>

definition host_frame ::
  "(light list \<Rightarrow> mesh \<Rightarrow> frame) \<Rightarrow> app \<Rightarrow> real \<Rightarrow> real \<Rightarrow> (nat \<Rightarrow> byte) \<Rightarrow> js_error + app" where
  "host_frame render_scene a timestamp time_diff spectrum =
     (case tick_callback a timestamp time_diff spectrum of
        Inl e \<Rightarrow> Inl e
      | Inr a' \<Rightarrow> Inr (a'\<lparr>comp := composer_render (scene_render render_scene (scene_children a') (ico a')) (passes a') (comp a')\<rparr>))"

text \<open>A sequence of display refreshes, stopping at the first exception.\<close>

fun run_frames ::
  "(light list \<Rightarrow> mesh \<Rightarrow> frame) \<Rightarrow> app \<Rightarrow> (real \<times> real \<times> (nat \<Rightarrow> byte)) list \<Rightarrow> js_error + app" where
  "run_frames render_scene a [] = Inr a"
| "run_frames render_scene a ((ts, dt, sp) # fs) =
     (case host_frame render_scene a ts dt sp of
        Inl e \<Rightarrow> Inl e
      | Inr a' \<Rightarrow> run_frames render_scene a' fs)"

text \<open>The same run, recording the application after each refresh.\<close>

fun run_trace ::
  "(light list \<Rightarrow> mesh \<Rightarrow> frame) \<Rightarrow> app \<Rightarrow> (real \<times> real \<times> (nat \<Rightarrow> byte)) list \<Rightarrow> js_error + app list" where
  "run_trace render_scene a [] = Inr []"
| "run_trace render_scene a ((ts, dt, sp) # fs) =
     (case host_frame render_scene a ts dt sp of
        Inl e \<Rightarrow> Inl e
      | Inr a' \<Rightarrow> (case run_trace render_scene a' fs of Inl e \<Rightarrow> Inl e | Inr as \<Rightarrow> Inr (a' # as)))"

section \<open>The invariant of a running session\<close>

text \<open>The pass list \<open>startApp\<close> leaves in the host composer.\<close>

abbreviation app_passes :: "pass_slot list" where
  "app_passes \<equiv> [new_pass RenderPass, make_blend_pass, make_save_pass, make_output_pass]"

text \<open>The sound once the decoded track has been handed to the callback.\<close>

definition playing_audio :: "pcm \<Rightarrow> audio" where
  "playing_audio b =
     audio_new\<lparr>audio_buffer := Some b, source_type := BufferSource, audio_loop := True,
               gain_target := 0.5, is_playing := True, source := Some (Some b, True)\<rparr>"

definition audio_ok :: "audio \<Rightarrow> bool" where
  "audio_ok s \<longleftrightarrow>
     s = audio_new \<or> (case audio_buffer s of None \<Rightarrow> False | Some b \<Rightarrow> s = playing_audio b)"

text \<open>The texture types of the running composer: the save target and the canvas are 8-bit.\<close>

definition app_target_types :: "target \<Rightarrow> texture_type" where
  "app_target_types t = (if t = SaveTarget \<or> t = Screen then UnsignedByteType else HalfFloatType)"

text \<open>The scene graph \<open>startApp\<close> builds (lines 70 and 100).\<close>

abbreviation app_scene :: "node list" where
  "app_scene \<equiv> [LightNode dirLight, LightNode ambientLight, IcoMeshNode]"

text \<open>What holds of every running application, whatever the renderer draws.\<close>

definition app_wf :: "app \<Rightarrow> bool" where
  "app_wf a \<longleftrightarrow>
     uniforms_ready (mesh_uniforms (ico a)) \<and>
     frequency_uniform_name (vis a) = ''uAudioFrequency'' \<and>
     length (freq_data (analyzer (vis a))) = 16 \<and>
     passes a = app_passes \<and>
     read_buffer (comp a) = RenderTarget1 \<and> write_buffer (comp a) = RenderTarget2 \<and>
     composer_to_screen (comp a) \<and>
     target_type (comp a) = app_target_types \<and>
     byte_valued (store (comp a) SaveTarget) \<and>
     store (comp a) Screen = store (comp a) SaveTarget \<and>
     rot_y (ico a) = rot_x (ico a) \<and> rot_z (ico a) = rot_x (ico a) + 1 \<and>
     audio_ok (sound (vis a)) \<and>
     scene_children a = app_scene \<and> mesh_geometry (ico a) = ico_geometry \<and>
     \<not> mesh_lights (ico a) \<and>
     (pending_loads (vis a) = [] \<or>
        pending_loads (vis a) = [TRACK] \<and> sound (vis a) = audio_new)"

text \<open>All render targets and the screen keep the viewport's size.\<close>

definition targets_sized :: "nat \<Rightarrow> composer \<Rightarrow> bool" where
  "targets_sized n c \<longleftrightarrow>
     list_all (\<lambda>t. length (store c t) = n) [RenderTarget1, RenderTarget2, SaveTarget, Screen]"

section \<open>The session as a step relation\<close>

datatype session = Idle | Running app

fun session_inv :: "nat \<Rightarrow> session \<Rightarrow> bool" where
  "session_inv n Idle = True"
| "session_inv n (Running a) = (app_wf a \<and> targets_sized n (comp a))"

inductive session_step :: "(light list \<Rightarrow> mesh \<Rightarrow> frame) \<Rightarrow> nat \<Rightarrow> nat \<Rightarrow> session \<Rightarrow> session \<Rightarrow> bool"
  for render_scene width height where
  start: "start_app width height = Inr a \<Longrightarrow>
            session_step render_scene width height Idle (Running a)"
| frame: "host_frame render_scene a ts dt sp = Inr a' \<Longrightarrow>
            session_step render_scene width height (Running a) (Running a')"
| decoded: "pending_loads (vis a) \<noteq> [] \<Longrightarrow>
            session_step render_scene width height (Running a) (Running (a\<lparr>vis := load_complete (vis a) r\<rparr>))"

inductive reachable :: "(light list \<Rightarrow> mesh \<Rightarrow> frame) \<Rightarrow> nat \<Rightarrow> nat \<Rightarrow> session \<Rightarrow> bool"
  for render_scene width height where
  init: "reachable render_scene width height Idle"
| step: "reachable render_scene width height s \<Longrightarrow> session_step render_scene width height s t \<Longrightarrow>
           reachable render_scene width height t"

section \<open>Lemmas\<close>

text \<open>The application after the tick callback has run on a well-formed state.\<close>

abbreviation ticked :: "app \<Rightarrow> real \<Rightarrow> (nat \<Rightarrow> byte) \<Rightarrow> app" where
  "ticked a ts sp \<equiv>
     a\<lparr>vis := fst (get_frequency (vis a) sp),
       ico := (rotate_tick (ico a))\<lparr>mesh_uniforms := (mesh_uniforms (ico a))
          (''uAudioFrequency'' \<mapsto> snd (get_frequency (vis a) sp) / 50, ''uTime'' \<mapsto> ts / 1000)\<rparr>,
       console_out := console_out a @ [snd (get_frequency (vis a) sp) / 50]\<rparr>"

lemma start_app_Inr:
  "start_app w h =
     Inr \<lparr>scene_children = app_scene,
          ico = \<lparr>rot_x = 0, rot_y = 0, rot_z = 1, mesh_children = [AudioListenerNode],
                 mesh_geometry = ico_geometry,
                 mesh_uniforms = [''uTime'' \<mapsto> 0, ''uAudioFrequency'' \<mapsto> 0], mesh_lights = False\<rparr>,
          vis = \<lparr>frequency_uniform_name = ''uAudioFrequency'', sound = audio_new,
                 analyzer = \<lparr>fft_size = 32, freq_data = replicate 16 0\<rparr>,
                 pending_loads = [TRACK]\<rparr>,
          comp = attach_target SaveTarget UnsignedByteType (w * h * 4) (composer_new (w * h * 4)),
          passes = app_passes, console_out = []\<rparr>"
  by (simp add: start_app_def visualizer_new_def analyser_new_32 Let_def uniform_bind_def
      mesh_new_def mesh_add_def new_material_uniforms_def visualizer_load_def add_pass_def
      ico_material_def shader_material_new_def scene_add_def tilt_setup_def register_passes_def
      host_passes_def renderTargetParameters_def webgl_render_target_type_def)

lemma app_target_types_simps [simp]:
  "app_target_types RenderTarget1 = HalfFloatType" "app_target_types RenderTarget2 = HalfFloatType"
  "app_target_types SaveTarget = UnsignedByteType" "app_target_types Screen = UnsignedByteType"
  by (simp_all add: app_target_types_def)

text \<open>The composer after one refresh of the application's passes, from \<open>store c\<close>.\<close>

abbreviation blurred :: "frame \<Rightarrow> composer \<Rightarrow> target \<Rightarrow> frame" where
  "blurred scene c \<equiv> (store c)(RenderTarget1 := scene,
     RenderTarget2 := blend_step MOTION_BLUR_AMOUNT (store c SaveTarget) scene,
     SaveTarget := store_frame UnsignedByteType (blend_step MOTION_BLUR_AMOUNT (store c SaveTarget) scene),
     Screen := store_frame UnsignedByteType (blend_step MOTION_BLUR_AMOUNT (store c SaveTarget) scene))"

lemma composer_render_app_passes:
  assumes "read_buffer c = RenderTarget1" "write_buffer c = RenderTarget2" "composer_to_screen c"
    and "target_type c = app_target_types"
  shows "composer_render scene app_passes c = c\<lparr>store := blurred scene c\<rparr>"
  using assms
  by (simp add: make_blend_pass_def make_save_pass_def make_output_pass_def new_pass_def
      composer_pass_def blend_frame_one)

lemma get_frequency_fields [simp]:
  "frequency_uniform_name (fst (get_frequency v sp)) = frequency_uniform_name v"
  "sound (fst (get_frequency v sp)) = sound v"
  "pending_loads (fst (get_frequency v sp)) = pending_loads v"
  "length (freq_data (analyzer (fst (get_frequency v sp)))) = length (freq_data (analyzer v))"
  by (simp_all add: get_frequency_def split_beta get_average_frequency_state)

lemma visualizer_update_bound:
  assumes "frequency_uniform_name v \<in> dom (mesh_uniforms m)"
  shows "visualizer_update v m out sp =
           Inr (fst (get_frequency v sp),
                m\<lparr>mesh_uniforms := (mesh_uniforms m)(frequency_uniform_name v \<mapsto> snd (get_frequency v sp) / 50)\<rparr>,
                out @ [snd (get_frequency v sp) / 50])"
  using assms by (simp add: visualizer_update_def split_beta uniform_set_bound Let_def)

lemma rotate_tick_fields [simp]:
  "rot_x (rotate_tick m) = rot_x m + 0.05"
  "rot_y (rotate_tick m) = rot_y m + 0.05"
  "rot_z (rotate_tick m) = rot_z m + 0.05"
  "mesh_uniforms (rotate_tick m) = mesh_uniforms m"
  "mesh_children (rotate_tick m) = mesh_children m"
  "mesh_geometry (rotate_tick m) = mesh_geometry m"
  "mesh_lights (rotate_tick m) = mesh_lights m"
  by (simp_all add: rotate_tick_def Let_def)

lemma tick_callback_wf:
  assumes "app_wf a"
  shows "tick_callback a ts dt sp = Inr (ticked a ts sp)"
proof -
  from assms have ready: "uniforms_ready (mesh_uniforms (ico a))"
    and name: "frequency_uniform_name (vis a) = ''uAudioFrequency''"
    by (simp_all add: app_wf_def)
  then have "frequency_uniform_name (vis a) \<in> dom (mesh_uniforms (ico a))"
    by (simp add: uniforms_ready_iff)
  then show ?thesis
    using ready name
    by (simp add: tick_callback_def tick_time_def visualizer_update_bound uniform_set_bound uniforms_ready_iff
        Let_def)
qed

lemma host_frame_wf:
  assumes "app_wf a"
  shows "host_frame R a ts dt sp =
           Inr ((ticked a ts sp)\<lparr>comp := composer_render (R [] (ico (ticked a ts sp))) app_passes (comp a)\<rparr>)"
  using assms by (simp add: host_frame_def tick_callback_wf app_wf_def scene_render_def del: composer_render.simps)

lemma host_frame_wf_store:
  assumes "app_wf a"
  shows "host_frame R a ts dt sp =
           Inr ((ticked a ts sp)\<lparr>comp := (comp a)\<lparr>store := blurred (R [] (ico (ticked a ts sp))) (comp a)\<rparr>\<rparr>)"
proof -
  from assms have "read_buffer (comp a) = RenderTarget1" "write_buffer (comp a) = RenderTarget2"
      "composer_to_screen (comp a)" "target_type (comp a) = app_target_types"
    by (simp_all add: app_wf_def)
  then show ?thesis
    using assms by (simp only: host_frame_wf composer_render_app_passes)
qed

lemma host_frame_wf_result:
  assumes "app_wf a" "host_frame R a ts dt sp = Inr a'"
  shows "ico a' = ico (ticked a ts sp)" "vis a' = vis (ticked a ts sp)" "passes a' = passes a"
    "read_buffer (comp a') = read_buffer (comp a)" "write_buffer (comp a') = write_buffer (comp a)"
    "composer_to_screen (comp a') = composer_to_screen (comp a)"
    "store (comp a') = blurred (R [] (ico a')) (comp a)"
    "target_type (comp a') = target_type (comp a)" "scene_children a' = scene_children a"
  using assms by (auto simp: host_frame_wf_store)

lemma host_frame_uniform_values:
  assumes "app_wf a" "host_frame R a ts dt sp = Inr a'"
  shows "mesh_uniforms (ico a') ''uAudioFrequency'' =
           Some (real (sum_list (map (\<lambda>i. unat (heard_spectrum (sound (vis a)) sp i)) [0..<16])) / 16 / 50)"
    "mesh_uniforms (ico a') ''uTime'' = Some (ts / 1000)"
proof -
  have "length (freq_data (analyzer (vis a))) = 16" using assms(1) by (simp add: app_wf_def)
  then show "mesh_uniforms (ico a') ''uAudioFrequency'' =
           Some (real (sum_list (map (\<lambda>i. unat (heard_spectrum (sound (vis a)) sp i)) [0..<16])) / 16 / 50)"
    using host_frame_wf_result (1) [OF assms] by (simp add: get_frequency_value)
  show "mesh_uniforms (ico a') ''uTime'' = Some (ts / 1000)"
    using host_frame_wf_result (1) [OF assms] by simp
qed

text \<open>A refresh prints one console line, the value it wrote to \<open>uAudioFrequency\<close>.\<close>

lemma host_frame_console:
  assumes "app_wf a" "host_frame R a ts dt sp = Inr a'"
  shows "console_out a' = console_out a @ [the (mesh_uniforms (ico a') ''uAudioFrequency'')]"
  using assms by (auto simp: host_frame_wf_store)

lemma audio_ok_new [simp]: "audio_ok audio_new"
  by (simp add: audio_ok_def)

lemma on_buffer_loaded_new:
  "sound v = audio_new \<Longrightarrow> sound (on_buffer_loaded v b) = playing_audio b"
  by (simp add: on_buffer_loaded_def audio_set_buffer_def audio_set_loop_def audio_set_volume_def
      audio_play_def audio_new_def playing_audio_def)

lemma audio_ok_playing [simp]: "audio_ok (playing_audio b)"
  by (simp add: audio_ok_def playing_audio_def)

lemma on_buffer_loaded_fields [simp]:
  "frequency_uniform_name (on_buffer_loaded v b) = frequency_uniform_name v"
  "analyzer (on_buffer_loaded v b) = analyzer v"
  "pending_loads (on_buffer_loaded v b) = pending_loads v"
  by (simp_all add: on_buffer_loaded_def)

lemma app_wf_start: "start_app w h = Inr a \<Longrightarrow> app_wf a"
  by (auto simp: start_app_Inr app_wf_def uniforms_ready_iff composer_new_def attach_target_def
      fun_eq_iff app_target_types_def)

lemma targets_sized_start: "start_app w h = Inr a \<Longrightarrow> targets_sized (w * h * 4) (comp a)"
  by (auto simp: start_app_Inr targets_sized_def composer_new_def attach_target_def)

lemma app_wf_load_complete:
  assumes "app_wf a"
  shows "app_wf (a\<lparr>vis := load_complete (vis a) r\<rparr>)"
proof (cases "pending_loads (vis a)")
  case Nil
  with assms show ?thesis by (simp add: load_complete_def)
next
  case (Cons p rest)
  with assms have "pending_loads (vis a) = [TRACK]" and snd: "sound (vis a) = audio_new"
    by (auto simp: app_wf_def)
  then show ?thesis
    using assms snd
    by (cases r) (auto simp: load_complete_def app_wf_def on_buffer_loaded_new)
qed

lemma app_wf_host_frame:
  assumes "app_wf a" "host_frame R a ts dt sp = Inr a'"
  shows "app_wf a'"
  using host_frame_wf_result [OF assms] assms(1) by (simp add: app_wf_def uniforms_ready_iff)

lemma targets_sized_host_frame:
  assumes "app_wf a" "targets_sized n (comp a)" "\<forall>m. length (R [] m) = n"
    and "host_frame R a ts dt sp = Inr a'"
  shows "targets_sized n (comp a')"
  using host_frame_wf_result [OF assms(1,4)] assms(2,3) by (simp add: targets_sized_def)

lemma session_step_inv:
  assumes "session_step R w h s t" "session_inv (w * h * 4) s" "\<forall>m. length (R [] m) = w * h * 4"
  shows "session_inv (w * h * 4) t"
  using assms
  by (induction rule: session_step.induct)
     (auto intro: app_wf_start targets_sized_start app_wf_load_complete app_wf_host_frame
        targets_sized_host_frame)

lemma reachable_session_inv:
  "reachable R w h s \<Longrightarrow> \<forall>m. length (R [] m) = w * h * 4 \<Longrightarrow> session_inv (w * h * 4) s"
  by (induction rule: reachable.induct) (auto intro: session_step_inv)

lemma reachable_app_wf_session:
  "reachable R w h s \<Longrightarrow> (case s of Idle \<Rightarrow> True | Running a \<Rightarrow> app_wf a)"
proof (induction rule: reachable.induct)
  case init
  then show ?case by simp
next
  case (step s t)
  from step.hyps(2) step.IH show ?case
    by (cases rule: session_step.cases)
       (auto intro: app_wf_start app_wf_load_complete app_wf_host_frame)
qed

lemma reachable_start:
  "reachable R w h (Running (projr (start_app w h)))"
  by (rule reachable.step [OF reachable.init session_step.start]) (simp add: start_app_Inr)

lemma reachable_app_wf: "reachable R w h (Running a) \<Longrightarrow> app_wf a"
  using reachable_app_wf_session by fastforce

lemma run_frames_rotation:
  "app_wf a \<Longrightarrow>
     \<exists>a'. run_frames R a fs = Inr a' \<and> app_wf a' \<and>
       rot_x (ico a') = rot_x (ico a) + 0.05 * real (length fs) \<and>
       rot_y (ico a') = rot_y (ico a) + 0.05 * real (length fs) \<and>
       rot_z (ico a') = rot_z (ico a) + 0.05 * real (length fs)"
proof (induction fs arbitrary: a)
  case Nil
  then show ?case by simp
next
  case (Cons f fs)
  obtain ts dt sp where f: "f = (ts, dt, sp)" by (cases f)
  from Cons.prems obtain a1 where a1: "host_frame R a ts dt sp = Inr a1"
    by (simp add: host_frame_wf)
  from Cons.prems a1 have wf1: "app_wf a1" by (rule app_wf_host_frame)
  have rot1: "rot_x (ico a1) = rot_x (ico a) + 0.05" "rot_y (ico a1) = rot_y (ico a) + 0.05"
      "rot_z (ico a1) = rot_z (ico a) + 0.05"
    using host_frame_wf_result (1) [OF Cons.prems a1] by simp_all
  from Cons.IH [OF wf1] obtain a' where "run_frames R a1 fs = Inr a'" "app_wf a'"
    "rot_x (ico a') = rot_x (ico a1) + 0.05 * real (length fs)"
    "rot_y (ico a') = rot_y (ico a1) + 0.05 * real (length fs)"
    "rot_z (ico a') = rot_z (ico a1) + 0.05 * real (length fs)" by blast
  with a1 f rot1 show ?case by (simp add: algebra_simps)
qed

lemma host_frame_silent:
  assumes "app_wf a" "\<not> is_playing (sound (vis a))" "host_frame R a ts dt sp = Inr a'"
  shows "mesh_uniforms (ico a') ''uAudioFrequency'' = Some 0" "sound (vis a') = sound (vis a)"
    "pending_loads (vis a') = pending_loads (vis a)"
  using host_frame_wf_result [OF assms(1,3)] assms(2) by (simp_all add: get_frequency_silent)

lemma run_frames_silent:
  "app_wf a \<Longrightarrow> \<not> is_playing (sound (vis a)) \<Longrightarrow>
     \<exists>a'. run_frames R a fs = Inr a' \<and> sound (vis a') = sound (vis a) \<and>
       pending_loads (vis a') = pending_loads (vis a) \<and>
       (fs \<noteq> [] \<longrightarrow> mesh_uniforms (ico a') ''uAudioFrequency'' = Some 0)"
proof (induction fs arbitrary: a)
  case Nil
  then show ?case by simp
next
  case (Cons f fs)
  obtain ts dt sp where f: "f = (ts, dt, sp)" by (cases f)
  from Cons.prems(1) obtain a1 where a1: "host_frame R a ts dt sp = Inr a1"
    by (simp add: host_frame_wf)
  from Cons.prems(1) a1 have wf1: "app_wf a1" by (rule app_wf_host_frame)
  note s1 = host_frame_silent [OF Cons.prems a1]
  with Cons.prems(2) have "\<not> is_playing (sound (vis a1))" by simp
  from Cons.IH [OF wf1 this] obtain a' where "run_frames R a1 fs = Inr a'"
    "sound (vis a') = sound (vis a1)" "pending_loads (vis a') = pending_loads (vis a1)"
    "fs \<noteq> [] \<longrightarrow> mesh_uniforms (ico a') ''uAudioFrequency'' = Some 0" by blast
  with a1 f s1 show ?case by (cases fs) auto
qed

text \<open>One refresh keeps the 8-bit history within 1/140 per channel of an exact blend.\<close>

lemma quantised_blend_step_error:
  assumes "byte_valued S" "colour_range C" "length C = length S" "length E = length S"
    and "\<forall>i < length S. \<bar>S ! i - E ! i\<bar> \<le> 1 / 140"
  shows "\<forall>i < length S. \<bar>store_frame UnsignedByteType (blend_step MOTION_BLUR_AMOUNT S C) ! i
                            - blend_step MOTION_BLUR_AMOUNT E C ! i\<bar> \<le> 1 / 140"
proof (intro allI impI)
  fix i assume i: "i < length S"
  have "colour_range S" using assms(1) by (rule byte_valued_colour_range)
  then have s: "0 \<le> S ! i" "S ! i \<le> 1" and c: "0 \<le> C ! i" "C ! i \<le> 1"
    using assms(2,3) i by (auto simp: colour_range_def list_all_iff)
  have "\<bar>texel_store UnsignedByteType (mix (C ! i) (S ! i) MOTION_BLUR_AMOUNT)
          - mix (C ! i) (E ! i) MOTION_BLUR_AMOUNT\<bar> \<le> 1 / 140"
    using assms(5) i c s
    by (intro quantised_blend_error) (simp_all add: MOTION_BLUR_AMOUNT_def)
  with i assms(3,4) show "\<bar>store_frame UnsignedByteType (blend_step MOTION_BLUR_AMOUNT S C) ! i
                            - blend_step MOTION_BLUR_AMOUNT E C ! i\<bar> \<le> 1 / 140"
    by (simp add: frame_simps)
qed

text \<open>A run of refreshes keeps the 8-bit history within 1/140 per channel of the exact
  moving average of the frames the run rendered (for a scene drawn in [0,1]).\<close>

lemma run_trace_quantised:
  "app_wf a \<Longrightarrow> \<forall>m. colour_range (R [] m) \<and> length (R [] m) = n \<Longrightarrow>
     length (store (comp a) SaveTarget) = n \<Longrightarrow> length E = n \<Longrightarrow>
     \<forall>i < n. \<bar>store (comp a) SaveTarget ! i - E ! i\<bar> \<le> 1 / 140 \<Longrightarrow>
     \<exists>as. run_trace R a fs = Inr as \<and> length as = length fs \<and> app_wf (last (a # as)) \<and>
       (\<forall>i < n. \<bar>store (comp (last (a # as))) SaveTarget ! i
          - ema MOTION_BLUR_AMOUNT E (map (\<lambda>b. store (comp b) RenderTarget1) as) ! i\<bar> \<le> 1 / 140) \<and>
       (\<forall>b \<in> set as. \<exists>m. store (comp b) RenderTarget1 = R [] m)"
proof (induction fs arbitrary: a E)
  case Nil
  then show ?case by simp
next
  case (Cons f fs)
  obtain ts dt sp where f: "f = (ts, dt, sp)" by (cases f)
  from Cons.prems(1) obtain a1 where a1: "host_frame R a ts dt sp = Inr a1"
    by (simp add: host_frame_wf)
  from Cons.prems(1) a1 have wf1: "app_wf a1" by (rule app_wf_host_frame)
  note r1 = host_frame_wf_result (7) [OF Cons.prems(1) a1]
  let ?C = "R [] (ico a1)"
  let ?E1 = "blend_step MOTION_BLUR_AMOUNT E ?C"
  have bv: "byte_valued (store (comp a) SaveTarget)" using Cons.prems(1) by (simp add: app_wf_def)
  have C: "colour_range ?C" "length ?C = n" using Cons.prems(2) by simp_all
  have len1: "length (store (comp a1) SaveTarget) = n" "length ?E1 = n"
    using r1 C Cons.prems(3,4) by simp_all
  have "\<forall>i < n. \<bar>store (comp a1) SaveTarget ! i - ?E1 ! i\<bar> \<le> 1 / 140"
    using quantised_blend_step_error [OF bv C(1)] C(2) Cons.prems(3-5) r1 by simp
  from Cons.IH [OF wf1 Cons.prems(2) len1 this] obtain as where
    "run_trace R a1 fs = Inr as" "length as = length fs" "app_wf (last (a1 # as))"
    "\<forall>i < n. \<bar>store (comp (last (a1 # as))) SaveTarget ! i
        - ema MOTION_BLUR_AMOUNT ?E1 (map (\<lambda>b. store (comp b) RenderTarget1) as) ! i\<bar> \<le> 1 / 140"
    "\<forall>b \<in> set as. \<exists>m. store (comp b) RenderTarget1 = R [] m" by blast
  with a1 f r1 show ?case by auto
qed

end
