(* ===== verification/Trail.thy ===== *)
theory Trail
  imports RenderLoop
begin

text \<open>
  The motion-blur trail at the level of the bytes the save target stores.  The history
  lives in the 8-bit \<open>WebGLRenderTarget\<close> of line 132 of src/src/app.js, so under a
  static scene whose channels are bytes \<open>c\<close>, one refresh takes a history byte \<open>h\<close> to
  \<open>round(0.275 c + 0.725 h) = c + \<lfloor>(29 (h - c) + 20) / 40\<rfloor>\<close>: the gap
  \<open>d = h - c\<close> follows \<open>trail_step\<close>.  Its fixed points are -1, 0 and 1, so a
  gap of one byte is never closed: the trail stalls one step short of the scene.  Every
  other gap shrinks; \<open>trail_settle\<close> counts the refreshes until the gap is at most one
  byte, a recursion whose termination is the measure \<open>|d|\<close>, and it is at most 16 for
  every gap a byte can have.
\<close>

section \<open>The gap between the history and the scene, in bytes\<close>

definition trail_step :: "int \<Rightarrow> int" where
  "trail_step d = (29 * d + 20) div 40"

text \<open>The history byte after one refresh, scene byte \<open>c\<close>, history byte \<open>h\<close>.\<close>

definition trail_byte :: "byte \<Rightarrow> byte \<Rightarrow> byte" where
  "trail_byte c h = word_of_int (uint c + trail_step (uint h - uint c))"

text \<open>The 8-bit history after one refresh of a static scene, channel by channel.\<close>

definition trail_frame :: "frame \<Rightarrow> frame \<Rightarrow> frame" where
  "trail_frame C S = map2 (\<lambda>c h. unorm8_value (trail_byte (unorm8 c) (unorm8 h))) C S"

text \<open>Refreshes until the gap is at most one byte.\<close>

function trail_settle :: "int \<Rightarrow> nat" where
  "trail_settle d = (if \<bar>d\<bar> \<le> 1 then 0 else Suc (trail_settle (trail_step d)))"
  by pat_completeness auto
termination
proof (relation "measure (\<lambda>d. nat \<bar>d\<bar>)")
  show "wf (measure (\<lambda>d. nat \<bar>d\<bar>))" by simp
next
  fix d :: int assume d: "\<not> \<bar>d\<bar> \<le> 1"
  have "40 * trail_step d + (29 * d + 20) mod 40 = 29 * d + 20"
    unfolding trail_step_def by (rule mult_div_mod_eq)
  moreover have "0 \<le> (29 * d + 20) mod 40" "(29 * d + 20) mod 40 < 40" by simp_all
  ultimately have "\<bar>trail_step d\<bar> < \<bar>d\<bar>" using d by (simp add: abs_if split: if_splits) linarith+
  then show "(trail_step d, d) \<in> measure (\<lambda>d. nat \<bar>d\<bar>)" by simp
qed

declare trail_settle.simps [simp del]

text \<open>The gaps of every channel of a history against a scene.\<close>

definition byte_gaps :: "frame \<Rightarrow> frame \<Rightarrow> int list" where
  "byte_gaps S C = map2 (\<lambda>s c. uint (unorm8 s) - uint (unorm8 c)) S C"

section \<open>Lemmas\<close>

lemma trail_step_bounds: "40 * trail_step d \<le> 29 * d + 20" "29 * d + 20 < 40 * trail_step d + 40"
proof -
  have "40 * trail_step d + (29 * d + 20) mod 40 = 29 * d + 20"
    unfolding trail_step_def by (rule mult_div_mod_eq)
  moreover have "0 \<le> (29 * d + 20) mod 40" "(29 * d + 20) mod 40 < 40" by simp_all
  ultimately show "40 * trail_step d \<le> 29 * d + 20" "29 * d + 20 < 40 * trail_step d + 40" by linarith+
qed

lemma trail_step_sign:
  "0 \<le> d \<Longrightarrow> 0 \<le> trail_step d \<and> trail_step d \<le> d"
  "d \<le> 0 \<Longrightarrow> d \<le> trail_step d \<and> trail_step d \<le> 0"
  using trail_step_bounds [of d] by linarith+

lemma trail_step_mono: "d \<le> e \<Longrightarrow> trail_step d \<le> trail_step e"
  unfolding trail_step_def by (intro zdiv_mono1) simp_all

lemma trail_step_fixed: "\<bar>d\<bar> \<le> 1 \<Longrightarrow> trail_step d = d"
  using trail_step_bounds [of d] by (simp add: abs_le_iff)

lemma uint_trail_byte: "uint (trail_byte c h) = uint c + trail_step (uint h - uint c)"
proof -
  have c: "0 \<le> uint c" "uint c \<le> 255" and h: "0 \<le> uint h" "uint h \<le> 255"
    using uint_lt2p [of c] uint_lt2p [of h] by simp_all
  have "0 \<le> uint c + trail_step (uint h - uint c) \<and> uint c + trail_step (uint h - uint c) \<le> 255"
  proof (cases "0 \<le> uint h - uint c")
    case True
    then show ?thesis using trail_step_sign (1) [OF True] c h by linarith
  next
    case False
    then have "uint h - uint c \<le> 0" by simp
    then show ?thesis using trail_step_sign (2) [of "uint h - uint c"] c h by linarith
  qed
  then show ?thesis
    unfolding trail_byte_def uint_word_of_int_eq by (intro take_bit_int_eq_self) simp_all
qed

text \<open>One 8-bit blend at ratio 0.725 of two stored bytes, in integer arithmetic.\<close>

lemma blend_byte:
  "unorm8 (mix (unorm8_value c) (unorm8_value h) MOTION_BLUR_AMOUNT) = trail_byte c h"
proof -
  let ?x = "mix (unorm8_value c) (unorm8_value h) MOTION_BLUR_AMOUNT"
  have "0 \<le> ?x \<and> ?x \<le> 1" by (rule mix_bounds) (simp_all add: MOTION_BLUR_AMOUNT_def)
  then have cl: "clamp01 ?x = ?x" by simp
  have "?x * 255 + 1 / 2 = real_of_int (11 * uint c + 29 * uint h + 20) / real_of_int 40"
    by (simp add: mix_def MOTION_BLUR_AMOUNT_def unorm8_value_uint del: of_int_uint)
  then have "\<lfloor>clamp01 ?x * 255 + 1 / 2\<rfloor> = (11 * uint c + 29 * uint h + 20) div 40"
    unfolding cl by (simp only: floor_divide_of_int_eq)
  also have "\<dots> = uint c + trail_step (uint h - uint c)"
  proof -
    have "11 * uint c + 29 * uint h + 20 = (29 * (uint h - uint c) + 20) + uint c * 40" by simp
    then show ?thesis by (simp add: trail_step_def)
  qed
  finally show ?thesis by (simp add: unorm8_def trail_byte_def)
qed

lemma funpow_fixed: "f x = x \<Longrightarrow> (f ^^ n) x = x"
  by (induction n) simp_all

lemma trail_byte_funpow:
  "uint ((trail_byte c ^^ k) h) = uint c + (trail_step ^^ k) (uint h - uint c)"
  by (induction k) (simp_all add: uint_trail_byte)

lemma trail_settle_reaches: "\<bar>(trail_step ^^ trail_settle d) d\<bar> \<le> 1"
proof (induction d rule: trail_settle.induct)
  case (1 d)
  then show ?case
    by (cases "\<bar>d\<bar> \<le> 1") (simp_all add: trail_settle.simps [of d] funpow_swap1)
qed

lemma trail_settled_after:
  assumes "trail_settle d \<le> k"
  shows "\<bar>(trail_step ^^ k) d\<bar> \<le> 1"
proof -
  let ?g = "(trail_step ^^ trail_settle d) d"
  have g: "\<bar>?g\<bar> \<le> 1" by (rule trail_settle_reaches)
  have "(trail_step ^^ k) d = (trail_step ^^ ((k - trail_settle d) + trail_settle d)) d"
    using assms by simp
  also have "\<dots> = (trail_step ^^ (k - trail_settle d)) ?g" by (simp only: funpow_add o_apply)
  also have "\<dots> = ?g" using g by (intro funpow_fixed trail_step_fixed)
  finally show ?thesis using g by simp
qed

lemma trail_settle_mono_pos: "0 \<le> d \<Longrightarrow> d \<le> e \<Longrightarrow> trail_settle d \<le> trail_settle e"
proof (induction e arbitrary: d rule: trail_settle.induct)
  case (1 e)
  show ?case
  proof (cases "\<bar>d\<bar> \<le> 1")
    case True
    then show ?thesis by (simp add: trail_settle.simps [of d])
  next
    case False
    with "1.prems" have "\<not> \<bar>e\<bar> \<le> 1" by simp
    moreover have "0 \<le> trail_step d" "trail_step d \<le> trail_step e"
      using "1.prems" trail_step_sign (1) trail_step_mono by auto
    ultimately have "trail_settle (trail_step d) \<le> trail_settle (trail_step e)"
      using "1.IH" by blast
    with False \<open>\<not> \<bar>e\<bar> \<le> 1\<close> show ?thesis
      by (simp add: trail_settle.simps [of d] trail_settle.simps [of e])
  qed
qed

lemma trail_settle_mono_neg: "d \<le> 0 \<Longrightarrow> e \<le> d \<Longrightarrow> trail_settle d \<le> trail_settle e"
proof (induction e arbitrary: d rule: trail_settle.induct)
  case (1 e)
  show ?case
  proof (cases "\<bar>d\<bar> \<le> 1")
    case True
    then show ?thesis by (simp add: trail_settle.simps [of d])
  next
    case False
    with "1.prems" have "\<not> \<bar>e\<bar> \<le> 1" by simp
    moreover have "trail_step d \<le> 0" "trail_step e \<le> trail_step d"
      using "1.prems" trail_step_sign (2) trail_step_mono by auto
    ultimately have "trail_settle (trail_step d) \<le> trail_settle (trail_step e)"
      using "1.IH" by blast
    with False \<open>\<not> \<bar>e\<bar> \<le> 1\<close> show ?thesis
      by (simp add: trail_settle.simps [of d] trail_settle.simps [of e])
  qed
qed

lemma trail_settle_255: "trail_settle 255 = 16" "trail_settle (-255) = 16"
  by (simp_all add: trail_settle.simps trail_step_def)

lemma trail_settle_le_16: "\<bar>d\<bar> \<le> 255 \<Longrightarrow> trail_settle d \<le> 16"
proof (cases "0 \<le> d")
  case True
  moreover assume "\<bar>d\<bar> \<le> 255"
  ultimately show ?thesis using trail_settle_mono_pos [of d 255] trail_settle_255 by simp
next
  case False
  moreover assume "\<bar>d\<bar> \<le> 255"
  ultimately show ?thesis using trail_settle_mono_neg [of d "-255"] trail_settle_255 by simp
qed

lemma nth_trail_frame_funpow:
  assumes "byte_valued S" "length S = length C" "i < length C"
  shows "length ((trail_frame C ^^ k) S) = length C \<and>
         (trail_frame C ^^ k) S ! i = unorm8_value ((trail_byte (unorm8 (C ! i)) ^^ k) (unorm8 (S ! i)))"
proof (induction k)
  case 0
  then show ?case using assms by (simp add: byte_valued_iff)
next
  case (Suc k)
  then show ?case using assms by (simp add: trail_frame_def)
qed

text \<open>One refresh of a static byte-valued scene moves every history byte by \<open>trail_byte\<close>.\<close>

lemma host_frame_static_trail:
  assumes "app_wf a" "byte_valued C" "length C = length (store (comp a) SaveTarget)"
    and "host_frame (\<lambda>_ _. C) a ts dt sp = Inr a'"
  shows "store (comp a') SaveTarget = trail_frame C (store (comp a) SaveTarget)"
proof -
  let ?S = "store (comp a) SaveTarget"
  have S: "byte_valued ?S" using assms(1) by (simp add: app_wf_def)
  have "store (comp a') SaveTarget = store_frame UnsignedByteType (blend_step MOTION_BLUR_AMOUNT ?S C)"
    using host_frame_wf_result (7) [OF assms(1,4)] by simp
  also have "\<dots> = trail_frame C ?S"
  proof (rule nth_equalityI)
    fix i assume "i < length (store_frame UnsignedByteType (blend_step MOTION_BLUR_AMOUNT ?S C))"
    then have i: "i < length C" "i < length ?S" using assms(3) by simp_all
    have "unorm8_value (unorm8 (C ! i)) = C ! i" "unorm8_value (unorm8 (?S ! i)) = ?S ! i"
      using assms(2) S i by (simp_all add: byte_valued_iff)
    then have "mix (C ! i) (?S ! i) MOTION_BLUR_AMOUNT =
        mix (unorm8_value (unorm8 (C ! i))) (unorm8_value (unorm8 (?S ! i))) MOTION_BLUR_AMOUNT"
      by simp
    with i show "store_frame UnsignedByteType (blend_step MOTION_BLUR_AMOUNT ?S C) ! i = trail_frame C ?S ! i"
      by (simp add: frame_simps trail_frame_def blend_byte)
  qed (use assms(3) in \<open>simp add: trail_frame_def\<close>)
  finally show ?thesis .
qed

lemma run_frames_static_trail:
  "app_wf a \<Longrightarrow> byte_valued C \<Longrightarrow> length C = length (store (comp a) SaveTarget) \<Longrightarrow>
     \<exists>a'. run_frames (\<lambda>_ _. C) a fs = Inr a' \<and> app_wf a' \<and>
       store (comp a') SaveTarget = (trail_frame C ^^ length fs) (store (comp a) SaveTarget)"
proof (induction fs arbitrary: a)
  case Nil
  then show ?case by simp
next
  case (Cons f fs)
  obtain ts dt sp where f: "f = (ts, dt, sp)" by (cases f)
  from Cons.prems(1) obtain a1 where a1: "host_frame (\<lambda>_ _. C) a ts dt sp = Inr a1"
    by (simp add: host_frame_wf)
  from Cons.prems(1) a1 have wf1: "app_wf a1" by (rule app_wf_host_frame)
  have s1: "store (comp a1) SaveTarget = trail_frame C (store (comp a) SaveTarget)"
    using host_frame_static_trail [OF Cons.prems a1] .
  then have "length C = length (store (comp a1) SaveTarget)"
    using Cons.prems(3) by (simp add: trail_frame_def)
  from Cons.IH [OF wf1 Cons.prems(2) this] obtain a' where "run_frames (\<lambda>_ _. C) a1 fs = Inr a'"
    "app_wf a'" "store (comp a') SaveTarget = (trail_frame C ^^ length fs) (store (comp a1) SaveTarget)"
    by blast
  with a1 f s1 show ?case by (simp add: funpow_swap1)
qed

lemma trail_frame_settled:
  assumes "byte_valued S" "length S = length C" "list_all (\<lambda>d. \<bar>d\<bar> \<le> 1) (byte_gaps S C)"
  shows "trail_frame C S = S"
proof (rule nth_equalityI)
  fix i assume "i < length (trail_frame C S)"
  then have i: "i < length S" "i < length C" using assms(2) by (simp_all add: trail_frame_def)
  let ?c = "unorm8 (C ! i)" and ?h = "unorm8 (S ! i)"
  have "\<bar>uint ?h - uint ?c\<bar> \<le> 1"
    using assms(3) i by (simp add: byte_gaps_def list_all_length)
  then have "uint (trail_byte ?c ?h) = uint ?h" by (simp add: uint_trail_byte trail_step_fixed)
  then have "trail_byte ?c ?h = ?h" by (simp add: word_uint_eq_iff)
  with i assms(1) show "trail_frame C S ! i = S ! i" by (simp add: trail_frame_def byte_valued_iff)
qed (use assms(2) in \<open>simp add: trail_frame_def\<close>)

section \<open>The trail stalls one byte short, and settles within 16 refreshes\<close>

text \<open>
  C17. Spec 8.1 says the shown frame converges to a static scene C.  With the history
  stored in 8 bits it does not: once every channel of the saved history is within one
  byte step (1/255) of C, no refresh changes it again, so a history one step above or
  below C stays there and the screen never shows C.
\<close>

theorem trail_stalls:
  assumes "app_wf a" "byte_valued C" "length C = length (store (comp a) SaveTarget)"
    and "list_all (\<lambda>d. \<bar>d\<bar> \<le> 1) (byte_gaps (store (comp a) SaveTarget) C)"
  shows "\<exists>a'. run_frames (\<lambda>_ _. C) a fs = Inr a' \<and> store (comp a') Screen = store (comp a) SaveTarget"
proof -
  let ?S = "store (comp a) SaveTarget"
  obtain a' where run: "run_frames (\<lambda>_ _. C) a fs = Inr a'" and wf: "app_wf a'"
    and s: "store (comp a') SaveTarget = (trail_frame C ^^ length fs) ?S"
    using run_frames_static_trail [OF assms(1-3)] by blast
  have "byte_valued ?S" using assms(1) by (simp add: app_wf_def)
  then have "trail_frame C ?S = ?S" using assms(3,4) by (intro trail_frame_settled) simp_all
  then have "store (comp a') SaveTarget = ?S" using s by (simp add: funpow_fixed)
  with run wf show ?thesis by (auto simp: app_wf_def)
qed

theorem trail_stalls_witness:
  "app_wf ((projr (start_app 1 1))\<lparr>comp := (comp (projr (start_app 1 1)))\<lparr>store :=
      (store (comp (projr (start_app 1 1))))(SaveTarget := replicate 4 (unorm8_value 1),
                                              Screen := replicate 4 (unorm8_value 1))\<rparr>\<rparr>) \<and>
   byte_valued (replicate 4 0) \<and>
   length (replicate 4 (0 :: real)) = length (replicate 4 (unorm8_value 1)) \<and>
   list_all (\<lambda>d. \<bar>d\<bar> \<le> 1) (byte_gaps (replicate 4 (unorm8_value 1)) (replicate 4 0)) \<and>
   (\<exists>a'. run_frames (\<lambda>_ _. replicate 4 0)
        ((projr (start_app 1 1))\<lparr>comp := (comp (projr (start_app 1 1)))\<lparr>store :=
          (store (comp (projr (start_app 1 1))))(SaveTarget := replicate 4 (unorm8_value 1),
                                                  Screen := replicate 4 (unorm8_value 1))\<rparr>\<rparr>)
        [(0, 0, \<lambda>_. 0), (16, 16, \<lambda>_. 0), (32, 16, \<lambda>_. 0)] = Inr a' \<and>
      store (comp a') Screen = replicate 4 (unorm8_value 1))"
proof -
  let ?a = "(projr (start_app 1 1))\<lparr>comp := (comp (projr (start_app 1 1)))\<lparr>store :=
      (store (comp (projr (start_app 1 1))))(SaveTarget := replicate 4 (unorm8_value 1),
                                              Screen := replicate 4 (unorm8_value 1))\<rparr>\<rparr>"
  have wf: "app_wf ?a"
    by (simp add: start_app_Inr app_wf_def uniforms_ready_iff composer_new_def attach_target_def
        fun_eq_iff app_target_types_def byte_valued_iff)
  have bv: "byte_valued (replicate 4 0)" by simp
  have len: "length (replicate 4 (0 :: real)) = length (store (comp ?a) SaveTarget)" by simp
  have gaps: "list_all (\<lambda>d. \<bar>d\<bar> \<le> 1) (byte_gaps (store (comp ?a) SaveTarget) (replicate 4 0))"
    by (simp add: byte_gaps_def list_all_iff)
  show ?thesis
    using trail_stalls [OF wf bv len gaps, of "[(0, 0, \<lambda>_. 0), (16, 16, \<lambda>_. 0), (32, 16, \<lambda>_. 0)]"]
      wf bv len gaps by simp
qed

text \<open>
  C18. The trail of a static scene is finite: from any history, after 16 refreshes
  of a scene C whose channels are bytes, every channel of the screen is within one byte
  step (1/255) of C.  The exact moving average would still be 0.725^16, about 0.6%, of
  the way back.
\<close>

theorem trail_settles:
  assumes "app_wf a" "byte_valued C" "length C = length (store (comp a) SaveTarget)"
    and "16 \<le> length fs"
  shows "\<exists>a'. run_frames (\<lambda>_ _. C) a fs = Inr a' \<and>
           (\<forall>i < length C. \<bar>store (comp a') Screen ! i - C ! i\<bar> \<le> 1 / 255)"
proof -
  let ?S = "store (comp a) SaveTarget"
  obtain a' where run: "run_frames (\<lambda>_ _. C) a fs = Inr a'" and wf: "app_wf a'"
    and s: "store (comp a') SaveTarget = (trail_frame C ^^ length fs) ?S"
    using run_frames_static_trail [OF assms(1-3)] by blast
  have S: "byte_valued ?S" using assms(1) by (simp add: app_wf_def)
  have "\<bar>store (comp a') Screen ! i - C ! i\<bar> \<le> 1 / 255" if i: "i < length C" for i
  proof -
    let ?c = "unorm8 (C ! i)" and ?h = "unorm8 (?S ! i)"
    let ?b = "(trail_byte ?c ^^ length fs) ?h"
    have scr: "store (comp a') Screen ! i = unorm8_value ?b"
      using wf s nth_trail_frame_funpow [OF S assms(3) [symmetric] i] by (simp add: app_wf_def)
    have c: "C ! i = unorm8_value ?c" using assms(2) i by (simp add: byte_valued_iff)
    have "0 \<le> uint ?h" "uint ?h < 256" "0 \<le> uint ?c" "uint ?c < 256"
      using uint_lt2p [of ?h] uint_lt2p [of ?c] by simp_all
    then have "\<bar>uint ?h - uint ?c\<bar> \<le> 255" by (intro abs_leI) linarith+
    then have "trail_settle (uint ?h - uint ?c) \<le> length fs"
      using trail_settle_le_16 assms(4) le_trans by blast
    then have "\<bar>uint ?b - uint ?c\<bar> \<le> 1"
      using trail_settled_after by (simp add: trail_byte_funpow)
    have "store (comp a') Screen ! i - C ! i = unorm8_value ?b - unorm8_value ?c"
      using scr c by linarith
    then have "\<bar>store (comp a') Screen ! i - C ! i\<bar> = \<bar>real_of_int (uint ?b - uint ?c)\<bar> / 255"
      by (simp only: unorm8_value_dist)
    also have "\<dots> \<le> 1 / 255"
    proof (rule divide_right_mono)
      have "real_of_int \<bar>uint ?b - uint ?c\<bar> \<le> 1"
        using \<open>\<bar>uint ?b - uint ?c\<bar> \<le> 1\<close> by (simp only: of_int_le_1_iff)
      then show "\<bar>real_of_int (uint ?b - uint ?c)\<bar> \<le> 1" by (simp only: of_int_abs)
    qed simp
    finally show ?thesis .
  qed
  with run show ?thesis by blast
qed

theorem trail_settles_witness:
  "app_wf (projr (start_app 1 1)) \<and> byte_valued (replicate 4 1) \<and>
   length (replicate 4 (1 :: real)) = length (store (comp (projr (start_app 1 1))) SaveTarget) \<and>
   16 \<le> length (replicate 16 (0 :: real, 0 :: real, \<lambda>_ :: nat. 0 :: byte)) \<and>
   (\<exists>a'. run_frames (\<lambda>_ _. replicate 4 1) (projr (start_app 1 1)) (replicate 16 (0, 0, \<lambda>_. 0)) = Inr a' \<and>
      (\<forall>i < length (replicate 4 (1 :: real)). \<bar>store (comp a') Screen ! i - replicate 4 1 ! i\<bar> \<le> 1 / 255))"
proof -
  have wf: "app_wf (projr (start_app 1 1))"
    by (rule app_wf_start [of 1 1]) (simp add: start_app_Inr)
  have bv: "byte_valued (replicate 4 1)" by (simp add: byte_valued_iff)
  have len: "length (replicate 4 (1 :: real)) = length (store (comp (projr (start_app 1 1))) SaveTarget)"
    by (simp add: start_app_Inr composer_new_def attach_target_def)
  have n: "16 \<le> length (replicate 16 (0 :: real, 0 :: real, \<lambda>_ :: nat. 0 :: byte))" by simp
  show ?thesis using trail_settles [OF wf bv len n] wf bv len n by blast
qed

end
