(* ===== verification/Session.thy ===== *)
theory Session
  imports RenderLoop
begin

text \<open>
  The session seen from the spec.  Spec section 9 asks that the asynchronous load of
  \<open>Visualizer.load\<close> (src/src/app.js lines 37--44) be understood as a promise with three
  states, pending, ready and failed; \<open>asset_state\<close> reads that state off the
  visualizer, and \<open>asset_step\<close> is the promise's transition relation, which the session
  refines.  The session's steps can also be run as a sequence of host events: a display
  refresh or the completion of the decode.  \<open>run_events\<close> runs such a sequence, so that
  orderings of the two (spec 5: the decode is the only operation that completes outside
  the tick loop) are explicit lists.
\<close>

section \<open>The load as a three-state promise\<close>

datatype asset_state = AssetPending | AssetReady | AssetFailed

definition asset_state :: "visualizer \<Rightarrow> asset_state" where
  "asset_state v =
     (if pending_loads v \<noteq> [] then AssetPending
      else if is_playing (sound v) then AssetReady else AssetFailed)"

text \<open>A promise settles once: pending to ready or to failed, and stays there.\<close>

inductive asset_step :: "asset_state \<Rightarrow> asset_state \<Rightarrow> bool" where
  asset_stay: "asset_step s s"
| asset_resolve: "asset_step AssetPending AssetReady"
| asset_reject: "asset_step AssetPending AssetFailed"

inductive_simps asset_step_simps [simp]: "asset_step s t"

section \<open>Host events\<close>

datatype event =
    Refresh real real "nat \<Rightarrow> byte"   \<comment> \<open>a display refresh: timestamp, timeDiff, spectrum\<close>
  | Decoded "pcm option"               \<comment> \<open>the decode completes, with a buffer or failing\<close>

fun is_refresh :: "event \<Rightarrow> bool" where
  "is_refresh (Refresh _ _ _) = True"
| "is_refresh (Decoded _) = False"

fun run_events :: "(light list \<Rightarrow> mesh \<Rightarrow> frame) \<Rightarrow> app \<Rightarrow> event list \<Rightarrow> js_error + app" where
  "run_events R a [] = Inr a"
| "run_events R a (Refresh ts dt sp # es) =
     (case host_frame R a ts dt sp of Inl e \<Rightarrow> Inl e | Inr a' \<Rightarrow> run_events R a' es)"
| "run_events R a (Decoded r # es) = run_events R (a\<lparr>vis := load_complete (vis a) r\<rparr>) es"

section \<open>Lemmas\<close>

lemma asset_state_start: "start_app w h = Inr a \<Longrightarrow> asset_state (vis a) = AssetPending"
  by (auto simp: start_app_Inr asset_state_def)

lemma asset_state_get_frequency [simp]:
  "asset_state (fst (get_frequency v sp)) = asset_state v"
  by (simp add: asset_state_def)

lemma asset_state_load_complete:
  assumes "app_wf a" "pending_loads (vis a) \<noteq> []"
  shows "asset_state (load_complete (vis a) r) = (if r = None then AssetFailed else AssetReady)"
proof -
  from assms have "pending_loads (vis a) = [TRACK]" "sound (vis a) = audio_new"
    by (auto simp: app_wf_def)
  then show ?thesis
    by (cases r) (simp_all add: asset_state_def load_complete_def on_buffer_loaded_new
        playing_audio_def audio_new_def)
qed

lemma load_complete_idle: "pending_loads v = [] \<Longrightarrow> load_complete v r = v"
  by (simp add: load_complete_def)

text \<open>Running a sequence of events from a reachable state stays reachable.\<close>

lemma run_events_reachable:
  "reachable R w h (Running a) \<Longrightarrow> run_events R a es = Inr a' \<Longrightarrow> reachable R w h (Running a')"
proof (induction R a es rule: run_events.induct)
  case (1 R a)
  then show ?case by simp
next
  case (2 R a ts dt sp es)
  then obtain a1 where a1: "host_frame R a ts dt sp = Inr a1" and r: "run_events R a1 es = Inr a'"
    by (auto split: sum.splits)
  have "reachable R w h (Running a1)"
    using "2.prems"(1) reachable.step session_step.frame [OF a1] by blast
  with "2.IH" [OF a1] r show ?case by blast
next
  case (3 R a r es)
  have "reachable R w h (Running (a\<lparr>vis := load_complete (vis a) r\<rparr>))"
  proof (cases "pending_loads (vis a) = []")
    case True
    then show ?thesis using "3.prems"(1) by (simp add: load_complete_idle)
  next
    case False
    then show ?thesis using "3.prems"(1) reachable.step session_step.decoded by blast
  qed
  with "3.IH" "3.prems"(2) show ?case by simp
qed

text \<open>A run of refreshes alone is a \<open>run_frames\<close>.\<close>

lemma run_events_refreshes:
  "list_all is_refresh es \<Longrightarrow>
     run_events R a es = run_frames R a (map (\<lambda>e. case e of Refresh ts dt sp \<Rightarrow> (ts, dt, sp)
                                                          | Decoded _ \<Rightarrow> (0, 0, \<lambda>_. 0)) es)"
proof (induction R a es rule: run_events.induct)
  case (2 R a ts dt sp es)
  then show ?case by (simp split: sum.splits)
qed simp_all

lemma run_events_append:
  "run_events R a (xs @ ys) = (case run_events R a xs of Inl e \<Rightarrow> Inl e | Inr a' \<Rightarrow> run_events R a' ys)"
  by (induction R a xs rule: run_events.induct) (simp_all split: sum.splits)

section \<open>The session refines the promise; the amplitude follows the decode\<close>

text \<open>
  C21. Spec 9: the session refines the three-state promise of the load.  \<open>startApp\<close>
  leaves it pending; every later step of a reachable session either keeps the state or
  settles a pending load to ready (the decode succeeded) or to failed (it did not); a
  settled load never changes again.
\<close>

theorem session_refines_asset_machine:
  assumes "reachable R w h s" "session_step R w h s t"
  shows "case (s, t) of
           (Idle, Running a') \<Rightarrow> asset_state (vis a') = AssetPending
         | (Running a, Running a') \<Rightarrow> asset_step (asset_state (vis a)) (asset_state (vis a'))
         | _ \<Rightarrow> False"
proof -
  have wf: "case s of Idle \<Rightarrow> True | Running a \<Rightarrow> app_wf a"
    using assms(1) by (rule reachable_app_wf_session)
  from assms(2) show ?thesis
  proof (cases rule: session_step.cases)
    case (start a)
    then show ?thesis by (simp add: asset_state_start)
  next
    case (frame a ts dt sp a')
    with wf have "app_wf a" by simp
    then have "vis a' = fst (get_frequency (vis a) sp)"
      using host_frame_wf_result (2) [OF _ frame(3)] by simp
    with frame show ?thesis by simp
  next
    case (decoded a r)
    with wf have "app_wf a" by simp
    from asset_state_load_complete [OF this decoded(3)] decoded show ?thesis
      by (simp add: asset_state_def)
  qed
qed

theorem session_refines_asset_machine_witness:
  "reachable (\<lambda>_ _. []) 1 1 (Running (projr (start_app 1 1))) \<and>
   session_step (\<lambda>_ _. []) 1 1 (Running (projr (start_app 1 1)))
     (Running ((projr (start_app 1 1))\<lparr>vis := load_complete (vis (projr (start_app 1 1))) None\<rparr>)) \<and>
   asset_step (asset_state (vis (projr (start_app 1 1))))
     (asset_state (vis ((projr (start_app 1 1))\<lparr>vis := load_complete (vis (projr (start_app 1 1))) None\<rparr>)))"
proof -
  let ?a = "projr (start_app 1 1)"
  have r: "reachable (\<lambda>_ _. []) 1 1 (Running ?a)" by (rule reachable_start)
  have st: "session_step (\<lambda>_ _. []) 1 1 (Running ?a) (Running (?a\<lparr>vis := load_complete (vis ?a) None\<rparr>))"
    by (rule session_step.decoded) (simp add: start_app_Inr)
  show ?thesis using session_refines_asset_machine [OF r st] r st by simp
qed

text \<open>
  C22. Spec 5 and 4.1, ordering: after \<open>startApp\<close>, every refresh that comes before the
  decode completes writes 0 to \<open>uAudioFrequency\<close>.  Once the decode has delivered its
  buffer, the next refresh writes the average of the 16 buckets of the spectrum the
  sound produces, divided by 50.
\<close>

theorem amplitude_follows_decode:
  assumes "start_app w h = Inr a" "list_all is_refresh pre"
  shows "\<exists>a1 a2. run_events R a pre = Inr a1 \<and>
           (pre \<noteq> [] \<longrightarrow> mesh_uniforms (ico a1) ''uAudioFrequency'' = Some 0) \<and>
           run_events R a (pre @ [Decoded (Some b), Refresh ts dt sp]) = Inr a2 \<and>
           mesh_uniforms (ico a2) ''uAudioFrequency'' =
             Some (real (sum_list (map (\<lambda>i. unat (sp i)) [0..<16])) / 16 / 50)"
proof -
  have wf: "app_wf a" using assms(1) by (rule app_wf_start)
  have s0: "sound (vis a) = audio_new" "pending_loads (vis a) = [TRACK]"
    using assms(1) by (auto simp: start_app_Inr)
  let ?fs = "map (\<lambda>e. case e of Refresh ts dt sp \<Rightarrow> (ts, dt, sp) | Decoded _ \<Rightarrow> (0, 0, \<lambda>_. 0)) pre"
  have ev: "run_events R a pre = run_frames R a ?fs" using assms(2) by (rule run_events_refreshes)
  obtain a1 where run: "run_frames R a ?fs = Inr a1" and snd1: "sound (vis a1) = audio_new"
    and p1: "pending_loads (vis a1) = [TRACK]"
    and z1: "?fs \<noteq> [] \<longrightarrow> mesh_uniforms (ico a1) ''uAudioFrequency'' = Some 0"
    using run_frames_silent [OF wf, of R ?fs] s0 by (auto simp: audio_new_def)
  have wf1: "app_wf a1" using run_frames_rotation [OF wf, of R ?fs] run by auto
  let ?a1' = "a1\<lparr>vis := load_complete (vis a1) (Some b)\<rparr>"
  have wf1': "app_wf ?a1'" using wf1 by (rule app_wf_load_complete)
  have play: "is_playing (sound (vis ?a1'))"
    using snd1 p1 by (simp add: load_complete_def on_buffer_loaded_new playing_audio_def audio_new_def)
  obtain a2 where a2: "host_frame R ?a1' ts dt sp = Inr a2"
    using host_frame_wf [OF wf1'] by blast
  have "mesh_uniforms (ico a2) ''uAudioFrequency'' =
          Some (real (sum_list (map (\<lambda>i. unat (sp i)) [0..<16])) / 16 / 50)"
    using host_frame_uniform_values (1) [OF wf1' a2] play by (simp add: heard_spectrum_def)
  moreover have "run_events R a (pre @ [Decoded (Some b), Refresh ts dt sp]) = Inr a2"
    using ev run a2 by (simp add: run_events_append)
  ultimately show ?thesis using ev run z1 by auto
qed

theorem amplitude_follows_decode_witness:
  "start_app 1 1 = Inr (projr (start_app 1 1)) \<and> list_all is_refresh [Refresh 0 0 (\<lambda>_. 200)] \<and>
   (\<exists>a1 a2. run_events (\<lambda>_ _. []) (projr (start_app 1 1)) [Refresh 0 0 (\<lambda>_. 200)] = Inr a1 \<and>
      mesh_uniforms (ico a1) ''uAudioFrequency'' = Some 0 \<and>
      run_events (\<lambda>_ _. []) (projr (start_app 1 1))
        ([Refresh 0 0 (\<lambda>_. 200)] @ [Decoded (Some [0.5]), Refresh 16 16 (\<lambda>_. 100)]) = Inr a2 \<and>
      mesh_uniforms (ico a2) ''uAudioFrequency'' = Some 2)"
proof -
  have s: "start_app 1 1 = Inr (projr (start_app 1 1))" by (simp add: start_app_Inr)
  have p: "list_all is_refresh [Refresh 0 0 (\<lambda>_. 200)]" by simp
  obtain a1 a2 where a1: "run_events (\<lambda>_ _. []) (projr (start_app 1 1)) [Refresh 0 0 (\<lambda>_. 200)] = Inr a1"
    and z: "[Refresh 0 0 (\<lambda>_. 200)] \<noteq> [] \<longrightarrow> mesh_uniforms (ico a1) ''uAudioFrequency'' = Some 0"
    and a2: "run_events (\<lambda>_ _. []) (projr (start_app 1 1))
        ([Refresh 0 0 (\<lambda>_. 200)] @ [Decoded (Some [0.5]), Refresh 16 16 (\<lambda>_. 100)]) = Inr a2"
    and u: "mesh_uniforms (ico a2) ''uAudioFrequency'' =
        Some (real (sum_list (map (\<lambda>i. unat ((\<lambda>_. 100 :: byte) i)) [0..<16])) / 16 / 50)"
    using amplitude_follows_decode [OF s p, of "\<lambda>_ _. []" "[0.5]" 16 16 "\<lambda>_. 100"] by blast
  have z': "mesh_uniforms (ico a1) ''uAudioFrequency'' = Some 0" using z by simp
  have u': "mesh_uniforms (ico a2) ''uAudioFrequency'' = Some 2" using u by (simp add: map_replicate_const sum_list_replicate)
  show ?thesis using s p a1 z' a2 u' by blast
qed

end
