(* ===== verification/Spec2Isabelle.thy ===== *)
theory Spec2Isabelle
  imports Trail Session
begin

text \<open>
  \<^bold>\<open>An audio-reactive mesh with accumulation motion blur: a verification model.\<close>

  \<^bold>\<open>The program.\<close>  src/src/app.js (170 lines) is the whole program under src/.  It
  defines the class \<open>Visualizer\<close> (lines 22--55) and the function \<open>startApp\<close>
  (lines 59--168).  \<open>startApp\<close> adds two lights to the host's scene, builds a
  \<open>ShaderMaterial\<close> with a \<open>uTime\<close> uniform and the icosahedron mesh \<open>ico\<close>, and
  creates a \<open>Visualizer\<close>.  The Visualizer binds \<open>uAudioFrequency\<close>, attaches an audio
  listener to the mesh, owns a \<open>THREE.Audio\<close>, an \<open>AudioLoader\<close> and an
  \<open>AudioAnalyser\<close> with fftSize 32.  \<open>startApp\<close> then starts loading the track,
  builds the blend, save and output passes and adds them to the host composer, turns the
  mesh by 1.0 about z, and registers a tick callback.  On each display refresh that
  callback writes \<open>getAverageFrequency()/50\<close> to \<open>uAudioFrequency\<close>, turns the mesh by
  0.05 about z, x and y, and writes \<open>timestamp/1000\<close> to \<open>uTime\<close>.  After the callback
  the host runs the composer: render the scene, blend it with the saved history
  (\<open>mix(C, A, 0.725)\<close>), save the blend as the next history, copy it to the screen.
  The save target and the screen store 8 bits per channel.
  The host (src/render/init.js), the shader pair (src/shaders/) and three.js are not
  under src/; the parts the program relies on are modelled from the spec and the
  library's documented behaviour, and the model says which.

  \<^bold>\<open>Theories.\<close>
  \<^item> \<open>Prelude\<close>: the model's types (\<open>frame\<close> = channel values of a render target,
    \<open>uniforms\<close>, \<open>byte\<close> = \<open>8 word\<close>, \<open>pcm\<close>), the exceptions \<open>js_error\<close>,
    GLSL \<open>mix\<close>, and shared lemmas on \<open>mix\<close>, \<open>map2\<close> frames and byte bounds.
  \<^item> \<open>Scene\<close>: the scene objects of lines 68--69 and 86.  The lights \<open>dirLight\<close> and
    \<open>ambientLight\<close> are records of colour and intensity.  \<open>ico_geometry\<close> is
    \<open>IcosahedronGeometry(2, 200)\<close>, modelled from three.js's \<open>PolyhedronGeometry\<close>:
    \<open>subdivide_grid\<close> is the grid \<open>v[i][j]\<close> that \<open>subdivideFace\<close> fills by
    \<open>Vector3.lerp\<close> (\<open>lerp3\<close>), with its special case at the apex;
    \<open>subdivide_indices\<close> is the cells its second loop pushes; \<open>subdivide_face\<close> the
    vertices of one face; \<open>apply_radius\<close> the projection onto the sphere.  Points are
    triples of reals.  Lemmas: the loop count \<open>3 cols^2\<close> per face (by the sum of the
    first odd numbers), the barycentric form of every grid point, and, from the
    golden-ratio identity \<open>t^2 = t + 1\<close>, that each of the 20 faces lies strictly on one
    side of a plane through the centre, so \<open>applyRadius\<close> puts every vertex on the
    sphere.
  \<^item> \<open>Uniforms\<close>: \<open>material.uniforms\<close> as a map.  \<open>uniform_bind\<close> is
    \<open>uniforms[n] = {value: v}\<close> (lines 26 and 92); \<open>uniform_set\<close> is
    \<open>uniforms[n].value = v\<close> (lines 52 and 166), which returns \<open>Inl TypeError\<close> on an
    unbound name.  The \<open>ShaderMaterial\<close> of lines 87--90 is \<open>ico_material\<close>, built by
    \<open>shader_material_new\<close> with three.js's defaults (no uniforms, \<open>lights = false\<close>).
    The \<open>mesh\<close> record is \<open>ico\<close>: Euler angles, children, geometry, and its
    material's uniforms and \<open>lights\<close> flag; \<open>node\<close> is a scene graph node and
    \<open>scene_add\<close> is \<open>scene.add\<close> (lines 70 and 100).
  \<^item> \<open>Audio\<close>: \<open>THREE.Audio\<close> (\<open>audio_play\<close>, \<open>audio_set_buffer\<close>,
    \<open>audio_set_loop\<close>, \<open>audio_set_volume\<close>), \<open>THREE.AudioAnalyser\<close>
    (\<open>analyser_new\<close> with the fftSize check, \<open>get_frequency_data\<close>, the summing loop
    \<open>sum_frequency\<close>, \<open>get_average_frequency\<close>), and the \<open>Visualizer\<close> record and
    methods \<open>visualizer_new\<close>, \<open>visualizer_load\<close>, \<open>on_buffer_loaded\<close> (the load
    callback), \<open>get_frequency\<close>, \<open>visualizer_update\<close> (which also appends the
    logged value to the console, an output stream \<open>console\<close> kept in the app as
    \<open>console_out\<close>).  The loader's completion
    \<open>load_complete\<close> calls the callback on a decoded buffer and only drops the request on
    a failure, as \<open>AudioLoader\<close> does when no error handler is passed.  The Web Audio
    engine is an input: the byte spectrum \<open>nat \<Rightarrow> byte\<close> it produces at each sampling,
    of which the analyser hears silence while the sound is stopped (\<open>heard_spectrum\<close>).
  \<^item> \<open>Texture\<close>: texture types (\<open>UnsignedByteType\<close>, \<open>HalfFloatType\<close>) and the
    GL float-to-UNORM8 conversion \<open>unorm8\<close> (clamp to [0,1], scale by 255, round to
    nearest, OpenGL ES 3.0 section 2.1.6.1) with its read-back \<open>unorm8_value\<close> (\<open>b/255\<close>);
    \<open>store_frame\<close> is what a target of a given type holds after a frame is drawn into
    it.  Lemmas: the byte round trip, the error bound 1/510, monotonicity, and
    \<open>byte_valued\<close> frames (the frames an 8-bit texture can hold).
  \<^item> \<open>Compositor\<close>: \<open>EffectComposer\<close> and the passes over an explicit store from
    render target (\<open>RenderTarget1\<close>, \<open>RenderTarget2\<close>, the save pass's
    \<open>SaveTarget\<close>, the \<open>Screen\<close>) to frame, each target with its texture type.  The
    store is needed because line 136 binds the blend pass's \<open>tDiffuse2\<close> to the save
    target's texture by reference.  \<open>attach_target\<close> is
    \<open>new WebGLRenderTarget(w, h, options)\<close>, whose type is \<open>webgl_render_target_type\<close>
    (\<open>options.type\<close>, by default \<open>UnsignedByteType\<close>).  Every pass draws through
    \<open>write_target\<close>.  \<open>pass_render\<close> is one pass's
    \<open>render(writeBuffer, readBuffer)\<close>, \<open>composer_pass\<close> adds the buffer swap, and
    \<open>composer_render\<close> is \<open>EffectComposer.render\<close>, which overwrites each pass's
    \<open>renderToScreen\<close>.  The theory's abstract contract is the blend step
    \<open>blend_step\<close> of spec 4.3, its iteration \<open>ema\<close>, and the closed form
    \<open>ema1_closed_form\<close> (the frame rendered k refreshes ago weighs \<open>(1 - r) r^k\<close>).
    \<open>quantised_blend_error\<close> bounds how far one 8-bit blend strays from the exact one.
  \<^item> \<open>RenderLoop\<close>: the constants of \<open>startApp\<close>, \<open>renderTargetParameters\<close>
    (lines 125--129, no \<open>type\<close> key), the passes it builds (\<open>make_blend_pass\<close>,
    \<open>make_save_pass\<close>, \<open>make_output_pass\<close>), \<open>start_app\<close> (which attaches the
    8-bit save target, turns the mesh by \<open>tilt_setup\<close> (line 148) and registers the
    passes by \<open>register_passes\<close> (lines 151--153)), the tick callback
    \<open>tick_callback\<close> (with \<open>rotate_tick\<close> and \<open>tick_time\<close>), the renderer's rule for
    lights (\<open>scene_render\<close>: the scene's lights \<open>scene_lights\<close> reach only a material
    with \<open>lights\<close> set), the host's refresh \<open>host_frame\<close> (callback, then \<open>composer_render\<close> on the scene,
    drawn by \<open>scene_render\<close> with the mesh the callback left), runs of refreshes \<open>run_frames\<close> (and \<open>run_trace\<close>, which records
    the state after each refresh), and the session.  The session is an inductive step
    relation \<open>session_step\<close> over \<open>Idle | Running app\<close> with three steps: start, a
    refresh, and a decode completion, which may fall between any two refreshes.  Its
    reachable states are \<open>reachable\<close>.  The invariant is \<open>app_wf\<close> (which includes the
    texture types and a byte-valued history) plus \<open>targets_sized\<close>;
    \<open>reachable_session_inv\<close> proves it by rule induction.  \<open>run_trace_quantised\<close>
    keeps the 8-bit history within 1/140 of the exact moving average, by induction on
    the run: one blend adds at most 1/510 of rounding to 0.725 times the previous error,
    and 1/510 + 0.725/140 is below 1/140.
  \<^item> \<open>Trail\<close>: the history as bytes under a static scene.  One refresh maps the gap
    \<open>d\<close> between a history byte and the scene byte to
    \<open>trail_step d = (29 d + 20) div 40\<close> (\<open>blend_byte\<close>: the 8-bit blend at ratio
    0.725 = 29/40 in integer arithmetic).  \<open>trail_settle\<close> counts the refreshes until the
    gap is at most 1.  It is a \<open>function\<close> whose termination proof uses the measure
    \<open>|d|\<close>, and it is at most 16 for every byte gap.  That follows from its
    monotonicity and the values at 255 and -255.
  \<^item> \<open>Session\<close>: the session against the spec's view of it.  \<open>asset_state\<close> reads
    the load's promise state (pending, ready, failed; spec 9) off the visualizer, and
    \<open>asset_step\<close> is the promise's transition relation.  \<open>run_events\<close> runs a list
    of host events (a refresh, or the decode's completion) from a state, so interleavings
    are explicit lists; \<open>run_events_reachable\<close> shows each such run is a run of
    \<open>session_step\<close>.
  \<^item> \<open>Spec2Isabelle\<close> (this theory): the properties that span the components.

  \<^bold>\<open>What is proved.\<close>  Claims C1--C12, C16, C19, C20, C23 and C27--C29 are here,
  C13--C15 in \<open>Audio\<close>, C17 and C18 in \<open>Trail\<close>, C21 and C22 in \<open>Session\<close>, and
  C24--C26 and C30 in \<open>Scene\<close>.  Each comes after a text naming it, and each
  hypothesis is witnessed at a concrete state reached from \<open>projr (start_app 1 1)\<close>.
  \<^item> Motion blur: the three passes implement the blend step, stored in 8 bits (C1).  With
    a static scene the shown frame converges geometrically at ratio 0.725, within 1/140
    (C2).  After any run, the frame rendered N refreshes before the last weighs
    \<open>0.275 * 0.725^N\<close>, within 1/140 (C3).  The first frame is \<open>0.275 * C\<close>, not
    \<open>C\<close> as the spec asks (C4).  That divergence is transient: after k refreshes the
    screen is within \<open>0.725^k\<close> times the first frame, plus 1/140, of the spec's
    compositor, whose history is seeded with the first frame (\<open>spec_composite\<close>, C23).
  \<^item> 8-bit history: the save target and the canvas hold byte frames in every reachable
    state (C16).  A history within one byte step of a static scene never moves again, so
    the trail stalls short of the scene (C17).  Any trail settles to within one step
    after 16 refreshes (C18).  The save target's storage errs by at most 1/510, and the
    bound is attained (C20).
  \<^item> The session: every reachable state is well formed (C5), no refresh throws (C6), and
    \<open>uAudioFrequency\<close> is 0 in every reachable state where the sound is not playing
    (C19).  The session refines the load's three-state promise (C21).  Every refresh
    before the decode completes writes 0, and the first refresh after a successful
    decode writes the heard average (C22).
  \<^item> The tick callback: it writes \<open>avg/50\<close> and \<open>timestamp/1000\<close> (C7).  The angles
    after k refreshes are \<open>0.05k\<close>, \<open>0.05k\<close> and \<open>1 + 0.05k\<close> (C8).  The intensity
    lies in [0, 5.1] and reaches 5.1 while the sound plays at full scale (C9); it is 0
    while nothing plays (C10).
  \<^item> The decode: a failure is silent and final (C11); a success loops at volume 0.5 (C12).
  \<^item> The analyser: the summing loop computes the sum (C13), the average lies in
    [0, 255] (C14), and the Visualizer constructor yields 16 buckets (C15).
  \<^item> The scene: \<open>IcosahedronGeometry(r, d)\<close> pushes \<open>60 (d+1)^2\<close> vertices (C24);
    \<open>subdivideFace\<close> reads only grid cells its first loop filled, the apex among them
    (C25), and reads every one of them, so the face has no hole (C30); every vertex it
    pushes lies on its face (C26).  The two lights are in the scene, yet the frame every
    refresh renders is the renderer's picture with no lights, because the material
    keeps \<open>lights = false\<close> (C27).  Every vertex of the mesh lies at distance 2 from
    the centre (C28).
  \<^item> The console: every refresh logs exactly the value it wrote to
    \<open>uAudioFrequency\<close>, one line per refresh, in order (C29).

  \<^bold>\<open>Modelling choices.\<close>
  \<^item> JavaScript numbers and shader arithmetic are exact reals.  The claims are about the
    arithmetic the code means; rounding of repeated \<open>+= 0.05\<close> and float32 shader
    rounding are outside the model.  What is modelled is the rounding that matters at
    the scale of a colour: 8-bit texture storage.
  \<^item> Texture types follow three.js: the save target has the constructor's default
    \<open>UnsignedByteType\<close>, because \<open>renderTargetParameters\<close> names no type.  The
    canvas is 8-bit RGBA.  The composer's own targets are \<open>HalfFloatType\<close> (three.js
    r151 and later), and half floats are taken as exact.  Under an older three.js those
    two targets would be 8-bit too.  Because storing a byte frame again changes nothing
    (\<open>unorm8_of_value\<close>), the save target and the screen would still receive the same
    bytes.  The
    scene drawn into \<open>RenderTarget1\<close> would be rounded first.
  \<^item> The UNORM8 conversion rounds to nearest, the rule GL ES recommends; the rule lets
    an implementation pick either neighbour.
  \<^item> The analyser's \<open>Uint8Array\<close> holds \<open>8 word\<close> values, and their sum is a \<open>nat\<close>.
  \<^item> Frames are lists of channel values, mixed per channel as the shaders do.
  \<^item> The scene's rasterisation is the parameter
    \<open>render_scene :: light list \<Rightarrow> mesh \<Rightarrow> frame\<close>: the shader pair drawing the mesh
    under the lights the renderer hands it.  The host's refresh draws the scene through
    \<open>scene_render\<close>, which hands over the scene's lights only when the material has
    \<open>lights\<close> set; in every reachable state it has not, so every rendered frame is
    \<open>render_scene [] m\<close> (C27), and the other claims speak of that frame.
  \<^item> Division by zero: HOL's \<open>x / 0 = 0\<close>, where JavaScript gives NaN.  The only
    division by zero the code guards against is \<open>j / rows\<close> at the apex of
    \<open>subdivideFace\<close>; in the model that guard changes nothing (with or without it the
    apex is \<open>aj\<close>), so the model cannot show what the guard prevents.  C25 shows the
    apex is among the cells read, which is the case it is for.
  \<^item> The geometry is a definition over reals, not evaluated: its 2.4 million vertices
    are counted by the length lemmas of \<open>Scene\<close>.  Only the position attribute is
    modelled; the normals and UVs three.js also computes are not read by the program.
    Sizes are fixed: the renderer's frames have \<open>width * height * 4\<close> channels.
    Claims on the blend error assume the renderer draws channels in [0,1].
  \<^item> No loop needs fuel.  \<open>sum_frequency\<close> terminates by the measure
    \<open>length data - i\<close> and \<open>trail_settle\<close> by the measure \<open>|d|\<close>.
    \<open>run_frames\<close> recurses on its list of refreshes.  The unbounded session is a
    relation, so its properties hold for every finite prefix.

  \<^bold>\<open>Not modelled.\<close>  The shader programs (GLSL, not under src/), the camera and
  the GUI (obtained at lines 61--62 and never used; the GUI code of lines 120--122 is
  commented out), the \<open>console.error\<close> three.js's \<open>AudioLoader\<close> prints on a failed
  decode (library output), and resizing (out of scope in spec 7c).  Also left out: the analyser's
  time smoothing (the spectrum is an input), IEEE rounding of doubles and of shader
  floats, and texture filtering.  Filtering has no effect while every target has the
  viewport's size, because the passes then sample at texel centres.  The model assumes
  that size (\<open>targets_sized\<close>).  The save target is created at
  \<open>useRenderSize()\<close>; \<open>EffectComposer.addPass\<close> then calls the pass's \<open>setSize\<close> with
  the composer's size, which resizes the save pass's target, so the sizes agree.  The
  model takes the renderer's pixel ratio as 1, where both sizes are
  \<open>width * height\<close>.

  \<^bold>\<open>Plan for the next sittings.\<close>
  \<^enum> The analyser's time smoothing (\<open>smoothingTimeConstant\<close> 0.8 of Web Audio), so
    that the amplitude is a function of the spectra of past refreshes too.
  \<^enum> The spec's preferred behaviours as alternative definitions (history seeded with the
    first frame, uniform writes that ignore unbound names), with their claims, to
    measure the divergences found.
  \<^enum> The loader's failure output (\<open>console.error\<close>) as a console entry of the decode
    step, so that the error path of spec 7(a) is observable in the model.
\<close>

section \<open>Motion blur: the composed passes implement the moving average\<close>

text \<open>
  C1. In every well-formed running state, a display refresh succeeds, and the frame it
  shows is the blend \<open>mix(C, A, 0.725)\<close> of the scene rendered this tick (C) with the
  history the save target held (A), stored in 8 bits per channel; the save target then
  holds the same frame.
\<close>

theorem frame_blends_history:
  assumes "app_wf a"
  shows "\<exists>a'. host_frame R a ts dt sp = Inr a' \<and>
           store (comp a') Screen =
             store_frame UnsignedByteType (blend_step 0.725 (store (comp a) SaveTarget) (R [] (ico a'))) \<and>
           store (comp a') SaveTarget = store (comp a') Screen"
proof -
  obtain a' where a': "host_frame R a ts dt sp = Inr a'"
    using host_frame_wf [OF assms] by blast
  then show ?thesis
    using host_frame_wf_result (7) [OF assms a'] by (simp add: MOTION_BLUR_AMOUNT_def)
qed

theorem frame_blends_history_witness:
  "app_wf (projr (start_app 1 1)) \<and>
   (\<exists>a'. host_frame (\<lambda>_ _. [1, 1, 1, 1]) (projr (start_app 1 1)) 16 16 (\<lambda>_. 255) = Inr a' \<and>
      store (comp a') Screen =
        store_frame UnsignedByteType
          (blend_step 0.725 (store (comp (projr (start_app 1 1))) SaveTarget) [1, 1, 1, 1]) \<and>
      store (comp a') SaveTarget = store (comp a') Screen)"
proof -
  have wf: "app_wf (projr (start_app 1 1))"
    by (rule app_wf_start [of 1 1]) (simp add: start_app_Inr)
  show ?thesis
    using frame_blends_history [OF wf, of "\<lambda>_ _. [1, 1, 1, 1]" 16 16 "\<lambda>_. 255"] wf by simp
qed

text \<open>
  C2. Spec 8.1: with a static scene C drawn in [0,1], the shown frame approaches C
  geometrically: after k refreshes each channel is \<open>C + 0.725^k * (H - C)\<close>, H the
  history at the start, up to the 8-bit storage of the history, which never puts it more
  than 1/140 away.
\<close>

theorem constant_scene_decay:
  assumes "app_wf a" "colour_range C" "length C = length (store (comp a) SaveTarget)"
  shows "\<exists>as. run_trace (\<lambda>_ _. C) a fs = Inr as \<and> length as = length fs \<and>
           (\<forall>i < length C. \<bar>store (comp (last (a # as))) Screen ! i
              - (C ! i + 0.725 ^ length fs * (store (comp a) SaveTarget ! i - C ! i))\<bar> \<le> 1 / 140)"
proof -
  let ?H = "store (comp a) SaveTarget"
  obtain as where tr: "run_trace (\<lambda>_ _. C) a fs = Inr as" and len: "length as = length fs"
    and wf: "app_wf (last (a # as))"
    and err: "\<forall>i < length C. \<bar>store (comp (last (a # as))) SaveTarget ! i
        - ema MOTION_BLUR_AMOUNT ?H (map (\<lambda>b. store (comp b) RenderTarget1) as) ! i\<bar> \<le> 1 / 140"
    and rend: "\<forall>b \<in> set as. \<exists>m. store (comp b) RenderTarget1 = (\<lambda>_ _. C) [] m"
  proof -
    have R: "\<forall>m. colour_range ((\<lambda>_ _. C) [] m) \<and> length ((\<lambda>_ _. C) [] m) = length C"
      using assms(2) by simp
    have E: "\<forall>i < length C. \<bar>?H ! i - ?H ! i\<bar> \<le> 1 / 140" by simp
    show ?thesis
      using run_trace_quantised [where R = "\<lambda>_ _. C", OF assms(1) R assms(3) [symmetric] assms(3) [symmetric] E, of fs]
        that by blast
  qed
  have "map (\<lambda>b. store (comp b) RenderTarget1) as = replicate (length fs) C"
  proof -
    have "map (\<lambda>b. store (comp b) RenderTarget1) as = map (\<lambda>_. C) as"
      using rend by (intro map_cong) auto
    then show ?thesis using len by (simp add: map_replicate_const)
  qed
  then have "\<forall>i < length C. ema MOTION_BLUR_AMOUNT ?H (map (\<lambda>b. store (comp b) RenderTarget1) as) ! i
      = C ! i + 0.725 ^ length fs * (?H ! i - C ! i)"
    using assms(3) by (simp add: ema_replicate MOTION_BLUR_AMOUNT_def)
  with err wf tr len show ?thesis by (auto simp: app_wf_def)
qed

theorem constant_scene_decay_witness:
  "app_wf (projr (start_app 1 1)) \<and> colour_range [1, 1, 1, 1] \<and>
   length [1, 1, 1, 1 :: real] = length (store (comp (projr (start_app 1 1))) SaveTarget) \<and>
   (\<exists>as. run_trace (\<lambda>_ _. [1, 1, 1, 1]) (projr (start_app 1 1)) [(16, 16, \<lambda>_. 0), (32, 16, \<lambda>_. 0)]
          = Inr as \<and> length as = length [(16 :: real, 16 :: real, \<lambda>_ :: nat. 0 :: byte), (32, 16, \<lambda>_. 0)] \<and>
      (\<forall>i < length [1, 1, 1, 1 :: real]. \<bar>store (comp (last (projr (start_app 1 1) # as))) Screen ! i
         - ([1, 1, 1, 1] ! i + 0.725 ^ length [(16 :: real, 16 :: real, \<lambda>_ :: nat. 0 :: byte), (32, 16, \<lambda>_. 0)]
             * (store (comp (projr (start_app 1 1))) SaveTarget ! i - [1, 1, 1, 1] ! i))\<bar> \<le> 1 / 140))"
proof -
  have wf: "app_wf (projr (start_app 1 1))"
    by (rule app_wf_start [of 1 1]) (simp add: start_app_Inr)
  have cr: "colour_range [1, 1, 1, 1]" by (simp add: colour_range_def)
  have len: "length [1, 1, 1, 1 :: real] = length (store (comp (projr (start_app 1 1))) SaveTarget)"
    by (simp add: start_app_Inr composer_new_def attach_target_def)
  show ?thesis
    using constant_scene_decay [OF wf cr len, of "[(16, 16, \<lambda>_. 0), (32, 16, \<lambda>_. 0)]"] wf cr len
    by blast
qed

text \<open>
  C4. The first refresh after \<open>startApp\<close> does not show the rendered frame C (spec 4.3
  and 8.3 say it should): the save target starts zeroed, so the screen shows
  \<open>0.275 * C\<close> (stored in 8 bits), and the trail fades in from black.
\<close>

theorem first_frame_fades_in:
  assumes "start_app w h = Inr a" "length C = w * h * 4"
  shows "\<exists>a'. host_frame (\<lambda>_ _. C) a ts dt sp = Inr a' \<and>
           store (comp a') Screen = store_frame UnsignedByteType (map (\<lambda>c. 0.275 * c) C)"
proof -
  have wf: "app_wf a" using assms(1) by (rule app_wf_start)
  obtain a' where a': "host_frame (\<lambda>_ _. C) a ts dt sp = Inr a'"
    using host_frame_wf [OF wf] by blast
  have "store (comp a) SaveTarget = replicate (length C) 0"
    using assms by (auto simp: start_app_Inr composer_new_def attach_target_def)
  then show ?thesis
    using a' host_frame_wf_result (7) [OF wf a']
    by (simp add: MOTION_BLUR_AMOUNT_def blend_step_zero_history)
qed

theorem first_frame_fades_in_witness:
  "start_app 1 1 = Inr (projr (start_app 1 1)) \<and> length [1, 1, 1, 1 :: real] = 1 * 1 * 4 \<and>
   (\<exists>a'. host_frame (\<lambda>_ _. [1, 1, 1, 1]) (projr (start_app 1 1)) 16 16 (\<lambda>_. 0) = Inr a' \<and>
      store (comp a') Screen = [70 / 255, 70 / 255, 70 / 255, 70 / 255])"
proof -
  have s: "start_app 1 1 = Inr (projr (start_app 1 1))" by (simp add: start_app_Inr)
  have l: "length [1, 1, 1, 1 :: real] = 1 * 1 * 4" by simp
  have "unorm8 (11 / 40) = word_of_int 70" by (rule unorm8_eqI) simp_all
  then have q: "unorm8_value (unorm8 (11 / 40)) = 70 / 255" by (simp add: unorm8_value_def)
  show ?thesis
    using first_frame_fades_in [OF s l, of 16 16 "\<lambda>_. 0"] s by (simp add: store_frame_def q)
qed

section \<open>The session: invariant, progress, no exception\<close>

text \<open>
  C5. Every reachable running state is well formed: both shader uniforms are bound, the
  host composer runs exactly [render, blend, save, output] in that order, the render
  targets keep the viewport's size, the screen shows the saved history, and a playing
  sound loops at volume 0.5.
\<close>

theorem running_state_well_formed:
  assumes "reachable R w h (Running a)" "\<forall>m. length (R [] m) = w * h * 4"
  shows "uniforms_ready (mesh_uniforms (ico a)) \<and> passes a = app_passes \<and>
         targets_sized (w * h * 4) (comp a) \<and> store (comp a) Screen = store (comp a) SaveTarget \<and>
         (is_playing (sound (vis a)) \<longrightarrow> audio_loop (sound (vis a)) \<and> gain_target (sound (vis a)) = 0.5)"
proof -
  have "app_wf a" "targets_sized (w * h * 4) (comp a)"
    using reachable_session_inv [OF assms] by simp_all
  then show ?thesis
    by (auto simp: app_wf_def audio_ok_def playing_audio_def audio_new_def split: option.splits)
qed

theorem running_state_well_formed_witness:
  "reachable (\<lambda>_ _. replicate 4 0) 1 1 (Running (projr (start_app 1 1))) \<and>
   (\<forall>m. length ((\<lambda>_ _. replicate 4 (0 :: real)) [] m) = 1 * 1 * 4) \<and>
   uniforms_ready (mesh_uniforms (ico (projr (start_app 1 1)))) \<and>
   passes (projr (start_app 1 1)) = app_passes"
  using running_state_well_formed [OF reachable_start [of "\<lambda>_ _. replicate 4 0" 1 1]]
    reachable_start [of "\<lambda>_ _. replicate 4 0" 1 1] by simp

text \<open>
  C6. No display refresh of a reachable session raises: both uniform writes of the tick
  callback find their slots, whatever the renderer, the timestamp or the spectrum.
\<close>

theorem frame_never_throws:
  assumes "reachable R w h (Running a)"
  shows "\<exists>a'. host_frame R a ts dt sp = Inr a'"
  using host_frame_wf [OF reachable_app_wf [OF assms]] by blast

theorem frame_never_throws_witness:
  "reachable (\<lambda>_ _. [0.5]) 2 3 (Running (projr (start_app 2 3))) \<and>
   (\<exists>a'. host_frame (\<lambda>_ _. [0.5]) (projr (start_app 2 3)) 1000 16 (\<lambda>i. of_nat i) = Inr a')"
  using frame_never_throws [OF reachable_start [of "\<lambda>_ _. [0.5]" 2 3]] reachable_start by blast

text \<open>
  C7. Spec 4.2 and 8.4: a refresh writes the analyser's average over its 16 buckets,
  divided by 50, to \<open>uAudioFrequency\<close>, and the timestamp in seconds to \<open>uTime\<close>.
\<close>

theorem frame_updates_uniforms:
  assumes "app_wf a" "host_frame R a ts dt sp = Inr a'"
  shows "mesh_uniforms (ico a') ''uAudioFrequency'' =
           Some (real (sum_list (map (\<lambda>i. unat (heard_spectrum (sound (vis a)) sp i)) [0..<16])) / 16 / 50) \<and>
         mesh_uniforms (ico a') ''uTime'' = Some (ts / 1000)"
  using host_frame_uniform_values [OF assms] by simp

theorem frame_updates_uniforms_witness:
  "app_wf (projr (start_app 1 1)) \<and>
   host_frame (\<lambda>_ _. [0, 0, 0, 0]) (projr (start_app 1 1)) 2500 16 (\<lambda>_. 200) =
     Inr (projr (host_frame (\<lambda>_ _. [0, 0, 0, 0]) (projr (start_app 1 1)) 2500 16 (\<lambda>_. 200))) \<and>
   mesh_uniforms (ico (projr (host_frame (\<lambda>_ _. [0, 0, 0, 0]) (projr (start_app 1 1)) 2500 16 (\<lambda>_. 200))))
     ''uTime'' = Some 2.5"
proof -
  have wf: "app_wf (projr (start_app 1 1))"
    by (rule app_wf_start [of 1 1]) (simp add: start_app_Inr)
  obtain a' where a': "host_frame (\<lambda>_ _. [0, 0, 0, 0]) (projr (start_app 1 1)) 2500 16 (\<lambda>_. 200) = Inr a'"
    using host_frame_wf [OF wf] by blast
  show ?thesis using frame_updates_uniforms [OF wf a'] wf a' by simp
qed

section \<open>Rotation, audio intensity and the decode outcomes\<close>

text \<open>
  C8. Spec 8.5: after \<open>startApp\<close> and k refreshes, whatever their timestamps, the x and
  y angles are \<open>0.05 * k\<close> and the z angle is \<open>1 + 0.05 * k\<close> (line 148 turns z by 1.0
  once); the rotation is per tick, not per second.
\<close>

theorem rotation_after_frames:
  assumes "start_app w h = Inr a"
  shows "\<exists>a'. run_frames R a fs = Inr a' \<and>
           rot_x (ico a') = 0.05 * real (length fs) \<and> rot_y (ico a') = 0.05 * real (length fs) \<and>
           rot_z (ico a') = 1 + 0.05 * real (length fs)"
proof -
  have "app_wf a" using assms by (rule app_wf_start)
  from run_frames_rotation [OF this, of R fs] assms show ?thesis
    by (auto simp: start_app_Inr)
qed

theorem rotation_after_frames_witness:
  "start_app 1 1 = Inr (projr (start_app 1 1)) \<and>
   (\<exists>a'. run_frames (\<lambda>_ _. []) (projr (start_app 1 1)) [(0, 0, \<lambda>_. 0), (5, 5, \<lambda>_. 9), (7, 2, \<lambda>_. 1)] = Inr a' \<and>
      rot_x (ico a') = 0.15 \<and> rot_y (ico a') = 0.15 \<and> rot_z (ico a') = 1.15)"
proof -
  have s: "start_app 1 1 = Inr (projr (start_app 1 1))" by (simp add: start_app_Inr)
  show ?thesis
    using rotation_after_frames [OF s, of "\<lambda>_ _. []" "[(0, 0, \<lambda>_. 0), (5, 5, \<lambda>_. 9), (7, 2, \<lambda>_. 1)]"] s
    by simp
qed

text \<open>
  C9. The audio intensity the shader receives lies in [0, 5.1], and 5.1 is reached: in
  every reachable state a refresh writes a value in [0, 5.1], and while the sound plays a
  spectrum at full scale (every bucket 255) makes it write exactly 5.1.  So the range is
  not the [0, 1] spec 4.2 aims at: the buckets are bytes and the scale is 1/50.
\<close>

theorem audio_uniform_bounds:
  assumes "reachable R w h (Running a)"
  shows "\<exists>a' f. host_frame R a ts dt sp = Inr a' \<and> mesh_uniforms (ico a') ''uAudioFrequency'' = Some f \<and>
           0 \<le> f \<and> f \<le> 5.1 \<and> (is_playing (sound (vis a)) \<and> (\<forall>i. sp i = 255) \<longrightarrow> f = 5.1)"
proof -
  have wf: "app_wf a" using reachable_app_wf [OF assms] .
  obtain a' where a': "host_frame R a ts dt sp = Inr a'" by (simp add: host_frame_wf [OF wf])
  let ?s = "sum_list (map (\<lambda>i. unat (heard_spectrum (sound (vis a)) sp i)) [0..<16])"
  have v: "mesh_uniforms (ico a') ''uAudioFrequency'' = Some (real ?s / 16 / 50)"
    using host_frame_uniform_values (1) [OF wf a'] .
  have "?s \<le> 255 * length [0..<16::nat]" by (rule sum_unat_spectrum_le)
  then have le: "real ?s \<le> 4080" by simp
  have full: "real ?s / 16 / 50 = 5.1" if "is_playing (sound (vis a))" "\<forall>i. sp i = 255"
  proof -
    have "?s = 16 * 255" using that by (simp add: heard_spectrum_def sum_list_triv)
    then show ?thesis by simp
  qed
  show ?thesis using a' v le full by (intro exI [of _ a'] exI [of _ "real ?s / 16 / 50"]) auto
qed

theorem audio_uniform_bounds_witness:
  "reachable (\<lambda>_ _. []) 1 1
     (Running ((projr (start_app 1 1))\<lparr>vis := load_complete (vis (projr (start_app 1 1))) (Some [0.5])\<rparr>)) \<and>
   is_playing (sound (vis ((projr (start_app 1 1))\<lparr>vis := load_complete (vis (projr (start_app 1 1))) (Some [0.5])\<rparr>))) \<and>
   (\<forall>i :: nat. (\<lambda>_. 255 :: byte) i = 255) \<and>
   (\<exists>a'. host_frame (\<lambda>_ _. []) ((projr (start_app 1 1))\<lparr>vis := load_complete (vis (projr (start_app 1 1))) (Some [0.5])\<rparr>)
           0 0 (\<lambda>_. 255) = Inr a' \<and> mesh_uniforms (ico a') ''uAudioFrequency'' = Some 5.1)"
proof -
  let ?a = "projr (start_app 1 1)"
  let ?p = "?a\<lparr>vis := load_complete (vis ?a) (Some [0.5])\<rparr>"
  have "session_step (\<lambda>_ _. []) 1 1 (Running ?a) (Running ?p)"
    by (rule session_step.decoded) (simp add: start_app_Inr)
  then have r: "reachable (\<lambda>_ _. []) 1 1 (Running ?p)" by (rule reachable.step [OF reachable_start])
  have pl: "is_playing (sound (vis ?p))"
    by (simp add: start_app_Inr load_complete_def on_buffer_loaded_def audio_set_buffer_def
        audio_set_loop_def audio_set_volume_def audio_play_def audio_new_def)
  show ?thesis using audio_uniform_bounds [OF r, of 0 0 "\<lambda>_. 255"] r pl by auto
qed

text \<open>
  C10. Spec 4.1 and 8.6: while the sound is not playing (before the decode completes, or
  for good after it failed) every refresh writes 0 to \<open>uAudioFrequency\<close>.
\<close>

theorem silent_while_not_playing:
  assumes "app_wf a" "\<not> is_playing (sound (vis a))" "host_frame R a ts dt sp = Inr a'"
  shows "mesh_uniforms (ico a') ''uAudioFrequency'' = Some 0"
  using host_frame_silent (1) [OF assms] .

theorem silent_while_not_playing_witness:
  "app_wf (projr (start_app 1 1)) \<and> \<not> is_playing (sound (vis (projr (start_app 1 1)))) \<and>
   host_frame (\<lambda>_ _. []) (projr (start_app 1 1)) 0 0 (\<lambda>_. 255) =
     Inr (projr (host_frame (\<lambda>_ _. []) (projr (start_app 1 1)) 0 0 (\<lambda>_. 255))) \<and>
   mesh_uniforms (ico (projr (host_frame (\<lambda>_ _. []) (projr (start_app 1 1)) 0 0 (\<lambda>_. 255))))
      ''uAudioFrequency'' = Some 0"
proof -
  have wf: "app_wf (projr (start_app 1 1))"
    by (rule app_wf_start [of 1 1]) (simp add: start_app_Inr)
  have np: "\<not> is_playing (sound (vis (projr (start_app 1 1))))"
    by (simp add: start_app_Inr audio_new_def)
  obtain a' where a': "host_frame (\<lambda>_ _. []) (projr (start_app 1 1)) 0 0 (\<lambda>_. 255) = Inr a'"
    using host_frame_wf [OF wf] by blast
  show ?thesis using silent_while_not_playing [OF wf np a'] wf np a' by simp
qed

text \<open>
  C11. Spec 7(a): a failed decode is silent and final.  The request is dropped, the sound
  stays the fresh, stopped \<open>THREE.Audio\<close>, nothing retries, and every later refresh
  writes 0 to \<open>uAudioFrequency\<close>.
\<close>

theorem decode_failure_stays_silent:
  assumes "app_wf a" "pending_loads (vis a) \<noteq> []"
  shows "\<exists>a'. run_frames R (a\<lparr>vis := load_complete (vis a) None\<rparr>) fs = Inr a' \<and>
           sound (vis a') = audio_new \<and> pending_loads (vis a') = [] \<and>
           (fs \<noteq> [] \<longrightarrow> mesh_uniforms (ico a') ''uAudioFrequency'' = Some 0)"
proof -
  from assms have p: "pending_loads (vis a) = [TRACK]" and snd: "sound (vis a) = audio_new"
    by (auto simp: app_wf_def)
  let ?a1 = "a\<lparr>vis := load_complete (vis a) None\<rparr>"
  have wf1: "app_wf ?a1" using assms(1) by (rule app_wf_load_complete)
  have "sound (vis ?a1) = audio_new" "pending_loads (vis ?a1) = []"
    using p snd by (simp_all add: load_complete_def)
  moreover have "\<not> is_playing (sound (vis ?a1))"
    using calculation by (simp add: audio_new_def)
  ultimately show ?thesis
    using run_frames_silent [OF wf1, of R fs] by auto
qed

theorem decode_failure_stays_silent_witness:
  "app_wf (projr (start_app 1 1)) \<and> pending_loads (vis (projr (start_app 1 1))) \<noteq> [] \<and>
   (\<exists>a'. run_frames (\<lambda>_ _. [])
          ((projr (start_app 1 1))\<lparr>vis := load_complete (vis (projr (start_app 1 1))) None\<rparr>)
          [(0, 0, \<lambda>_. 255)] = Inr a' \<and>
      sound (vis a') = audio_new \<and> pending_loads (vis a') = [] \<and>
      mesh_uniforms (ico a') ''uAudioFrequency'' = Some 0)"
proof -
  have wf: "app_wf (projr (start_app 1 1))"
    by (rule app_wf_start [of 1 1]) (simp add: start_app_Inr)
  have p: "pending_loads (vis (projr (start_app 1 1))) \<noteq> []"
    by (simp add: start_app_Inr)
  show ?thesis
    using decode_failure_stays_silent [OF wf p, of "\<lambda>_ _. []" "[(0, 0, \<lambda>_. 255)]"] wf p by simp
qed

text \<open>
  C12. Spec 4.1: when the decode succeeds, the callback leaves the sound playing the
  decoded buffer, looping, with its volume heading to 0.5.
\<close>

theorem decode_success_plays:
  assumes "app_wf a" "pending_loads (vis a) \<noteq> []"
  shows "is_playing (sound (load_complete (vis a) (Some b))) \<and>
         audio_loop (sound (load_complete (vis a) (Some b))) \<and>
         gain_target (sound (load_complete (vis a) (Some b))) = 0.5 \<and>
         source (sound (load_complete (vis a) (Some b))) = Some (Some b, True) \<and>
         pending_loads (load_complete (vis a) (Some b)) = []"
proof -
  from assms have p: "pending_loads (vis a) = [TRACK]" and snd: "sound (vis a) = audio_new"
    by (auto simp: app_wf_def)
  then show ?thesis
    by (simp add: load_complete_def on_buffer_loaded_new playing_audio_def audio_new_def)
qed

theorem decode_success_plays_witness:
  "app_wf (projr (start_app 1 1)) \<and> pending_loads (vis (projr (start_app 1 1))) \<noteq> [] \<and>
   is_playing (sound (load_complete (vis (projr (start_app 1 1))) (Some [0.1, -0.1])))"
proof -
  have wf: "app_wf (projr (start_app 1 1))"
    by (rule app_wf_start [of 1 1]) (simp add: start_app_Inr)
  have p: "pending_loads (vis (projr (start_app 1 1))) \<noteq> []"
    by (simp add: start_app_Inr)
  show ?thesis using decode_success_plays [OF wf p, of "[0.1, -0.1]"] wf p by simp
qed

section \<open>The weight of each past frame\<close>

text \<open>
  C3. Spec 8.1: after any run of k refreshes whose scene is drawn in [0,1], each channel
  of the screen is \<open>0.725^k\<close> times the initial history plus, for the j-th frame the run
  rendered, \<open>0.275 * 0.725^(k-1-j)\<close> times that frame, up to 1/140 from the 8-bit
  history: the frame rendered N refreshes before the last weighs \<open>0.275 * 0.725^N\<close>.
\<close>

theorem history_weights:
  assumes "app_wf a" "\<forall>m. colour_range (R [] m) \<and> length (R [] m) = length (store (comp a) SaveTarget)"
    and "i < length (store (comp a) SaveTarget)"
  shows "\<exists>as. run_trace R a fs = Inr as \<and> length as = length fs \<and>
           \<bar>store (comp (last (a # as))) Screen ! i -
             (0.725 ^ length fs * (store (comp a) SaveTarget ! i) +
              (\<Sum>j < length fs. 0.275 * 0.725 ^ (length fs - 1 - j) * (store (comp (as ! j)) RenderTarget1 ! i)))\<bar>
           \<le> 1 / 140"
proof -
  let ?H = "store (comp a) SaveTarget"
  let ?n = "length ?H"
  obtain as where tr: "run_trace R a fs = Inr as" and len: "length as = length fs"
    and wf: "app_wf (last (a # as))"
    and err: "\<forall>i < ?n. \<bar>store (comp (last (a # as))) SaveTarget ! i
        - ema MOTION_BLUR_AMOUNT ?H (map (\<lambda>b. store (comp b) RenderTarget1) as) ! i\<bar> \<le> 1 / 140"
    and rend: "\<forall>b \<in> set as. \<exists>m. store (comp b) RenderTarget1 = R [] m"
    using run_trace_quantised [where R = R, OF assms(1) assms(2), of ?H fs] by auto
  let ?cs = "map (\<lambda>b. store (comp b) RenderTarget1) as"
  have lens: "\<forall>c \<in> set ?cs. length c = length ?H" using rend assms(2) by auto
  have "ema MOTION_BLUR_AMOUNT ?H ?cs ! i = ema1 MOTION_BLUR_AMOUNT (?H ! i) (map (\<lambda>c. c ! i) ?cs)"
    using nth_ema [OF lens assms(3)] .
  also have "\<dots> = 0.725 ^ length fs * (?H ! i) +
      (\<Sum>j < length fs. 0.275 * 0.725 ^ (length fs - 1 - j) * (store (comp (as ! j)) RenderTarget1 ! i))"
    using len by (simp add: ema1_closed_form MOTION_BLUR_AMOUNT_def)
  finally show ?thesis using tr len wf err assms(3) by (auto simp: app_wf_def)
qed

theorem history_weights_witness:
  "app_wf (projr (start_app 1 1)) \<and>
   (\<forall>m. colour_range ([clamp01 (rot_z m), 0, 0, 0]) \<and>
        length ([clamp01 (rot_z m), 0, 0, 0]) = length (store (comp (projr (start_app 1 1))) SaveTarget)) \<and>
   0 < length (store (comp (projr (start_app 1 1))) SaveTarget) \<and>
   (\<exists>as. run_trace (\<lambda>_ m. [clamp01 (rot_z m), 0, 0, 0]) (projr (start_app 1 1)) [(0, 0, \<lambda>_. 0)] = Inr as \<and>
      length as = length [(0 :: real, 0 :: real, \<lambda>_ :: nat. 0 :: byte)] \<and>
      \<bar>store (comp (last (projr (start_app 1 1) # as))) Screen ! 0 -
        (0.725 ^ length [(0 :: real, 0 :: real, \<lambda>_ :: nat. 0 :: byte)] * (store (comp (projr (start_app 1 1))) SaveTarget ! 0) +
         (\<Sum>j < length [(0 :: real, 0 :: real, \<lambda>_ :: nat. 0 :: byte)].
           0.275 * 0.725 ^ (length [(0 :: real, 0 :: real, \<lambda>_ :: nat. 0 :: byte)] - 1 - j) *
           (store (comp (as ! j)) RenderTarget1 ! 0)))\<bar> \<le> 1 / 140)"
proof -
  have wf: "app_wf (projr (start_app 1 1))"
    by (rule app_wf_start [of 1 1]) (simp add: start_app_Inr)
  have l: "\<forall>m. colour_range ([clamp01 (rot_z m), 0, 0, 0]) \<and>
        length ([clamp01 (rot_z m), 0, 0, 0]) = length (store (comp (projr (start_app 1 1))) SaveTarget)"
    by (simp add: start_app_Inr composer_new_def attach_target_def colour_range_def clamp01_bounds)
  have i: "0 < length (store (comp (projr (start_app 1 1))) SaveTarget)"
    by (simp add: start_app_Inr composer_new_def attach_target_def)
  show ?thesis
    using history_weights [OF wf l i, of "[(0, 0, \<lambda>_. 0)]"] wf l i by blast
qed


section \<open>Stored frames and the audio uniform across the session\<close>

text \<open>
  C16. In every reachable running state the save target and the canvas are 8-bit
  textures, and what they hold is a frame of bytes: each channel is some \<open>b / 255\<close>,
  hence in [0,1], whatever the renderer draws.
\<close>

theorem stored_frames_are_bytes:
  assumes "reachable R w h (Running a)"
  shows "target_type (comp a) SaveTarget = UnsignedByteType \<and> target_type (comp a) Screen = UnsignedByteType \<and>
         byte_valued (store (comp a) SaveTarget) \<and> byte_valued (store (comp a) Screen) \<and>
         colour_range (store (comp a) Screen)"
proof -
  have "app_wf a" using assms by (rule reachable_app_wf)
  then show ?thesis by (simp add: app_wf_def byte_valued_colour_range)
qed

theorem stored_frames_are_bytes_witness:
  "reachable (\<lambda>_ _. [2, -1, 0.5, 0]) 1 1 (Running (projr (start_app 1 1))) \<and>
   byte_valued (store (comp (projr (start_app 1 1))) Screen)"
  using stored_frames_are_bytes [OF reachable_start [of "\<lambda>_ _. [2, -1, 0.5, 0]" 1 1]]
    reachable_start [of "\<lambda>_ _. [2, -1, 0.5, 0]" 1 1] by simp

text \<open>
  C19. Spec 4.1 and 8.6, over the whole session: in every reachable state in which the
  sound is not playing (before the decode completes, or for good after it failed), the
  shader's \<open>uAudioFrequency\<close> holds 0, whatever interleaving of refreshes and decode
  completion led there.
\<close>

theorem silent_until_playing:
  assumes "reachable R w h s"
  shows "case s of Idle \<Rightarrow> True
           | Running a \<Rightarrow> (\<not> is_playing (sound (vis a)) \<longrightarrow> mesh_uniforms (ico a) ''uAudioFrequency'' = Some 0)"
  using assms
proof (induction rule: reachable.induct)
  case init
  then show ?case by simp
next
  case (step s t)
  have wf: "case s of Idle \<Rightarrow> True | Running a \<Rightarrow> app_wf a"
    using step.hyps(1) by (rule reachable_app_wf_session)
  from step.hyps(2) show ?case
  proof (cases rule: session_step.cases)
    case (start a)
    then show ?thesis by (auto simp: start_app_Inr)
  next
    case (frame a ts dt sp a')
    with wf have wfa: "app_wf a" by simp
    have "sound (vis a') = sound (vis a)" using host_frame_wf_result (2) [OF wfa frame(3)] by simp
    with host_frame_silent (1) [OF wfa _ frame(3)] frame(2) show ?thesis by auto
  next
    case (decoded a r)
    with wf have wfa: "app_wf a" by simp
    then have p: "pending_loads (vis a) = [TRACK]" and snd: "sound (vis a) = audio_new"
      using decoded(3) by (auto simp: app_wf_def)
    show ?thesis
    proof (cases r)
      case None
      with step.IH decoded(1) decoded(2) p show ?thesis by (simp add: load_complete_def)
    next
      case (Some b)
      with decoded(2) p snd show ?thesis
        by (simp add: load_complete_def on_buffer_loaded_new playing_audio_def audio_new_def)
    qed
  qed
qed

theorem silent_until_playing_witness:
  "reachable (\<lambda>_ _. []) 1 1
     (Running ((projr (start_app 1 1))\<lparr>vis := load_complete (vis (projr (start_app 1 1))) None\<rparr>)) \<and>
   mesh_uniforms (ico ((projr (start_app 1 1))\<lparr>vis := load_complete (vis (projr (start_app 1 1))) None\<rparr>))
     ''uAudioFrequency'' = Some 0"
proof -
  let ?a = "projr (start_app 1 1)"
  have "session_step (\<lambda>_ _. []) 1 1 (Running ?a) (Running (?a\<lparr>vis := load_complete (vis ?a) None\<rparr>))"
    by (rule session_step.decoded) (simp add: start_app_Inr)
  then have r: "reachable (\<lambda>_ _. []) 1 1 (Running (?a\<lparr>vis := load_complete (vis ?a) None\<rparr>))"
    by (rule reachable.step [OF reachable_start])
  have "\<not> is_playing (sound (vis (?a\<lparr>vis := load_complete (vis ?a) None\<rparr>)))"
    by (simp add: start_app_Inr load_complete_def audio_new_def)
  with silent_until_playing [OF r] r show ?thesis by simp
qed


section \<open>The save target's storage\<close>

text \<open>
  C20. The save target built from \<open>renderTargetParameters\<close> stores a channel value of
  [0,1] within 1/510 of it, half a byte step, and the bound is attained: 1/510 itself is
  stored as 1/255.
\<close>

theorem save_target_error_tight:
  assumes "0 \<le> x" "x \<le> 1"
  shows "\<bar>texel_store (webgl_render_target_type renderTargetParameters) x - x\<bar> \<le> 1 / 510 \<and>
         \<bar>texel_store (webgl_render_target_type renderTargetParameters) (1 / 510) - 1 / 510\<bar> = 1 / 510"
proof
  have ty: "webgl_render_target_type renderTargetParameters = UnsignedByteType"
    by (simp add: renderTargetParameters_def webgl_render_target_type_def)
  show "\<bar>texel_store (webgl_render_target_type renderTargetParameters) x - x\<bar> \<le> 1 / 510"
    using unorm8_error [OF assms] by (simp add: ty)
  have "unorm8 (1 / 510) = word_of_int 1" by (rule unorm8_eqI) simp_all
  then show "\<bar>texel_store (webgl_render_target_type renderTargetParameters) (1 / 510) - 1 / 510\<bar> = 1 / 510"
    by (simp add: ty unorm8_value_def)
qed

theorem save_target_error_tight_witness:
  "0 \<le> (0.3 :: real) \<and> (0.3 :: real) \<le> 1 \<and>
   \<bar>texel_store (webgl_render_target_type renderTargetParameters) 0.3 - 0.3\<bar> \<le> 1 / 510"
  using save_target_error_tight [of "0.3"] by simp


section \<open>The fade-in against the spec's compositor\<close>

text \<open>
  C23. The code converges to the compositor of spec 4.3, which seeds the history with the
  first frame.  After startApp and any run of k refreshes whose scene is drawn in [0,1],
  each channel of the screen differs from that compositor's output on the same frames
  by at most \<open>0.725^k\<close> times the first frame's channel, plus 1/140 for the 8-bit
  history.  The fade-in of C4 is transient; it lasts about 16 refreshes at 8 bits.
\<close>

theorem converges_to_spec_composite:
  assumes "start_app w h = Inr a" "\<forall>m. colour_range (R [] m) \<and> length (R [] m) = w * h * 4"
    and "i < w * h * 4" "fs \<noteq> []"
  shows "\<exists>as. run_trace R a fs = Inr as \<and> length as = length fs \<and>
           \<bar>store (comp (last (a # as))) Screen ! i
              - spec_composite 0.725 (map (\<lambda>b. store (comp b) RenderTarget1) as) ! i\<bar>
           \<le> 0.725 ^ length fs * \<bar>store (comp (hd as)) RenderTarget1 ! i\<bar> + 1 / 140"
proof -
  let ?n = "w * h * 4"
  let ?H = "store (comp a) SaveTarget"
  have wf: "app_wf a" using assms(1) by (rule app_wf_start)
  have H: "?H = replicate ?n 0"
    using assms(1) by (auto simp: start_app_Inr composer_new_def attach_target_def)
  have E: "\<forall>j < ?n. \<bar>?H ! j - ?H ! j\<bar> \<le> 1 / 140" by simp
  obtain as where tr: "run_trace R a fs = Inr as" and len: "length as = length fs"
    and lwf: "app_wf (last (a # as))"
    and err: "\<forall>j < ?n. \<bar>store (comp (last (a # as))) SaveTarget ! j
        - ema MOTION_BLUR_AMOUNT ?H (map (\<lambda>b. store (comp b) RenderTarget1) as) ! j\<bar> \<le> 1 / 140"
    and rend: "\<forall>b \<in> set as. \<exists>m. store (comp b) RenderTarget1 = R [] m"
    using run_trace_quantised [where R = R, OF wf assms(2), of ?H fs] H E by auto
  let ?cs = "map (\<lambda>b. store (comp b) RenderTarget1) as"
  have ne: "as \<noteq> []" using len assms(4) by auto
  have lens: "\<forall>c \<in> set ?cs. length c = length ?H" using rend assms(2) H by auto
  have hd: "hd ?cs = store (comp (hd as)) RenderTarget1" using ne by (simp add: hd_map)
  have lhd: "length (hd ?cs) = length ?H" using lens ne by (simp add: hd_map)
  have shift: "ema MOTION_BLUR_AMOUNT ?H ?cs ! i - spec_composite 0.725 ?cs ! i
      = 0.725 ^ length fs * (0 - store (comp (hd as)) RenderTarget1 ! i)"
    using ema_shift [OF lens lhd, of i] assms(3) H hd len
    by (simp add: spec_composite_def MOTION_BLUR_AMOUNT_def)
  have "store (comp (last (a # as))) Screen = store (comp (last (a # as))) SaveTarget"
    using lwf by (simp add: app_wf_def)
  then have "\<bar>store (comp (last (a # as))) Screen ! i - ema MOTION_BLUR_AMOUNT ?H ?cs ! i\<bar> \<le> 1 / 140"
    using err assms(3) by simp
  moreover have "\<bar>ema MOTION_BLUR_AMOUNT ?H ?cs ! i - spec_composite 0.725 ?cs ! i\<bar>
      = 0.725 ^ length fs * \<bar>store (comp (hd as)) RenderTarget1 ! i\<bar>"
    using shift by (simp add: abs_mult)
  ultimately have "\<bar>store (comp (last (a # as))) Screen ! i - spec_composite 0.725 ?cs ! i\<bar>
      \<le> 0.725 ^ length fs * \<bar>store (comp (hd as)) RenderTarget1 ! i\<bar> + 1 / 140"
    using abs_triangle_ineq [of "store (comp (last (a # as))) Screen ! i - ema MOTION_BLUR_AMOUNT ?H ?cs ! i"
        "ema MOTION_BLUR_AMOUNT ?H ?cs ! i - spec_composite 0.725 ?cs ! i"] by simp
  then show ?thesis using tr len by blast
qed

theorem converges_to_spec_composite_witness:
  "start_app 1 1 = Inr (projr (start_app 1 1)) \<and>
   (\<forall>m. colour_range ((\<lambda>_ _. [1, 1, 1, 1]) [] m) \<and> length ((\<lambda>_ _. [1, 1, 1, 1 :: real]) [] m) = 1 * 1 * 4) \<and>
   0 < (1 * 1 * 4 :: nat) \<and> [(0 :: real, 0 :: real, \<lambda>_ :: nat. 0 :: byte)] \<noteq> [] \<and>
   (\<exists>as. run_trace (\<lambda>_ _. [1, 1, 1, 1]) (projr (start_app 1 1)) [(0, 0, \<lambda>_. 0)] = Inr as \<and>
      length as = length [(0 :: real, 0 :: real, \<lambda>_ :: nat. 0 :: byte)] \<and>
      \<bar>store (comp (last (projr (start_app 1 1) # as))) Screen ! 0
         - spec_composite 0.725 (map (\<lambda>b. store (comp b) RenderTarget1) as) ! 0\<bar>
      \<le> 0.725 ^ length [(0 :: real, 0 :: real, \<lambda>_ :: nat. 0 :: byte)] *
           \<bar>store (comp (hd as)) RenderTarget1 ! 0\<bar> + 1 / 140)"
proof -
  have s: "start_app 1 1 = Inr (projr (start_app 1 1))" by (simp add: start_app_Inr)
  have r: "\<forall>m. colour_range ((\<lambda>_ _. [1, 1, 1, 1]) [] m) \<and> length ((\<lambda>_ _. [1, 1, 1, 1 :: real]) [] m) = 1 * 1 * 4"
    by (simp add: colour_range_def)
  have i: "0 < (1 * 1 * 4 :: nat)" by simp
  have f: "[(0 :: real, 0 :: real, \<lambda>_ :: nat. 0 :: byte)] \<noteq> []" by simp
  show ?thesis using converges_to_spec_composite [OF s r i f] s r i f by blast
qed

section \<open>The scene: geometry and lights\<close>

text \<open>
  C27. The two lights of lines 68--70 are in the scene of every running state, yet the
  frame each refresh renders is the renderer's picture of the mesh with no lights: the
  host renders the scene (\<open>scene_render\<close>), and the \<open>ShaderMaterial\<close> of lines
  87--90 keeps \<open>lights\<close> false, so the lights are never passed to the shader pair,
  whatever it would do with them.  Spec step 1 says the render draws "mesh + lights".
\<close>

theorem lights_never_rendered:
  assumes "reachable R w h (Running a)"
  shows "scene_lights (scene_children a) = [dirLight, ambientLight] \<and>
         (\<exists>a'. host_frame R a ts dt sp = Inr a' \<and> store (comp a') RenderTarget1 = R [] (ico a'))"
proof -
  have wf: "app_wf a" using reachable_app_wf [OF assms] .
  obtain a' where a': "host_frame R a ts dt sp = Inr a'" by (simp add: host_frame_wf [OF wf])
  have "store (comp a') RenderTarget1 = R [] (ico a')" using host_frame_wf_result (7) [OF wf a'] by simp
  then show ?thesis using wf a' by (auto simp: app_wf_def)
qed

theorem lights_never_rendered_witness:
  "reachable (\<lambda>ls m. replicate (length ls) 1) 1 1 (Running (projr (start_app 1 1))) \<and>
   scene_lights (scene_children (projr (start_app 1 1))) = [dirLight, ambientLight] \<and>
   (\<exists>a'. host_frame (\<lambda>ls m. replicate (length ls) 1) (projr (start_app 1 1)) 0 0 (\<lambda>_. 0) = Inr a' \<and>
      store (comp a') RenderTarget1 = [])"
  using lights_never_rendered [OF reachable_start [of "\<lambda>ls m. replicate (length ls) 1" 1 1], of 0 0 "\<lambda>_. 0"]
    reachable_start by simp

text \<open>
  C28. In every running state every vertex of the icosahedron lies on the sphere of radius
  2 that line 86 asks for: \<open>applyRadius\<close> never meets the zero vector, since no
  subdivided point is the centre, so \<open>normalize\<close> never falls back to its length-0 case.
\<close>

theorem mesh_on_sphere:
  assumes "reachable R w h (Running a)" "p \<in> set (geometry_position (mesh_geometry (ico a)))"
  shows "dot3 p p = 4"
proof -
  have "mesh_geometry (ico a) = icosahedron_geometry 2 200"
    using reachable_app_wf [OF assms(1)] by (simp add: app_wf_def ico_geometry_def)
  then show ?thesis using icosahedron_geometry_on_sphere [of p 2 200] assms(2) by simp
qed

theorem mesh_on_sphere_witness:
  "reachable (\<lambda>_ _. []) 1 1 (Running (projr (start_app 1 1))) \<and>
   apply_radius 2 (- ico_t, 0, 1) \<in> set (geometry_position (mesh_geometry (ico (projr (start_app 1 1))))) \<and>
   dot3 (apply_radius 2 (- ico_t, 0, 1)) (apply_radius 2 (- ico_t, 0, 1)) = 4"
proof -
  have r: "reachable (\<lambda>_ _. []) 1 1 (Running (projr (start_app 1 1)))" by (rule reachable_start)
  have m: "apply_radius 2 (- ico_t, 0, 1) \<in> set (geometry_position (mesh_geometry (ico (projr (start_app 1 1)))))"
    using ico_geometry_has_vertex by (simp add: start_app_Inr)
  show ?thesis using mesh_on_sphere [OF r m] r m by simp
qed

section \<open>The console\<close>

text \<open>
  C29. Over any run of refreshes from a reachable state, none throws and the console gains
  exactly one line per refresh, the value that refresh wrote to \<open>uAudioFrequency\<close>, in
  the order of the refreshes: \<open>console.log(freq)\<close> (line 53) logs what the shader
  receives, after the write.
\<close>

theorem console_logs_each_frequency:
  assumes "reachable R w h (Running a)"
  shows "\<exists>as. run_trace R a fs = Inr as \<and> length as = length fs \<and>
           console_out (last (a # as)) =
             console_out a @ map (\<lambda>b. the (mesh_uniforms (ico b) ''uAudioFrequency'')) as"
  using assms
proof (induction fs arbitrary: a)
  case Nil
  then show ?case by simp
next
  case (Cons f fs)
  obtain ts dt sp where f: "f = (ts, dt, sp)" by (cases f)
  have wf: "app_wf a" using reachable_app_wf [OF Cons.prems] .
  obtain a1 where h: "host_frame R a ts dt sp = Inr a1" by (simp add: host_frame_wf [OF wf])
  have "reachable R w h (Running a1)"
    by (rule reachable.step [OF Cons.prems session_step.frame [OF h]])
  from Cons.IH [OF this] obtain as where "run_trace R a1 fs = Inr as" "length as = length fs"
    "console_out (last (a1 # as)) = console_out a1 @ map (\<lambda>b. the (mesh_uniforms (ico b) ''uAudioFrequency'')) as"
    by blast
  then show ?case using h host_frame_console [OF wf h] f by (intro exI [of _ "a1 # as"]) simp
qed

theorem console_logs_each_frequency_witness:
  "reachable (\<lambda>_ _. []) 1 1 (Running (projr (start_app 1 1))) \<and>
   (\<exists>as. run_trace (\<lambda>_ _. []) (projr (start_app 1 1)) [(0, 0, \<lambda>_. 0), (16, 16, \<lambda>_. 255)] = Inr as \<and>
      length as = length [(0 :: real, 0 :: real, (\<lambda>_. 0) :: nat \<Rightarrow> byte), (16, 16, \<lambda>_. 255)] \<and>
      console_out (last (projr (start_app 1 1) # as)) =
        console_out (projr (start_app 1 1)) @ map (\<lambda>b. the (mesh_uniforms (ico b) ''uAudioFrequency'')) as)"
  using console_logs_each_frequency [OF reachable_start [of "\<lambda>_ _. []" 1 1],
      of "[(0, 0, \<lambda>_. 0), (16, 16, \<lambda>_. 255)]"] reachable_start by blast

end
